theory Spec2Isabelle
  imports Main "HOL-Library.Word" "HOL-Library.Sublist"
begin

section \<open>Strings\<close>

text \<open>
  A JavaScript string is a sequence of UTF-16 code units. String literals of
  \<^verbatim>\<open>src/index.ts\<close> are written as lists of code units; the printable ASCII part of a
  literal is written with \<open>ascii\<close>. Template literals and \<^verbatim>\<open>+\<close> on strings are list
  concatenation.
\<close>

type_synonym jsstring = "16 word list"

definition ascii :: "string \<Rightarrow> jsstring" where
  "ascii s = map (\<lambda>c. of_char c) s"

text \<open>\<^verbatim>\<open>xs.join(sep)\<close> on an array of strings.\<close>

fun join :: "jsstring \<Rightarrow> jsstring list \<Rightarrow> jsstring" where
  "join sep [] = []"
| "join sep [x] = x"
| "join sep (x # y # ys) = x @ sep @ join sep (y # ys)"

text \<open>
  \<^verbatim>\<open>s.split(c)\<close> for a separator of one code unit: the pieces between the separators,
  always at least one piece.
\<close>

fun split_on :: "16 word \<Rightarrow> jsstring \<Rightarrow> jsstring list" where
  "split_on c [] = [[]]"
| "split_on c (x # xs) =
     (if x = c then [] # split_on c xs
      else (case split_on c xs of
              [] \<Rightarrow> [[x]]
            | p # ps \<Rightarrow> (x # p) # ps))"

text \<open>
  \<^verbatim>\<open>s.trim()\<close> removes white space and line terminators (ECMAScript \<^verbatim>\<open>WhiteSpace\<close> and
  \<^verbatim>\<open>LineTerminator\<close>) from both ends. All of them are single code units.
\<close>

definition is_white_space :: "16 word \<Rightarrow> bool" where
  "is_white_space c \<longleftrightarrow>
     c \<in> set [0x9, 0xA, 0xB, 0xC, 0xD, 0x20, 0xA0, 0x1680, 0x2000, 0x2001, 0x2002, 0x2003,
              0x2004, 0x2005, 0x2006, 0x2007, 0x2008, 0x2009, 0x200A, 0x2028, 0x2029,
              0x202F, 0x205F, 0x3000, 0xFEFF]"

definition trim :: "jsstring \<Rightarrow> jsstring" where
  "trim s = rev (dropWhile is_white_space (rev (dropWhile is_white_space s)))"

text \<open>
  \<^verbatim>\<open>s.toLowerCase()\<close>, used by the source only in \<^verbatim>\<open>s.toLowerCase() === 'true'\<close>. The
  letters A to Z are mapped to a to z. Unicode's case mapping sends no code unit outside
  A to Z to one of the letters t, r, u, e, so leaving the other code units as they are
  does not change the outcome of that comparison.
\<close>

definition to_lower_case :: "jsstring \<Rightarrow> jsstring" where
  "to_lower_case s = map (\<lambda>c. if 0x41 \<le> c \<and> c \<le> 0x5A then c + 0x20 else c) s"

text \<open>\<^verbatim>\<open>s.padStart(n, '0')\<close>.\<close>

definition pad_start_zero :: "nat \<Rightarrow> jsstring \<Rightarrow> jsstring" where
  "pad_start_zero n s = replicate (n - length s) 0x30 @ s"

section \<open>Numbers\<close>

text \<open>
  A JavaScript number is an IEEE 754 binary64 value. \<open>Finite m e\<close> stands for the value
  \<open>m * 2 ^ e\<close>, in normal form (\<open>m\<close> odd, or \<open>m = 0\<close> and \<open>e = 0\<close>), so that two finite
  numbers are the same value exactly when they are the same term. The two zeros are one
  value here: the program never divides by a zero it has not tested with \<^verbatim>\<open>=== 0\<close>,
  and both zeros print as \<^verbatim>\<open>0\<close>, so their sign is not observable.
  Every operation computes the exact result on integers and rounds it once to the
  nearest binary64 value, ties to even, as IEEE 754 prescribes.
\<close>

datatype number = Finite int int | PosInfinity | NegInfinity | NaN

definition pow2 :: "int \<Rightarrow> int" where
  "pow2 e = (if e \<le> 0 then 1 else 2 ^ nat e)"

definition pow10 :: "int \<Rightarrow> int" where
  "pow10 e = (if e \<le> 0 then 1 else 10 ^ nat e)"

function bit_len :: "int \<Rightarrow> int" where
  "bit_len n = (if n \<le> 0 then 0 else 1 + bit_len (n div 2))"
  by pat_completeness auto
termination
  by (relation "measure nat") auto

function norm_pair :: "int \<Rightarrow> int \<Rightarrow> int \<times> int" where
  "norm_pair m e =
     (if m = 0 then (0, 0)
      else if even m then norm_pair (m div 2) (e + 1)
      else (m, e))"
  by pat_completeness auto
termination
  by (relation "measure (\<lambda>(m, e). nat \<bar>m\<bar>)") auto

declare bit_len.simps [simp del] norm_pair.simps [simp del]

definition mk_finite :: "int \<Rightarrow> int \<Rightarrow> number" where
  "mk_finite m e = (case norm_pair m e of (m', e') \<Rightarrow> Finite m' e')"

text \<open>\<open>floor_log2 p q\<close> is the integer part of the binary logarithm of \<open>p / q\<close>, for positive \<open>p\<close>, \<open>q\<close>.\<close>

definition floor_log2 :: "int \<Rightarrow> int \<Rightarrow> int" where
  "floor_log2 p q =
     (let e0 = bit_len p - bit_len q
      in if q * pow2 e0 \<le> p * pow2 (- e0) then e0 else e0 - 1)"

text \<open>
  \<open>round_ratio p q\<close> is the binary64 value nearest to \<open>p / q\<close> (\<open>0 \<le> p\<close>, \<open>0 < q\<close>): a
  mantissa of at most 53 bits, the least exponent \<open>- 1074\<close> (subnormal numbers), overflow
  to infinity from \<open>2 ^ 1024\<close> on.
\<close>

definition round_ratio :: "int \<Rightarrow> int \<Rightarrow> number" where
  "round_ratio p q =
     (if p = 0 then Finite 0 0
      else
        let e = floor_log2 p q;
            u = max (e - 52) (- 1074);
            num = p * pow2 (- u);
            den = q * pow2 u;
            m0 = num div den;
            r = num mod den;
            m = (if den < 2 * r \<or> (2 * r = den \<and> odd m0) then m0 + 1 else m0)
        in if 971 < u \<or> (u = 971 \<and> 2 ^ 53 \<le> m) then PosInfinity else mk_finite m u)"

definition num_neg :: "number \<Rightarrow> number" where
  "num_neg x =
     (case x of
        Finite m e \<Rightarrow> Finite (- m) e
      | PosInfinity \<Rightarrow> NegInfinity
      | NegInfinity \<Rightarrow> PosInfinity
      | NaN \<Rightarrow> NaN)"

definition round_signed :: "int \<Rightarrow> int \<Rightarrow> number" where
  "round_signed p q = (if p < 0 then num_neg (round_ratio (- p) q) else round_ratio p q)"

text \<open>The number denoted by an integer literal, and by a decimal literal \<open>s * 10 ^ e\<close>.\<close>

definition num_of_int :: "int \<Rightarrow> number" where
  "num_of_int i = round_signed i 1"

definition num_of_decimal :: "int \<Rightarrow> int \<Rightarrow> number" where
  "num_of_decimal s e = round_signed (s * pow10 e) (pow10 (- e))"

definition num_sign :: "number \<Rightarrow> int" where
  "num_sign x =
     (case x of Finite m e \<Rightarrow> sgn m | PosInfinity \<Rightarrow> 1 | NegInfinity \<Rightarrow> - 1 | NaN \<Rightarrow> 0)"

definition signed_infinity :: "int \<Rightarrow> number" where
  "signed_infinity s = (if s < 0 then NegInfinity else PosInfinity)"

text \<open>The operators \<^verbatim>\<open>+\<close>, \<^verbatim>\<open>-\<close>, \<^verbatim>\<open>*\<close> and \<^verbatim>\<open>/\<close> on numbers.\<close>

definition num_add :: "number \<Rightarrow> number \<Rightarrow> number" where
  "num_add x y =
     (case (x, y) of
        (NaN, _) \<Rightarrow> NaN
      | (_, NaN) \<Rightarrow> NaN
      | (PosInfinity, NegInfinity) \<Rightarrow> NaN
      | (NegInfinity, PosInfinity) \<Rightarrow> NaN
      | (PosInfinity, _) \<Rightarrow> PosInfinity
      | (NegInfinity, _) \<Rightarrow> NegInfinity
      | (_, PosInfinity) \<Rightarrow> PosInfinity
      | (_, NegInfinity) \<Rightarrow> NegInfinity
      | (Finite m1 e1, Finite m2 e2) \<Rightarrow>
          (let e = min e1 e2
           in round_signed ((m1 * pow2 (e1 - e) + m2 * pow2 (e2 - e)) * pow2 e) (pow2 (- e))))"

definition num_sub :: "number \<Rightarrow> number \<Rightarrow> number" where
  "num_sub x y = num_add x (num_neg y)"

definition num_mul :: "number \<Rightarrow> number \<Rightarrow> number" where
  "num_mul x y =
     (case (x, y) of
        (NaN, _) \<Rightarrow> NaN
      | (_, NaN) \<Rightarrow> NaN
      | (Finite m1 e1, Finite m2 e2) \<Rightarrow>
          round_signed (m1 * m2 * pow2 (e1 + e2)) (pow2 (- (e1 + e2)))
      | _ \<Rightarrow> (if num_sign x * num_sign y = 0 then NaN
               else signed_infinity (num_sign x * num_sign y)))"

definition num_div :: "number \<Rightarrow> number \<Rightarrow> number" where
  "num_div x y =
     (case (x, y) of
        (NaN, _) \<Rightarrow> NaN
      | (_, NaN) \<Rightarrow> NaN
      | (Finite m1 e1, Finite m2 e2) \<Rightarrow>
          (if m2 = 0 then (if m1 = 0 then NaN else signed_infinity m1)
           else round_signed (sgn m2 * m1 * pow2 e1 * pow2 (- e2))
                             (\<bar>m2\<bar> * pow2 e2 * pow2 (- e1)))
      | (Finite m1 e1, _) \<Rightarrow> Finite 0 0
      | (_, Finite m2 e2) \<Rightarrow> signed_infinity (num_sign x * (if m2 < 0 then - 1 else 1))
      | _ \<Rightarrow> NaN)"

text \<open>\<^verbatim>\<open>x === 0\<close>, and the comparisons \<^verbatim>\<open>x <= y\<close> and \<^verbatim>\<open>x < y\<close> (false when an operand is \<^verbatim>\<open>NaN\<close>).\<close>

definition num_is_zero :: "number \<Rightarrow> bool" where
  "num_is_zero x = (case x of Finite m e \<Rightarrow> m = 0 | _ \<Rightarrow> False)"

definition num_le :: "number \<Rightarrow> number \<Rightarrow> bool" where
  "num_le x y =
     (case (x, y) of
        (NaN, _) \<Rightarrow> False
      | (_, NaN) \<Rightarrow> False
      | (NegInfinity, _) \<Rightarrow> True
      | (_, PosInfinity) \<Rightarrow> True
      | (PosInfinity, _) \<Rightarrow> False
      | (_, NegInfinity) \<Rightarrow> False
      | (Finite m1 e1, Finite m2 e2) \<Rightarrow>
          m1 * pow2 (e1 - e2) \<le> m2 * pow2 (e2 - e1))"

definition num_less :: "number \<Rightarrow> number \<Rightarrow> bool" where
  "num_less x y = (num_le x y \<and> \<not> num_le y x)"

text \<open>\<^verbatim>\<open>Math.abs\<close> and \<^verbatim>\<open>Math.floor\<close>.\<close>

definition num_abs :: "number \<Rightarrow> number" where
  "num_abs x =
     (case x of Finite m e \<Rightarrow> Finite \<bar>m\<bar> e | NegInfinity \<Rightarrow> PosInfinity | _ \<Rightarrow> x)"

definition num_floor :: "number \<Rightarrow> number" where
  "num_floor x =
     (case x of Finite m e \<Rightarrow> mk_finite ((m * pow2 e) div pow2 (- e)) 0 | _ \<Rightarrow> x)"

subsection \<open>Number to string\<close>

text \<open>
  \<^verbatim>\<open>Number::toString\<close> of ECMAScript, which template literals, \<^verbatim>\<open>String(x)\<close> and
  \<^verbatim>\<open>JSON.stringify\<close> use: the shortest decimal \<open>s * 10 ^ (n - k)\<close> with \<open>k\<close> digits that
  rounds to the number (the nearest one when several do), printed in positional notation
  when \<open>- 6 < n \<le> 21\<close> and in exponent notation otherwise.
\<close>

definition digit_char :: "int \<Rightarrow> 16 word" where
  "digit_char d = of_int (48 + d)"

function digits_of :: "int \<Rightarrow> jsstring" where
  "digits_of n =
     (if n < 10 then [digit_char n] else digits_of (n div 10) @ [digit_char (n mod 10)])"
  by pat_completeness auto
termination
  by (relation "measure nat") auto

text \<open>\<open>dec_exp p q\<close> is the least \<open>n\<close> with \<open>p / q < 10 ^ n\<close> (binary64 values lie within \<open>10 ^ 400\<close>).\<close>

function dec_exp_up :: "int \<Rightarrow> int \<Rightarrow> int \<Rightarrow> int" where
  "dec_exp_up p q n =
     (if 400 \<le> n \<or> p * pow10 (- n) < q * pow10 n then n else dec_exp_up p q (n + 1))"
  by pat_completeness auto
termination
  by (relation "measure (\<lambda>(p, q, n). nat (400 - n))") auto

function dec_exp_down :: "int \<Rightarrow> int \<Rightarrow> int \<Rightarrow> int" where
  "dec_exp_down p q n =
     (if - 400 < n \<and> p * pow10 (1 - n) < q * pow10 (n - 1) then dec_exp_down p q (n - 1)
      else n)"
  by pat_completeness auto
termination
  by (relation "measure (\<lambda>(p, q, n). nat (400 + n))") auto

definition dec_exp :: "int \<Rightarrow> int \<Rightarrow> int" where
  "dec_exp p q = (if p < q then dec_exp_down p q 0 else dec_exp_up p q 1)"

text \<open>
  The search for the digits: for \<open>k = 1, 2, ...\<close> the two \<open>k\<close>-digit decimals around
  \<open>p / q\<close> are rounded back; the first \<open>k\<close> at which one of them gives \<open>x\<close> again is the
  answer (17 digits always do). The result is \<open>(s, n, k)\<close>.
\<close>

function shortest_digits :: "number \<Rightarrow> int \<Rightarrow> int \<Rightarrow> int \<Rightarrow> int \<Rightarrow> int \<times> int \<times> int" where
  "shortest_digits x p q n k =
     (let num = p * pow10 (k - n);
          den = q * pow10 (n - k);
          lo = num div den;
          r = num mod den;
          ok_lo = (round_ratio (lo * pow10 (n - k)) (pow10 (k - n)) = x);
          ok_hi = (r \<noteq> 0 \<and> round_ratio ((lo + 1) * pow10 (n - k)) (pow10 (k - n)) = x);
          pick_hi = (ok_hi \<and> (\<not> ok_lo \<or> den < 2 * r \<or> (2 * r = den \<and> odd lo)))
      in if 17 \<le> k \<or> ok_lo \<or> ok_hi
         then (if pick_hi
               then (if lo + 1 = pow10 k then (1, n + 1, 1) else (lo + 1, n, k))
               else (lo, n, k))
         else shortest_digits x p q n (k + 1))"
  by pat_completeness auto
termination
  by (relation "measure (\<lambda>(x, p, q, n, k). nat (17 - k))") auto

declare digits_of.simps [simp del] dec_exp_up.simps [simp del] dec_exp_down.simps [simp del]
  shortest_digits.simps [simp del]

definition exponent_part :: "int \<Rightarrow> jsstring" where
  "exponent_part n =
     ascii ''e'' @ (if 0 \<le> n - 1 then ascii ''+'' else ascii ''-'') @ digits_of \<bar>n - 1\<bar>"

definition format_digits :: "int \<Rightarrow> int \<Rightarrow> int \<Rightarrow> jsstring" where
  "format_digits s n k =
     (let ds = digits_of s in
      if k \<le> n \<and> n \<le> 21 then ds @ replicate (nat (n - k)) (digit_char 0)
      else if 0 < n \<and> n \<le> 21 then take (nat n) ds @ ascii ''.'' @ drop (nat n) ds
      else if - 6 < n \<and> n \<le> 0 then ascii ''0.'' @ replicate (nat (- n)) (digit_char 0) @ ds
      else if k = 1 then ds @ exponent_part n
      else take 1 ds @ ascii ''.'' @ drop 1 ds @ exponent_part n)"

definition positive_to_string :: "int \<Rightarrow> int \<Rightarrow> jsstring" where
  "positive_to_string m e =
     (let p = m * pow2 e; q = pow2 (- e)
      in case shortest_digits (mk_finite m e) p q (dec_exp p q) 1 of
           (s, n, k) \<Rightarrow> format_digits s n k)"

definition num_to_string :: "number \<Rightarrow> jsstring" where
  "num_to_string x =
     (case x of
        NaN \<Rightarrow> ascii ''NaN''
      | PosInfinity \<Rightarrow> ascii ''Infinity''
      | NegInfinity \<Rightarrow> ascii ''-Infinity''
      | Finite m e \<Rightarrow>
          (if m = 0 then ascii ''0''
           else if m < 0 then ascii ''-'' @ positive_to_string (- m) e
           else positive_to_string m e))"

section \<open>Values\<close>

text \<open>
  The values a handler meets: what \<^verbatim>\<open>JSON.parse\<close> yields for a request or for the body
  of an upstream reply, and \<^verbatim>\<open>undefined\<close>. An object is the list of its own properties
  in enumeration order.
\<close>

datatype jsvalue =
    JUndefined
  | JNull
  | JBool bool
  | JNum number
  | JStr jsstring
  | JArr "jsvalue list"
  | JObj "(jsstring \<times> jsvalue) list"

text \<open>\<^verbatim>\<open>ToBoolean\<close>: what \<^verbatim>\<open>!v\<close>, \<^verbatim>\<open>v ? a : b\<close> and \<^verbatim>\<open>v || d\<close> test.\<close>

fun truthy :: "jsvalue \<Rightarrow> bool" where
  "truthy JUndefined = False"
| "truthy JNull = False"
| "truthy (JBool b) = b"
| "truthy (JNum x) = (\<not> num_is_zero x \<and> x \<noteq> NaN)"
| "truthy (JStr s) = (s \<noteq> [])"
| "truthy (JArr vs) = True"
| "truthy (JObj ps) = True"

text \<open>\<^verbatim>\<open>v || d\<close>.\<close>

definition or_else :: "jsvalue \<Rightarrow> jsvalue \<Rightarrow> jsvalue" where
  "or_else v d = (if truthy v then v else d)"

text \<open>
  Reading a property of \<^verbatim>\<open>null\<close> or \<^verbatim>\<open>undefined\<close> throws a \<^verbatim>\<open>TypeError\<close>; the
  handlers below test \<open>nullish\<close> where the source reads a property of a value that may
  be one of them.
\<close>

definition nullish :: "jsvalue \<Rightarrow> bool" where
  "nullish v \<longleftrightarrow> v = JNull \<or> v = JUndefined"

text \<open>
  \<^verbatim>\<open>v.key\<close> for a value that is not nullish, and \<^verbatim>\<open>v?.key\<close> for every value: an object
  gives its own property or \<^verbatim>\<open>undefined\<close>, every other value \<^verbatim>\<open>undefined\<close> (none of
  the names the source reads is a property of a string, number, boolean or array
  prototype; \<^verbatim>\<open>length\<close> is read by \<open>length_of\<close>).
\<close>

fun property :: "jsvalue \<Rightarrow> jsstring \<Rightarrow> jsvalue" where
  "property (JObj ps) k = (case map_of ps k of Some v \<Rightarrow> v | None \<Rightarrow> JUndefined)"
| "property v k = JUndefined"

text \<open>\<^verbatim>\<open>v.length\<close> of a value that is neither \<^verbatim>\<open>null\<close> nor \<^verbatim>\<open>undefined\<close>.\<close>

fun length_of :: "jsvalue \<Rightarrow> jsvalue" where
  "length_of (JArr vs) = JNum (num_of_int (int (length vs)))"
| "length_of (JStr s) = JNum (num_of_int (int (length s)))"
| "length_of (JObj ps) = (case map_of ps (ascii ''length'') of Some v \<Rightarrow> v | None \<Rightarrow> JUndefined)"
| "length_of v = JUndefined"

text \<open>\<^verbatim>\<open>v === 0\<close>.\<close>

fun is_zero :: "jsvalue \<Rightarrow> bool" where
  "is_zero (JNum x) = num_is_zero x"
| "is_zero v = False"

text \<open>\<^verbatim>\<open>ToString\<close>, as a template literal applies it to an interpolated value.\<close>

fun to_string :: "jsvalue \<Rightarrow> jsstring" where
  "to_string JUndefined = ascii ''undefined''"
| "to_string JNull = ascii ''null''"
| "to_string (JBool b) = (if b then ascii ''true'' else ascii ''false'')"
| "to_string (JNum x) = num_to_string x"
| "to_string (JStr s) = s"
| "to_string (JArr vs) =
     join (ascii '','')
       (map (\<lambda>v. if v = JUndefined \<or> v = JNull then [] else to_string v) vs)"
| "to_string (JObj ps) = ascii ''[object Object]''"

subsection \<open>JSON.stringify\<close>

definition hex_digit :: "16 word \<Rightarrow> 16 word" where
  "hex_digit d = (if d < 10 then 0x30 + d else 0x57 + d)"

definition unicode_escape :: "16 word \<Rightarrow> jsstring" where
  "unicode_escape c =
     [0x5C, 0x75, hex_digit (c div 0x1000), hex_digit (c div 0x100 mod 0x10),
      hex_digit (c div 0x10 mod 0x10), hex_digit (c mod 0x10)]"

definition is_high_surrogate :: "16 word \<Rightarrow> bool" where
  "is_high_surrogate c \<longleftrightarrow> 0xD800 \<le> c \<and> c \<le> 0xDBFF"

definition is_low_surrogate :: "16 word \<Rightarrow> bool" where
  "is_low_surrogate c \<longleftrightarrow> 0xDC00 \<le> c \<and> c \<le> 0xDFFF"

definition escape_unit :: "16 word \<Rightarrow> jsstring" where
  "escape_unit c =
     (if c = 0x8 then [0x5C, 0x62]
      else if c = 0x9 then [0x5C, 0x74]
      else if c = 0xA then [0x5C, 0x6E]
      else if c = 0xC then [0x5C, 0x66]
      else if c = 0xD then [0x5C, 0x72]
      else if c = 0x22 then [0x5C, 0x22]
      else if c = 0x5C then [0x5C, 0x5C]
      else if c < 0x20 then unicode_escape c
      else [c])"

text \<open>\<^verbatim>\<open>QuoteJSONString\<close> without the enclosing quotes: a surrogate that has no partner is escaped.\<close>

fun escape_units :: "jsstring \<Rightarrow> jsstring" where
  "escape_units [] = []"
| "escape_units [c] =
     (if is_high_surrogate c \<or> is_low_surrogate c then unicode_escape c else escape_unit c)"
| "escape_units (c # d # cs) =
     (if is_high_surrogate c \<and> is_low_surrogate d then c # d # escape_units cs
      else if is_high_surrogate c \<or> is_low_surrogate c then unicode_escape c @ escape_units (d # cs)
      else escape_unit c @ escape_units (d # cs))"

definition quote :: "jsstring \<Rightarrow> jsstring" where
  "quote s = [0x22] @ escape_units s @ [0x22]"

definition indent :: "nat \<Rightarrow> jsstring" where
  "indent n = replicate n 0x20"

definition num_is_finite :: "number \<Rightarrow> bool" where
  "num_is_finite x = (case x of Finite m e \<Rightarrow> True | _ \<Rightarrow> False)"

text \<open>
  \<open>serialize i v\<close> is \<^verbatim>\<open>SerializeJSONProperty\<close> with a gap of two spaces at the
  indentation \<open>i\<close>: a property whose value is \<^verbatim>\<open>undefined\<close> is left out of an object,
  \<^verbatim>\<open>undefined\<close> in an array and a number that is not finite are written \<^verbatim>\<open>null\<close>.
\<close>

fun serialize :: "nat \<Rightarrow> jsvalue \<Rightarrow> jsstring" where
  "serialize i JUndefined = ascii ''null''"
| "serialize i JNull = ascii ''null''"
| "serialize i (JBool b) = (if b then ascii ''true'' else ascii ''false'')"
| "serialize i (JNum x) = (if num_is_finite x then num_to_string x else ascii ''null'')"
| "serialize i (JStr s) = quote s"
| "serialize i (JArr vs) =
     (if vs = [] then ascii ''[]''
      else ascii ''['' @ [0xA] @ indent (i + 2) @
           join (ascii '','' @ [0xA] @ indent (i + 2)) (map (serialize (i + 2)) vs) @
           [0xA] @ indent i @ ascii '']'')"
| "serialize i (JObj ps) =
     (let qs = filter (\<lambda>p. snd p \<noteq> JUndefined) ps in
      if qs = [] then ascii ''{}''
      else ascii ''{'' @ [0xA] @ indent (i + 2) @
           join (ascii '','' @ [0xA] @ indent (i + 2))
             (map (\<lambda>p. quote (fst p) @ ascii '': '' @ serialize (i + 2) (snd p)) qs) @
           [0xA] @ indent i @ ascii ''}'')"

text \<open>\<^verbatim>\<open>JSON.stringify(v, null, 2)\<close>, for the objects and arrays the handlers pass to it.\<close>

definition json_stringify :: "jsvalue \<Rightarrow> jsstring" where
  "json_stringify v = serialize 0 v"

subsection \<open>Base64\<close>

text \<open>\<^verbatim>\<open>Buffer.from(bytes).toString('base64')\<close>: the standard alphabet, padded with \<^verbatim>\<open>=\<close>.\<close>

definition base64_char :: "nat \<Rightarrow> 16 word" where
  "base64_char n =
     (if n < 26 then of_nat (65 + n)
      else if n < 52 then of_nat (97 + (n - 26))
      else if n < 62 then of_nat (48 + (n - 52))
      else if n = 62 then 0x2B
      else 0x2F)"

fun base64 :: "8 word list \<Rightarrow> jsstring" where
  "base64 [] = []"
| "base64 [a] =
     (let x = unat a in
      [base64_char (x div 4), base64_char (x mod 4 * 16), 0x3D, 0x3D])"
| "base64 [a, b] =
     (let x = unat a; y = unat b in
      [base64_char (x div 4), base64_char (x mod 4 * 16 + y div 16),
       base64_char (y mod 16 * 4), 0x3D])"
| "base64 (a # b # c # rest) =
     (let x = unat a; y = unat b; z = unat c in
      [base64_char (x div 4), base64_char (x mod 4 * 16 + y div 16),
       base64_char (y mod 16 * 4 + z div 64), base64_char (z mod 64)] @ base64 rest)"

section \<open>Results and failures\<close>

text \<open>
  What a handler returns: a tool returns \<^verbatim>\<open>{content: [...], annotations?}\<close>, a resource
  \<^verbatim>\<open>{contents: [...]}\<close>, a prompt \<^verbatim>\<open>{messages: [...]}\<close>. A content block is
  \<^verbatim>\<open>{type: 'text', text}\<close> or \<^verbatim>\<open>{type: 'image', data, mimeType}\<close>.
\<close>

datatype content_block = TextBlock jsstring | ImageBlock jsstring jsstring

record annotations =
  audience :: "jsstring list"
  priority :: number

record resource_content =
  rc_uri :: jsstring
  rc_mime_type :: jsstring
  rc_text :: jsstring

record prompt_message =
  msg_role :: jsstring
  msg_content :: content_block

datatype handler_result =
    ToolResult "content_block list" "annotations option"
  | ResourceResult "resource_content list"
  | PromptResult "prompt_message list"

text \<open>\<^verbatim>\<open>{content: [{type: 'text', text: t}]}\<close>\<close>

definition text_result :: "jsstring \<Rightarrow> handler_result" where
  "text_result t = ToolResult [TextBlock t] None"

text \<open>The number of blocks of a result: of its content blocks, resource contents or messages.\<close>

fun block_count :: "handler_result \<Rightarrow> nat" where
  "block_count (ToolResult blocks ann) = length blocks"
| "block_count (ResourceResult contents) = length contents"
| "block_count (PromptResult messages) = length messages"

text \<open>
  What a handler throws: an \<^verbatim>\<open>Error\<close> object with its message, or a value that is not
  an instance of \<^verbatim>\<open>Error\<close>. \<open>Unvalidated\<close> stands for a handler applied to arguments
  that do not have the types of its schema, which the TypeScript types of the source
  exclude.
\<close>

datatype failure = Error jsstring | NonError | Unvalidated

text \<open>\<^verbatim>\<open>error instanceof Error ? error.message : '...'\<close> (lines 205 and 291).\<close>

definition unknown_error :: jsstring where
  "unknown_error = [0xC54C, 0x20, 0xC218, 0x20, 0xC5C6, 0xB294, 0x20, 0xC624, 0xB958]"

definition message_of :: "failure \<Rightarrow> jsstring" where
  "message_of e = (case e of Error m \<Rightarrow> m | _ \<Rightarrow> unknown_error)"

section \<open>The host\<close>

text \<open>
  What the Node.js process and the network give the handlers. An outbound call is
  answered by the host as a function of the calls made so far, and is added to them.
  The URL of a request is kept as its base and its search parameters in the order the
  source sets them.
\<close>

record http_request =
  url_base :: jsstring
  url_params :: "(jsstring \<times> jsstring) list"
  headers :: "(jsstring \<times> jsstring) list"

text \<open>\<^verbatim>\<open>response.ok\<close>, \<^verbatim>\<open>response.status\<close>, \<^verbatim>\<open>response.statusText\<close> and the outcome of \<^verbatim>\<open>await response.json()\<close>.\<close>

record http_response =
  resp_ok :: bool
  resp_status :: number
  resp_status_text :: jsstring
  resp_json :: "failure + jsvalue"

datatype outbound = HttpFetch http_request | TextToImage jsstring jsstring

record host =
  clock :: int
  iso_string :: "int \<Rightarrow> jsstring"
  date_time_format :: "jsstring \<Rightarrow> int \<Rightarrow> failure + jsstring"
  locale_time :: "jsstring \<Rightarrow> int \<Rightarrow> failure + number"
  process_uptime :: number
  process_version :: jsstring
  process_platform :: jsstring
  process_arch :: jsstring
  parse_float :: "jsstring \<Rightarrow> number"
  type_error_message :: "jsstring \<Rightarrow> jsstring"
  fetch_reply :: "outbound list \<Rightarrow> http_request \<Rightarrow> failure + http_response"
  inference_reply :: "outbound list \<Rightarrow> jsstring \<Rightarrow> jsstring \<Rightarrow> failure + 8 word list"
  outbound_calls :: "outbound list"

text \<open>
  \<^item> \<open>clock\<close>: \<^verbatim>\<open>new Date().getTime()\<close>, and \<open>iso_string\<close>: \<^verbatim>\<open>toISOString()\<close> of a date;
  \<^item> \<open>date_time_format tz t\<close>: \<^verbatim>\<open>new Intl.DateTimeFormat('ko-KR', {timeZone: tz, ...}).format(t)\<close>
    with the options of lines 109 to 118; it throws for a time zone the host does not know;
  \<^item> \<open>locale_time tz t\<close>: \<^verbatim>\<open>new Date(t.toLocaleString('en-US', {timeZone: tz})).getTime()\<close>;
  \<^item> \<open>process_uptime\<close>, \<open>process_version\<close>, \<open>process_platform\<close>, \<open>process_arch\<close>:
    \<^verbatim>\<open>process.uptime()\<close>, \<^verbatim>\<open>process.version\<close>, \<^verbatim>\<open>process.platform\<close>, \<^verbatim>\<open>process.arch\<close>;
  \<^item> \<open>parse_float\<close>: \<^verbatim>\<open>parseFloat\<close> on the string of its argument;
  \<^item> \<open>type_error_message\<close>: the message of the \<^verbatim>\<open>TypeError\<close> the engine throws at the
    expression named;
  \<^item> \<open>fetch_reply\<close>: the outcome of \<^verbatim>\<open>await fetch(url, {headers})\<close>;
  \<^item> \<open>inference_reply calls token prompt\<close>: the bytes of the image that
    \<^verbatim>\<open>new InferenceClient(token).textToImage({...inputs: prompt...})\<close> and \<^verbatim>\<open>arrayBuffer()\<close>
    give, or what they throw.
\<close>

definition fetch :: "host \<Rightarrow> http_request \<Rightarrow> (failure + http_response) \<times> host" where
  "fetch h req =
     (fetch_reply h (outbound_calls h) req,
      h\<lparr>outbound_calls := outbound_calls h @ [HttpFetch req]\<rparr>)"

definition text_to_image :: "host \<Rightarrow> jsstring \<Rightarrow> jsstring \<Rightarrow> (failure + 8 word list) \<times> host" where
  "text_to_image h token prompt =
     (inference_reply h (outbound_calls h) token prompt,
      h\<lparr>outbound_calls := outbound_calls h @ [TextToImage token prompt]\<rparr>)"

section \<open>The handlers\<close>

subsection \<open>greeting (lines 37 to 51)\<close>

definition greeting :: "jsstring \<Rightarrow> jsstring \<Rightarrow> failure + handler_result" where
  "greeting name language =
     (let greeting_text =
            (if language = ascii ''ko''
             then [0xC548, 0xB155, 0xD558, 0xC138, 0xC694, 0x2C, 0x20] @ name @ [0xB2D8, 0x21, 0x20, 0xD83D, 0xDE0A]
             else ascii ''Hello, '' @ name @ [0x21, 0x20, 0xD83D, 0xDC4B])
      in Inr (text_result greeting_text))"

subsection \<open>calculator (lines 64 to 93)\<close>

definition division_by_zero_message :: jsstring where
  "division_by_zero_message =
     [0x30, 0xC73C, 0xB85C, 0x20, 0xB098, 0xB20C, 0x20, 0xC218, 0x20, 0xC5C6, 0xC2B5, 0xB2C8,
     0xB2E4]"

definition unsupported_operator_message :: jsstring where
  "unsupported_operator_message =
     [0xC9C0, 0xC6D0, 0xD558, 0xC9C0, 0x20, 0xC54A, 0xB294, 0x20, 0xC5F0, 0xC0B0, 0xC790,
     0xC785, 0xB2C8, 0xB2E4]"

text \<open>The \<^verbatim>\<open>switch\<close> of lines 67 to 83: the value of \<^verbatim>\<open>result\<close>, or the error thrown.\<close>

definition calculate :: "number \<Rightarrow> number \<Rightarrow> jsstring \<Rightarrow> failure + number" where
  "calculate a b operator =
     (if operator = ascii ''+'' then Inr (num_add a b)
      else if operator = ascii ''-'' then Inr (num_sub a b)
      else if operator = ascii ''*'' then Inr (num_mul a b)
      else if operator = ascii ''/'' then
        (if num_is_zero b then Inl (Error division_by_zero_message) else Inr (num_div a b))
      else Inl (Error unsupported_operator_message))"

definition calculator :: "number \<Rightarrow> number \<Rightarrow> jsstring \<Rightarrow> failure + handler_result" where
  "calculator a b operator =
     (case calculate a b operator of
        Inl e \<Rightarrow> Inl e
      | Inr result \<Rightarrow>
          Inr (text_result
                 (num_to_string a @ ascii '' '' @ operator @ ascii '' '' @ num_to_string b @
                  ascii '' = '' @ num_to_string result)))"

subsection \<open>get_time (lines 104 to 155)\<close>

definition invalid_time_zone_message :: "jsstring \<Rightarrow> jsstring" where
  "invalid_time_zone_message time_zone =
     [0xC720, 0xD6A8, 0xD558, 0xC9C0, 0x20, 0xC54A, 0xC740, 0x20, 0xD0C0, 0xC784, 0xC874,
       0xC785, 0xB2C8, 0xB2E4, 0x3A, 0x20] @
     time_zone @
     ascii ''. IANA '' @ [0xD0C0, 0xC784, 0xC874, 0x20, 0xD615, 0xC2DD, 0x28, 0xC608] @
       ascii '': America/New_York)'' @ [0xC744, 0x20, 0xC0AC, 0xC6A9, 0xD574, 0xC8FC,
       0xC138, 0xC694, 0x2E]"

text \<open>Lines 126 to 130: the offset in hours and its rendering \<^verbatim>\<open>UTC+hh:mm\<close>.\<close>

definition offset_string :: "number \<Rightarrow> number \<Rightarrow> jsstring" where
  "offset_string tz_ms utc_ms =
     (let offset = num_div (num_sub tz_ms utc_ms) (num_of_int (1000 * 60 * 60));
          offset_hours = num_floor (num_abs offset);
          offset_minutes = num_floor (num_mul (num_sub (num_abs offset) offset_hours) (num_of_int 60));
          offset_sign = (if num_le (num_of_int 0) offset then ascii ''+'' else ascii ''-'')
      in ascii ''UTC'' @ offset_sign @ pad_start_zero 2 (num_to_string offset_hours) @
         ascii '':'' @ pad_start_zero 2 (num_to_string offset_minutes))"

text \<open>\<^verbatim>\<open>xs[i]\<close> of an array of strings: \<^verbatim>\<open>undefined\<close> out of range.\<close>

definition element_at :: "jsstring list \<Rightarrow> nat \<Rightarrow> jsvalue" where
  "element_at xs i = (if i < length xs then JStr (xs ! i) else JUndefined)"

text \<open>The body of the \<^verbatim>\<open>try\<close> block, lines 106 to 149.\<close>

definition time_info :: "host \<Rightarrow> jsstring \<Rightarrow> failure + jsvalue" where
  "time_info h time_zone =
     (let now = clock h in
      case date_time_format h time_zone now of
        Inl e \<Rightarrow> Inl e
      | Inr formatted_time \<Rightarrow>
          (let utc_time = iso_string h now in
           case locale_time h (ascii ''UTC'') now of
             Inl e \<Rightarrow> Inl e
           | Inr utc_ms \<Rightarrow>
               (case locale_time h time_zone now of
                  Inl e \<Rightarrow> Inl e
                | Inr tz_ms \<Rightarrow>
                    Inr (JObj
                      [(ascii ''timezone'', JStr time_zone),
                       (ascii ''localTime'', JStr formatted_time),
                       (ascii ''utcTime'', JStr utc_time),
                       (ascii ''offset'', JStr (offset_string tz_ms utc_ms)),
                       (ascii ''timestamp'', JNum (num_of_int now)),
                       (ascii ''date'', element_at (split_on 0x20 formatted_time) 0),
                       (ascii ''time'', element_at (split_on 0x20 formatted_time) 1)]))))"

definition get_time :: "host \<Rightarrow> jsstring \<Rightarrow> failure + handler_result" where
  "get_time h time_zone =
     (case time_info h time_zone of
        Inl e \<Rightarrow> Inl (Error (invalid_time_zone_message time_zone))
      | Inr info \<Rightarrow> Inr (text_result (json_stringify info)))"

subsection \<open>generate_image (lines 164 to 209)\<close>

definition missing_token_message :: jsstring where
  "missing_token_message =
     ascii ''hfToken '' @ [0xC124, 0xC815, 0xC774, 0x20, 0xD544, 0xC694, 0xD569, 0xB2C8,
     0xB2E4] @ ascii ''. Smithery '' @ [0xC124, 0xC815, 0xC5D0, 0xC11C] @
     ascii '' Hugging Face API '' @ [0xD1A0, 0xD070, 0xC744, 0x20, 0xC785, 0xB825,
     0xD574, 0xC8FC, 0xC138, 0xC694, 0x2E]"

definition image_error_message :: "failure \<Rightarrow> jsstring" where
  "image_error_message e =
     [0xC774, 0xBBF8, 0xC9C0, 0x20, 0xC0DD, 0xC131, 0x20, 0xC911, 0x20, 0xC624, 0xB958,
     0xAC00, 0x20, 0xBC1C, 0xC0DD, 0xD588, 0xC2B5, 0xB2C8, 0xB2E4, 0x3A, 0x20] @
     message_of e"

text \<open>
  The body of the \<^verbatim>\<open>try\<close> block. \<^verbatim>\<open>!config.hfToken\<close> holds for a token that is absent
  or empty.
\<close>

definition image_body :: "jsstring option \<Rightarrow> host \<Rightarrow> jsstring \<Rightarrow> (failure + handler_result) \<times> host" where
  "image_body hf_token h prompt =
     (case hf_token of
        None \<Rightarrow> (Inl (Error missing_token_message), h)
      | Some token \<Rightarrow>
          if token = [] then (Inl (Error missing_token_message), h)
          else
            (case text_to_image h token prompt of
               (Inl e, h') \<Rightarrow> (Inl e, h')
             | (Inr bytes, h') \<Rightarrow>
                 (Inr (ToolResult [ImageBlock (base64 bytes) (ascii ''image/png'')]
                         (Some \<lparr>audience = [ascii ''user''], priority = num_of_decimal 9 (- 1)\<rparr>)),
                  h')))"

definition generate_image :: "jsstring option \<Rightarrow> host \<Rightarrow> jsstring \<Rightarrow> (failure + handler_result) \<times> host" where
  "generate_image hf_token h prompt =
     (case image_body hf_token h prompt of
        (Inl e, h') \<Rightarrow> (Inl (Error (image_error_message e)), h')
      | (Inr r, h') \<Rightarrow> (Inr r, h'))"

subsection \<open>geocode (lines 227 to 295)\<close>

definition geocode_request :: "jsstring \<Rightarrow> number \<Rightarrow> http_request" where
  "geocode_request query limit =
     \<lparr>url_base = ascii ''https://nominatim.openstreetmap.org/search'',
      url_params =
        [(ascii ''q'', query),
         (ascii ''format'', ascii ''jsonv2''),
         (ascii ''limit'', num_to_string limit),
         (ascii ''addressdetails'', ascii ''1'')],
      headers =
        [(ascii ''User-Agent'', ascii ''typescript-mcp-server/1.0.0''),
         (ascii ''Accept-Language'', ascii ''ko,en'')]\<rparr>"

definition nominatim_error_message :: "http_response \<Rightarrow> jsstring" where
  "nominatim_error_message response =
     ascii ''Nominatim API '' @ [0xC624, 0xB958, 0x3A, 0x20] @
     num_to_string (resp_status response) @ ascii '' '' @ resp_status_text response"

definition no_results_message :: "jsstring \<Rightarrow> jsstring" where
  "no_results_message query =
     [0x22] @ query @
     [0x22, 0xC5D0, 0x20, 0xB300, 0xD55C, 0x20, 0xAC80, 0xC0C9, 0x20, 0xACB0, 0xACFC, 0xAC00,
       0x20, 0xC5C6, 0xC2B5, 0xB2C8, 0xB2E4, 0x2E]"

definition geocode_error_message :: "failure \<Rightarrow> jsstring" where
  "geocode_error_message e =
     [0xC9C0, 0xC624, 0xCF54, 0xB529, 0x20, 0xC911, 0x20, 0xC624, 0xB958, 0xAC00, 0x20,
     0xBC1C, 0xC0DD, 0xD588, 0xC2B5, 0xB2C8, 0xB2E4, 0x3A, 0x20] @
     message_of e"

text \<open>
  The callback of \<^verbatim>\<open>results.map\<close>, lines 262 to 278: the object built for the element
  \<open>r\<close>, or \<open>None\<close> when reading \<^verbatim>\<open>r.display_name\<close> throws.
\<close>

definition geocode_entry :: "host \<Rightarrow> jsvalue \<Rightarrow> jsvalue option" where
  "geocode_entry h r =
     (if nullish r then None
      else Some (JObj
        [(ascii ''display_name'', property r (ascii ''display_name'')),
         (ascii ''latitude'', JNum (parse_float h (to_string (property r (ascii ''lat''))))),
         (ascii ''longitude'', JNum (parse_float h (to_string (property r (ascii ''lon''))))),
         (ascii ''coordinates'', JObj
            [(ascii ''lat'', JNum (parse_float h (to_string (property r (ascii ''lat''))))),
             (ascii ''lon'', JNum (parse_float h (to_string (property r (ascii ''lon'')))))]),
         (ascii ''place_id'', property r (ascii ''place_id'')),
         (ascii ''osm_type'', property r (ascii ''osm_type'')),
         (ascii ''osm_id'', property r (ascii ''osm_id'')),
         (ascii ''type'', property r (ascii ''type'')),
         (ascii ''category'', property r (ascii ''category'')),
         (ascii ''importance'', property r (ascii ''importance'')),
         (ascii ''address'', or_else (property r (ascii ''address'')) JNull),
         (ascii ''boundingbox'', or_else (property r (ascii ''boundingbox'')) JNull)]))"

text \<open>
  Lines 250 to 287, from the parsed body on. \<^verbatim>\<open>results.map\<close> is a function only when
  \<^verbatim>\<open>results\<close> is an array; calling it on another value throws a \<^verbatim>\<open>TypeError\<close>.
\<close>

definition geocode_results :: "host \<Rightarrow> jsstring \<Rightarrow> jsvalue \<Rightarrow> failure + handler_result" where
  "geocode_results h query results =
     (if \<not> truthy results \<or> is_zero (length_of results)
      then Inr (text_result (no_results_message query))
      else
        (case results of
           JArr rs \<Rightarrow>
             (case those (map (geocode_entry h) rs) of
                None \<Rightarrow> Inl (Error (type_error_message h (ascii ''r.display_name'')))
              | Some formatted \<Rightarrow> Inr (text_result (json_stringify (JArr formatted))))
         | _ \<Rightarrow> Inl (Error (type_error_message h (ascii ''results.map'')))))"

text \<open>The body of the \<^verbatim>\<open>try\<close> block.\<close>

definition geocode_body :: "host \<Rightarrow> jsstring \<Rightarrow> number \<Rightarrow> (failure + handler_result) \<times> host" where
  "geocode_body h query limit =
     (case fetch h (geocode_request query limit) of
        (Inl e, h') \<Rightarrow> (Inl e, h')
      | (Inr response, h') \<Rightarrow>
          (if \<not> resp_ok response then Inl (Error (nominatim_error_message response))
           else
             (case resp_json response of
                Inl e \<Rightarrow> Inl e
              | Inr results \<Rightarrow> geocode_results h' query results),
           h'))"

definition geocode :: "host \<Rightarrow> jsstring \<Rightarrow> number \<Rightarrow> (failure + handler_result) \<times> host" where
  "geocode h query limit =
     (case geocode_body h query limit of
        (Inl e, h') \<Rightarrow> (Inl (Error (geocode_error_message e)), h')
      | (Inr r, h') \<Rightarrow> (Inr r, h'))"

subsection \<open>get_weather (lines 317 to 389)\<close>

definition weather_request :: "number \<Rightarrow> number \<Rightarrow> jsstring \<Rightarrow> number \<Rightarrow> http_request" where
  "weather_request latitude longitude timezone forecast_days =
     \<lparr>url_base = ascii ''https://api.open-meteo.com/v1/forecast'',
      url_params =
        [(ascii ''latitude'', num_to_string latitude),
         (ascii ''longitude'', num_to_string longitude),
         (ascii ''timezone'', timezone),
         (ascii ''forecast_days'', num_to_string forecast_days),
         (ascii ''current'',
          ascii ''temperature_2m,relative_humidity_2m,weather_code,wind_speed_10m''),
         (ascii ''daily'',
          ascii ''temperature_2m_max,temperature_2m_min,precipitation_sum,weather_code'')],
      headers = [(ascii ''User-Agent'', ascii ''typescript-mcp-server/1.0.0'')]\<rparr>"

definition open_meteo_error :: "jsstring \<Rightarrow> failure" where
  "open_meteo_error detail =
     Error (ascii ''Open-Meteo API '' @ [0xC624, 0xB958, 0x3A, 0x20] @ detail)"

text \<open>The object \<^verbatim>\<open>formatted\<close>, lines 348 to 379, for \<^verbatim>\<open>data\<close> that is not nullish.\<close>

definition weather_report :: "jsvalue \<Rightarrow> jsvalue" where
  "weather_report data =
     (let current = property data (ascii ''current'');
          daily = property data (ascii ''daily'');
          current_units = property data (ascii ''current_units'');
          daily_units = property data (ascii ''daily_units'')
      in JObj
        [(ascii ''location'', JObj
            [(ascii ''latitude'', property data (ascii ''latitude'')),
             (ascii ''longitude'', property data (ascii ''longitude'')),
             (ascii ''timezone'', property data (ascii ''timezone'')),
             (ascii ''elevation'', property data (ascii ''elevation''))]),
         (ascii ''current'',
            if truthy current
            then JObj
              [(ascii ''temperature'', property current (ascii ''temperature_2m'')),
               (ascii ''humidity'', property current (ascii ''relative_humidity_2m'')),
               (ascii ''weather_code'', property current (ascii ''weather_code'')),
               (ascii ''wind_speed'', property current (ascii ''wind_speed_10m'')),
               (ascii ''time'', property current (ascii ''time''))]
            else JNull),
         (ascii ''daily'',
            if truthy daily
            then JObj
              [(ascii ''time'', property daily (ascii ''time'')),
               (ascii ''temperature_max'', property daily (ascii ''temperature_2m_max'')),
               (ascii ''temperature_min'', property daily (ascii ''temperature_2m_min'')),
               (ascii ''precipitation'', property daily (ascii ''precipitation_sum'')),
               (ascii ''weather_code'', property daily (ascii ''weather_code''))]
            else JNull),
         (ascii ''units'', JObj
            [(ascii ''temperature'',
              or_else (property current_units (ascii ''temperature_2m'')) (JStr ([0xB0, 0x43]))),
             (ascii ''humidity'',
              or_else (property current_units (ascii ''relative_humidity_2m'')) (JStr (ascii ''%''))),
             (ascii ''wind_speed'',
              or_else (property current_units (ascii ''wind_speed_10m'')) (JStr (ascii ''km/h''))),
             (ascii ''precipitation'',
              or_else (property daily_units (ascii ''precipitation_sum'')) (JStr (ascii ''mm'')))])])"

text \<open>Lines 342 to 388, from the parsed body on.\<close>

definition weather_results :: "host \<Rightarrow> jsvalue \<Rightarrow> failure + handler_result" where
  "weather_results h data =
     (if nullish data then Inl (Error (type_error_message h (ascii ''data.error'')))
      else if truthy (property data (ascii ''error''))
      then Inl (open_meteo_error
                  (to_string (or_else (property data (ascii ''reason'')) (JStr unknown_error))))
      else Inr (text_result (json_stringify (weather_report data))))"

definition get_weather ::
  "host \<Rightarrow> number \<Rightarrow> number \<Rightarrow> jsstring \<Rightarrow> number \<Rightarrow> (failure + handler_result) \<times> host" where
  "get_weather h latitude longitude timezone forecast_days =
     (case fetch h (weather_request latitude longitude timezone forecast_days) of
        (Inl e, h') \<Rightarrow> (Inl e, h')
      | (Inr response, h') \<Rightarrow>
          (if \<not> resp_ok response
           then Inl (open_meteo_error (num_to_string (resp_status response)))
           else
             (case resp_json response of
                Inl e \<Rightarrow> Inl e
              | Inr data \<Rightarrow> weather_results h' data),
           h'))"

subsection \<open>The resource server://info (lines 401 to 587)\<close>

text \<open>The array \<^verbatim>\<open>availableTools\<close>, lines 403 to 519.\<close>

definition available_tools :: jsvalue where
  "available_tools =
     JArr
      [JObj
        [(ascii ''name'', JStr (ascii ''greeting'')),
         (ascii ''description'',
           JStr ([0xC778, 0xC0AC, 0xD558, 0xAE30, 0x20, 0x2D, 0x20, 0xC774, 0xB984,
                0xACFC, 0x20, 0xC5B8, 0xC5B4, 0xB97C, 0x20, 0xC785, 0xB825, 0xBC1B,
                0xC544, 0x20, 0xC778, 0xC0AC, 0x20, 0xBA54, 0xC2DC, 0xC9C0, 0xB97C,
                0x20, 0xBC18, 0xD658, 0xD569, 0xB2C8, 0xB2E4])),
         (ascii ''parameters'', JObj
           [(ascii ''name'', JObj
              [(ascii ''type'', JStr (ascii ''string'')),
               (ascii ''description'',
                 JStr ([0xC778, 0xC0AC, 0xD560, 0x20, 0xC0AC, 0xB78C, 0xC758, 0x20,
                      0xC774, 0xB984])),
               (ascii ''required'', JBool True)]),
            (ascii ''language'', JObj
              [(ascii ''type'', JStr (ascii ''enum'')),
               (ascii ''values'', JArr [JStr (ascii ''ko''), JStr (ascii ''en'')]),
               (ascii ''description'',
                 JStr ([0xC778, 0xC0AC, 0x20, 0xC5B8, 0xC5B4, 0x20, 0x28, 0xAE30, 0xBCF8,
                      0xAC12] @ ascii '': ko)'')),
               (ascii ''required'', JBool False),
               (ascii ''default'', JStr (ascii ''ko''))])])],
       JObj
        [(ascii ''name'', JStr (ascii ''calculator'')),
         (ascii ''description'',
           JStr ([0xACC4, 0xC0B0, 0xAE30, 0x20, 0x2D, 0x20, 0xB450, 0x20, 0xAC1C, 0xC758,
                0x20, 0xC22B, 0xC790, 0xC640, 0x20, 0xC5F0, 0xC0B0, 0xC790, 0xB97C,
                0x20, 0xC785, 0xB825, 0xBC1B, 0xC544, 0x20, 0xC0AC, 0xCE59, 0xC5F0,
                0xC0B0, 0x20, 0xACB0, 0xACFC, 0xB97C, 0x20, 0xBC18, 0xD658, 0xD569,
                0xB2C8, 0xB2E4])),
         (ascii ''parameters'', JObj
           [(ascii ''a'', JObj
              [(ascii ''type'', JStr (ascii ''number'')),
               (ascii ''description'',
                 JStr ([0xCCAB, 0x20, 0xBC88, 0xC9F8, 0x20, 0xC22B, 0xC790])),
               (ascii ''required'', JBool True)]),
            (ascii ''b'', JObj
              [(ascii ''type'', JStr (ascii ''number'')),
               (ascii ''description'',
                 JStr ([0xB450, 0x20, 0xBC88, 0xC9F8, 0x20, 0xC22B, 0xC790])),
               (ascii ''required'', JBool True)]),
            (ascii ''operator'', JObj
              [(ascii ''type'', JStr (ascii ''enum'')),
               (ascii ''values'', JArr
                 [JStr (ascii ''+''),
                  JStr (ascii ''-''),
                  JStr (ascii ''*''),
                  JStr (ascii ''/'')]),
               (ascii ''description'',
                 JStr ([0xC5F0, 0xC0B0, 0xC790] @ ascii '' (+, -, *, /)'')),
               (ascii ''required'', JBool True)])])],
       JObj
        [(ascii ''name'', JStr (ascii ''get_time'')),
         (ascii ''description'',
           JStr (ascii ''TIME MCP - '' @ [0xD0C0, 0xC784, 0xC874, 0xC744, 0x20, 0xC785,
                0xB825, 0xBC1B, 0xC544, 0x20, 0xD574, 0xB2F9, 0x20, 0xC9C0, 0xC5ED,
                0xC758, 0x20, 0xD604, 0xC7AC, 0x20, 0xC2DC, 0xAC04, 0x20, 0xC815,
                0xBCF4, 0xB97C, 0x20, 0xBC18, 0xD658, 0xD569, 0xB2C8, 0xB2E4])),
         (ascii ''parameters'', JObj
           [(ascii ''timeZone'', JObj
              [(ascii ''type'', JStr (ascii ''string'')),
               (ascii ''description'',
                 JStr (ascii ''IANA '' @ [0xD0C0, 0xC784, 0xC874, 0x20, 0xC774, 0xB984,
                      0x20, 0x28, 0xC608] @
                      ascii '': America/New_York, Europe/London, Asia/Seoul)'')),
               (ascii ''required'', JBool True)])])],
       JObj
        [(ascii ''name'', JStr (ascii ''generate_image'')),
         (ascii ''description'',
           JStr ([0xC774, 0xBBF8, 0xC9C0, 0x20, 0xC0DD, 0xC131, 0x20, 0x2D, 0x20, 0xD504,
                0xB86C, 0xD504, 0xD2B8, 0xB97C, 0x20, 0xC785, 0xB825, 0xBC1B, 0xC544,
                0x20, 0x41, 0x49, 0xB85C, 0x20, 0xC0DD, 0xC131, 0xD55C, 0x20, 0xC774,
                0xBBF8, 0xC9C0, 0xB97C, 0x20, 0xBC18, 0xD658, 0xD569, 0xB2C8, 0xB2E4] @
                ascii '' (Hugging Face API '' @ [0xC0AC, 0xC6A9, 0x29])),
         (ascii ''parameters'', JObj
           [(ascii ''prompt'', JObj
              [(ascii ''type'', JStr (ascii ''string'')),
               (ascii ''description'',
                 JStr ([0xC774, 0xBBF8, 0xC9C0, 0x20, 0xC0DD, 0xC131, 0xC744, 0x20,
                      0xC704, 0xD55C, 0x20, 0xD504, 0xB86C, 0xD504, 0xD2B8])),
               (ascii ''required'', JBool True)])])],
       JObj
        [(ascii ''name'', JStr (ascii ''geocode'')),
         (ascii ''description'',
           JStr (ascii ''Geocode MCP - '' @ [0xB3C4, 0xC2DC, 0x20, 0xC774, 0xB984,
                0xC774, 0xB098, 0x20, 0xC8FC, 0xC18C, 0xB97C, 0x20, 0xC785, 0xB825,
                0xBC1B, 0xC544, 0x20, 0xC704, 0xB3C4, 0x2F, 0xACBD, 0xB3C4, 0x20,
                0xC88C, 0xD45C, 0xB97C, 0x20, 0xBC18, 0xD658, 0xD569, 0xB2C8, 0xB2E4] @
                ascii '' (Nominatim OpenStreetMap API '' @ [0xC0AC, 0xC6A9, 0x29])),
         (ascii ''parameters'', JObj
           [(ascii ''query'', JObj
              [(ascii ''type'', JStr (ascii ''string'')),
               (ascii ''description'',
                 JStr ([0xAC80, 0xC0C9, 0xD560, 0x20, 0xB3C4, 0xC2DC, 0x20, 0xC774,
                      0xB984, 0x20, 0xB610, 0xB294, 0x20, 0xC8FC, 0xC18C, 0x20, 0x28,
                      0xC608, 0x3A, 0x20, 0x22] @ ascii ''Seoul'' @ [0x22, 0x2C, 0x20,
                      0x22] @ ascii ''New York'' @ [0x22, 0x2C, 0x20, 0x22, 0xC11C,
                      0xC6B8, 0xC2DC, 0x20, 0xAC15, 0xB0A8, 0xAD6C, 0x22, 0x29])),
               (ascii ''required'', JBool True)]),
            (ascii ''limit'', JObj
              [(ascii ''type'', JStr (ascii ''number'')),
               (ascii ''description'',
                 JStr ([0xBC18, 0xD658, 0xD560, 0x20, 0xACB0, 0xACFC, 0x20, 0xC218, 0x20,
                      0x28, 0xAE30, 0xBCF8, 0xAC12] @ ascii '': 1, '' @ [0xCD5C, 0xB300]
                      @ ascii '': 40)'')),
               (ascii ''required'', JBool False),
               (ascii ''default'', JNum (num_of_int 1)),
               (ascii ''min'', JNum (num_of_int 1)),
               (ascii ''max'', JNum (num_of_int 40))])])],
       JObj
        [(ascii ''name'', JStr (ascii ''get_weather'')),
         (ascii ''description'',
           JStr ([0xB0A0, 0xC528, 0x20, 0xC815, 0xBCF4, 0x20, 0x2D, 0x20, 0xC704, 0xB3C4,
                0x2F, 0xACBD, 0xB3C4, 0x20, 0xC88C, 0xD45C, 0xB97C, 0x20, 0xC785,
                0xB825, 0xBC1B, 0xC544, 0x20, 0xD574, 0xB2F9, 0x20, 0xC9C0, 0xC5ED,
                0xC758, 0x20, 0xB0A0, 0xC528, 0x20, 0xC815, 0xBCF4, 0xB97C, 0x20,
                0xBC18, 0xD658, 0xD569, 0xB2C8, 0xB2E4] @ ascii '' (Open-Meteo API '' @
                [0xC0AC, 0xC6A9, 0x29])),
         (ascii ''parameters'', JObj
           [(ascii ''latitude'', JObj
              [(ascii ''type'', JStr (ascii ''number'')),
               (ascii ''description'', JStr ([0xC704, 0xB3C4] @ ascii '' (WGS84)'')),
               (ascii ''required'', JBool True),
               (ascii ''min'', JNum (num_of_int (- 90))),
               (ascii ''max'', JNum (num_of_int 90))]),
            (ascii ''longitude'', JObj
              [(ascii ''type'', JStr (ascii ''number'')),
               (ascii ''description'', JStr ([0xACBD, 0xB3C4] @ ascii '' (WGS84)'')),
               (ascii ''required'', JBool True),
               (ascii ''min'', JNum (num_of_int (- 180))),
               (ascii ''max'', JNum (num_of_int 180))]),
            (ascii ''timezone'', JObj
              [(ascii ''type'', JStr (ascii ''string'')),
               (ascii ''description'',
                 JStr ([0xC2DC, 0xAC04, 0xB300, 0x20, 0x28, 0xAE30, 0xBCF8, 0xAC12] @
                      ascii '': auto - '' @ [0xC790, 0xB3D9, 0x20, 0xAC10, 0xC9C0, 0x29])),
               (ascii ''required'', JBool False),
               (ascii ''default'', JStr (ascii ''auto''))]),
            (ascii ''forecast_days'', JObj
              [(ascii ''type'', JStr (ascii ''number'')),
               (ascii ''description'',
                 JStr ([0xC608, 0xBCF4, 0x20, 0xC77C, 0xC218, 0x20, 0x28, 0xAE30, 0xBCF8,
                      0xAC12] @ ascii '': 3, '' @ [0xCD5C, 0xB300] @ ascii '': 16)'')),
               (ascii ''required'', JBool False),
               (ascii ''default'', JNum (num_of_int 3)),
               (ascii ''min'', JNum (num_of_int 1)),
               (ascii ''max'', JNum (num_of_int 16))])])]]"

text \<open>The object \<^verbatim>\<open>serverInfo\<close>, lines 521 to 576.\<close>

definition server_info :: "host \<Rightarrow> jsvalue" where
  "server_info h =
     JObj
      [(ascii ''server'', JObj
         [(ascii ''name'', JStr (ascii ''typescript-mcp-server'')),
          (ascii ''version'', JStr (ascii ''1.0.0'')),
          (ascii ''description'',
            JStr (ascii ''TypeScript MCP Server '' @ [0xBCF4, 0xC77C, 0xB7EC, 0xD50C,
                 0xB808, 0xC774, 0xD2B8])),
          (ascii ''timestamp'', JStr (iso_string h (clock h))),
          (ascii ''uptime'', JNum (process_uptime h)),
          (ascii ''nodeVersion'', JStr (process_version h)),
          (ascii ''platform'', JStr (process_platform h)),
          (ascii ''architecture'', JStr (process_arch h))]),
       (ascii ''capabilities'', JObj
         [(ascii ''tools'', length_of available_tools),
          (ascii ''resources'', JNum (num_of_int 1)),
          (ascii ''prompts'', JNum (num_of_int 1))]),
       (ascii ''tools'', available_tools),
       (ascii ''resources'', JArr
         [JObj
           [(ascii ''uri'', JStr (ascii ''server://info'')),
            (ascii ''name'',
              JStr ([0xC11C, 0xBC84, 0x20, 0xC815, 0xBCF4, 0x20, 0xBC0F, 0x20, 0xB3C4,
                   0xAD6C, 0x20, 0xBAA9, 0xB85D])),
            (ascii ''description'',
              JStr ([0xD604, 0xC7AC, 0x20, 0xC11C, 0xBC84, 0x20, 0xC815, 0xBCF4, 0xC640,
                   0x20, 0xC0AC, 0xC6A9, 0x20, 0xAC00, 0xB2A5, 0xD55C, 0x20, 0xBAA8,
                   0xB4E0, 0x20, 0xB3C4, 0xAD6C, 0x20, 0xC815, 0xBCF4, 0xB97C, 0x20,
                   0xBC18, 0xD658, 0xD569, 0xB2C8, 0xB2E4]))]]),
       (ascii ''prompts'', JArr
         [JObj
           [(ascii ''name'', JStr (ascii ''code_review'')),
            (ascii ''description'',
              JStr (ascii ''Code Review MCP - '' @ [0xCF54, 0xB4DC, 0xB97C, 0x20, 0xC785,
                   0xB825, 0xBC1B, 0xC544, 0x20, 0xBBF8, 0xB9AC, 0x20, 0xC815, 0xC758,
                   0xB41C, 0x20, 0xD504, 0xB86C, 0xD504, 0xD2B8, 0x20, 0xD15C, 0xD50C,
                   0xB9BF, 0xC744, 0x20, 0xACB0, 0xD569, 0xD558, 0xC5EC, 0x20, 0xC0C1,
                   0xC138, 0xD55C, 0x20, 0xCF54, 0xB4DC, 0x20, 0xB9AC, 0xBDF0, 0xB97C,
                   0x20, 0xC81C, 0xACF5, 0xD569, 0xB2C8, 0xB2E4])),
            (ascii ''parameters'', JObj
              [(ascii ''code'', JObj
                 [(ascii ''type'', JStr (ascii ''string'')),
                  (ascii ''description'',
                    JStr ([0xB9AC, 0xBDF0, 0xD560, 0x20, 0xCF54, 0xB4DC])),
                  (ascii ''required'', JBool True)]),
               (ascii ''language'', JObj
                 [(ascii ''type'', JStr (ascii ''string'')),
                  (ascii ''description'',
                    JStr ([0xCF54, 0xB4DC, 0x20, 0xC5B8, 0xC5B4, 0x20, 0x28, 0xC608] @
                         ascii '': typescript, javascript, python, java '' @ [0xB4F1,
                         0x2C, 0x20, 0xAE30, 0xBCF8, 0xAC12] @ ascii '': auto)'')),
                  (ascii ''required'', JBool False),
                  (ascii ''default'', JStr (ascii ''auto''))]),
               (ascii ''focus_areas'', JObj
                 [(ascii ''type'', JStr (ascii ''string'')),
                  (ascii ''description'',
                    JStr ([0xB9AC, 0xBDF0, 0xC5D0, 0x20, 0xC9D1, 0xC911, 0xD560, 0x20,
                         0xC601, 0xC5ED, 0x20, 0x28, 0xC27C, 0xD45C, 0xB85C, 0x20,
                         0xAD6C, 0xBD84] @
                         ascii '': quality,performance,security,maintainability,best_practices,all, ''
                         @ [0xAE30, 0xBCF8, 0xAC12] @ ascii '': all)'')),
                  (ascii ''required'', JBool False),
                  (ascii ''default'', JStr (ascii ''all''))]),
               (ascii ''include_suggestions'', JObj
                 [(ascii ''type'', JStr (ascii ''string'')),
                  (ascii ''description'',
                    JStr ([0xAC1C, 0xC120, 0x20, 0xC81C, 0xC548, 0x20, 0xD3EC, 0xD568,
                         0x20, 0xC5EC, 0xBD80] @ ascii '' (true/false, '' @ [0xAE30,
                         0xBCF8, 0xAC12] @ ascii '': true)'')),
                  (ascii ''required'', JBool False),
                  (ascii ''default'', JStr (ascii ''true''))])])]])]"

definition server_info_resource :: "host \<Rightarrow> failure + handler_result" where
  "server_info_resource h =
     Inr (ResourceResult
            [\<lparr>rc_uri = ascii ''server://info'',
              rc_mime_type = ascii ''application/json'',
              rc_text = json_stringify (server_info h)\<rparr>])"

subsection \<open>The prompt code_review (lines 611 to 711)\<close>

definition review_header :: jsstring where
  "review_header =
     [0xB2E4, 0xC74C, 0x20, 0xCF54, 0xB4DC, 0xB97C, 0x20, 0xC0C1, 0xC138, 0xD788, 0x20,
     0xBD84, 0xC11D, 0xD558, 0xACE0, 0x20, 0xB9AC, 0xBDF0, 0xD574, 0xC8FC, 0xC138,
     0xC694, 0x2E]"

definition review_footer :: jsstring where
  "review_footer =
     [0xA, 0xAC01, 0x20, 0xD56D, 0xBAA9, 0xC5D0, 0x20, 0xB300, 0xD574, 0x20, 0xAD6C, 0xCCB4,
     0xC801, 0xC778, 0x20, 0xAC1C, 0xC120, 0x20, 0xC81C, 0xC548, 0xACFC, 0x20, 0xC608,
     0xC2DC, 0x20, 0xCF54, 0xB4DC, 0xB97C, 0x20, 0xD3EC, 0xD568, 0xD574, 0xC8FC, 0xC138,
     0xC694, 0x2E]"

definition section_quality :: jsstring where
  "section_quality =
     ascii ''## 1. '' @ [0xCF54, 0xB4DC, 0x20, 0xD488, 0xC9C8, 0x20, 0xD3C9, 0xAC00, 0xA,
     0x2D, 0x20, 0xCF54, 0xB4DC, 0x20, 0xAC00, 0xB3C5, 0xC131, 0x20, 0xBC0F, 0x20,
     0xBA85, 0xD655, 0xC131, 0xA, 0x2D, 0x20, 0xB124, 0xC774, 0xBC0D, 0x20, 0xCEE8,
     0xBCA4, 0xC158, 0x20, 0xC900, 0xC218, 0x20, 0xC5EC, 0xBD80, 0xA, 0x2D, 0x20,
     0xCF54, 0xB4DC, 0x20, 0xAD6C, 0xC870, 0x20, 0xBC0F, 0x20, 0xC870, 0xC9C1, 0xD654,
     0xA, 0x2D, 0x20, 0xC911, 0xBCF5, 0x20, 0xCF54, 0xB4DC, 0x20, 0xC874, 0xC7AC, 0x20,
     0xC5EC, 0xBD80]"

definition section_performance :: jsstring where
  "section_performance =
     ascii ''## 2. '' @ [0xC131, 0xB2A5, 0x20, 0xCD5C, 0xC801, 0xD654, 0xA, 0x2D, 0x20,
     0xC54C, 0xACE0, 0xB9AC, 0xC998, 0x20, 0xD6A8, 0xC728, 0xC131, 0xA, 0x2D, 0x20,
     0xBD88, 0xD544, 0xC694, 0xD55C, 0x20, 0xC5F0, 0xC0B0, 0x20, 0xB610, 0xB294, 0x20,
     0xBA54, 0xBAA8, 0xB9AC, 0x20, 0xC0AC, 0xC6A9, 0xA, 0x2D, 0x20, 0xBE44, 0xB3D9,
     0xAE30, 0x20, 0xCC98, 0xB9AC, 0x20, 0xCD5C, 0xC801, 0xD654, 0x20, 0x28, 0xD574,
     0xB2F9, 0xB418, 0xB294, 0x20, 0xACBD, 0xC6B0, 0x29, 0xA, 0x2D, 0x20, 0xB370,
     0xC774, 0xD130, 0xBCA0, 0xC774, 0xC2A4, 0x20, 0xCFFC, 0xB9AC, 0x20, 0xCD5C, 0xC801,
     0xD654, 0x20, 0x28, 0xD574, 0xB2F9, 0xB418, 0xB294, 0x20, 0xACBD, 0xC6B0, 0x29]"

definition section_security :: jsstring where
  "section_security =
     ascii ''## 3. '' @ [0xBCF4, 0xC548, 0x20, 0xACE0, 0xB824, 0xC0AC, 0xD56D, 0xA, 0x2D,
     0x20, 0xC785, 0xB825, 0x20, 0xAC80, 0xC99D, 0x20, 0xBC0F] @ ascii '' sanitization''
     @ [0xA] @ ascii ''- SQL Injection, XSS '' @ [0xB4F1, 0x20, 0xCDE8, 0xC57D, 0xC810,
     0xA, 0x2D, 0x20, 0xC778, 0xC99D, 0x20, 0xBC0F, 0x20, 0xAD8C, 0xD55C, 0x20, 0xAD00,
     0xB9AC, 0xA, 0x2D, 0x20, 0xBBFC, 0xAC10, 0xD55C, 0x20, 0xC815, 0xBCF4, 0x20,
     0xCC98, 0xB9AC] @ ascii '' (API '' @ [0xD0A4, 0x2C, 0x20, 0xBE44, 0xBC00, 0xBC88,
     0xD638, 0x20, 0xB4F1, 0x29, 0xA, 0x2D, 0x20, 0xC5D0, 0xB7EC, 0x20, 0xCC98, 0xB9AC,
     0x20, 0xBC0F, 0x20, 0xC815, 0xBCF4, 0x20, 0xB178, 0xCD9C, 0x20, 0xBC29, 0xC9C0]"

definition section_maintainability :: jsstring where
  "section_maintainability =
     ascii ''## 4. '' @ [0xC720, 0xC9C0, 0xBCF4, 0xC218, 0xC131, 0xA, 0x2D, 0x20, 0xCF54,
     0xB4DC, 0x20, 0xBAA8, 0xB4C8, 0xD654, 0x20, 0xBC0F, 0x20, 0xC7AC, 0xC0AC, 0xC6A9,
     0xC131, 0xA, 0x2D, 0x20, 0xD14C, 0xC2A4, 0xD2B8, 0x20, 0xAC00, 0xB2A5, 0xC131, 0xA,
     0x2D, 0x20, 0xBB38, 0xC11C, 0xD654, 0x20, 0xBC0F, 0x20, 0xC8FC, 0xC11D, 0xA, 0x2D,
     0x20, 0xC758, 0xC874, 0xC131, 0x20, 0xAD00, 0xB9AC]"

definition section_best_practices :: jsstring where
  "section_best_practices =
     ascii ''## 5. '' @ [0xBAA8, 0xBC94, 0x20, 0xC0AC, 0xB840, 0x20, 0xBC0F, 0x20, 0xD45C,
     0xC900, 0x20, 0xC900, 0xC218, 0xA, 0x2D, 0x20, 0xC5B8, 0xC5B4, 0xBCC4, 0x20,
     0xCF54, 0xB529, 0x20, 0xD45C, 0xC900, 0x20, 0xC900, 0xC218, 0xA, 0x2D, 0x20,
     0xB514, 0xC790, 0xC778, 0x20, 0xD328, 0xD134, 0x20, 0xC801, 0xC6A9, 0x20, 0x28,
     0xD574, 0xB2F9, 0xB418, 0xB294, 0x20, 0xACBD, 0xC6B0, 0x29, 0xA] @
     ascii ''- SOLID '' @ [0xC6D0, 0xCE59, 0x20, 0xC900, 0xC218, 0x20, 0x28, 0xD574,
     0xB2F9, 0xB418, 0xB294, 0x20, 0xACBD, 0xC6B0, 0x29, 0xA, 0x2D, 0x20, 0xC5D0,
     0xB7EC, 0x20, 0xD578, 0xB4E4, 0xB9C1, 0x20, 0xD328, 0xD134]"

text \<open>\<^verbatim>\<open>finalFocusAreas.includes('all') || finalFocusAreas.includes(area)\<close>\<close>

definition focus_on :: "jsstring list \<Rightarrow> jsstring \<Rightarrow> bool" where
  "focus_on areas area \<longleftrightarrow> ascii ''all'' \<in> set areas \<or> area \<in> set areas"

text \<open>The array \<^verbatim>\<open>reviewTemplate.sections\<close> after the five conditional pushes, lines 630 to 679.\<close>

definition review_sections :: "jsstring list \<Rightarrow> jsstring list" where
  "review_sections areas =
     (if focus_on areas (ascii ''quality'') then [section_quality] else []) @
     (if focus_on areas (ascii ''performance'') then [section_performance] else []) @
     (if focus_on areas (ascii ''security'') then [section_security] else []) @
     (if focus_on areas (ascii ''maintainability'') then [section_maintainability] else []) @
     (if focus_on areas (ascii ''best_practices'') then [section_best_practices] else [])"

text \<open>
  Lines 613 to 619. An optional argument that is absent is \<open>None\<close>; \<^verbatim>\<open>??\<close> replaces
  only an absent value, the conditionals also an empty string.
\<close>

definition final_language :: "jsstring option \<Rightarrow> jsstring" where
  "final_language language = (case language of None \<Rightarrow> ascii ''auto'' | Some l \<Rightarrow> l)"

definition final_focus_areas :: "jsstring option \<Rightarrow> jsstring list" where
  "final_focus_areas focus_areas =
     (case focus_areas of
        None \<Rightarrow> [ascii ''all'']
      | Some f \<Rightarrow> if f = [] then [ascii ''all''] else map trim (split_on 0x2C f))"

definition final_include_suggestions :: "jsstring option \<Rightarrow> bool" where
  "final_include_suggestions include_suggestions =
     (case include_suggestions of
        None \<Rightarrow> True
      | Some s \<Rightarrow> if s = [] then True else to_lower_case s = ascii ''true'')"

text \<open>Lines 682 to 698.\<close>

definition prompt_text :: "jsstring \<Rightarrow> jsstring option \<Rightarrow> jsstring option \<Rightarrow> jsstring option \<Rightarrow> jsstring" where
  "prompt_text code language focus_areas include_suggestions =
     (let lang = final_language language;
          footer = (if final_include_suggestions include_suggestions then review_footer else []);
          language_info =
            (if lang \<noteq> ascii ''auto''
             then [0xA, 0x2A, 0x2A, 0xCF54, 0xB4DC, 0x20, 0xC5B8, 0xC5B4] @ ascii ''**: '' @ lang @ [0xA]
             else [0xA, 0x2A, 0x2A, 0xCF54, 0xB4DC, 0x20, 0xC5B8, 0xC5B4] @ ascii ''**: '' @ [0xC790,
         0xB3D9, 0x20, 0xAC10, 0xC9C0, 0xA])
      in review_header @
         language_info @
         [0xA] @
         join [0xA, 0xA] (review_sections (final_focus_areas focus_areas)) @
         [0xA, 0xA] @
         ascii ''---'' @ [0xA, 0xA] @
         [0x2A, 0x2A, 0xB9AC, 0xBDF0, 0xD560, 0x20, 0xCF54, 0xB4DC, 0x3A, 0x2A, 0x2A, 0xA, 0xA] @
         [0x60, 0x60, 0x60] @ (if lang \<noteq> ascii ''auto'' then lang else []) @ [0xA] @
         code @
         [0xA] @ [0x60, 0x60, 0x60] @
         footer)"

definition code_review ::
  "jsstring \<Rightarrow> jsstring option \<Rightarrow> jsstring option \<Rightarrow> jsstring option \<Rightarrow> failure + handler_result" where
  "code_review code language focus_areas include_suggestions =
     Inr (PromptResult
            [\<lparr>msg_role = ascii ''user'',
              msg_content = TextBlock (prompt_text code language focus_areas include_suggestions)\<rparr>])"

section \<open>Schemas\<close>

text \<open>
  Modelled from the spec: the Schema Descriptor and Field Spec of section 3 of the
  specification. The source states each schema with the schema builder of the zod
  library, which is not part of \<^verbatim>\<open>src/\<close>; a field is described here by its kind (with
  the inclusive bounds of a number and the literals of an enumeration) and by whether
  it is required or optional, an optional field with or without a default.
\<close>

datatype field_kind =
    StringField
  | NumberField "number option" "number option"
  | BooleanField
  | EnumField "jsstring list"

datatype presence = Required | Optional "jsvalue option"

record field_spec =
  fs_kind :: field_kind
  fs_presence :: presence

type_synonym schema = "(jsstring \<times> field_spec) list"

text \<open>The schemas of the source, field by field in the order of declaration.\<close>

text \<open>Lines 29 to 36: \<^verbatim>\<open>name: z.string()\<close>, \<^verbatim>\<open>language: z.enum(['ko', 'en']).optional().default('ko')\<close>.\<close>

definition greeting_schema :: schema where
  "greeting_schema =
     [(ascii ''name'', \<lparr>fs_kind = StringField, fs_presence = Required\<rparr>),
      (ascii ''language'',
       \<lparr>fs_kind = EnumField [ascii ''ko'', ascii ''en''],
        fs_presence = Optional (Some (JStr (ascii ''ko'')))\<rparr>)]"

text \<open>Lines 57 to 63: \<^verbatim>\<open>a: z.number()\<close>, \<^verbatim>\<open>b: z.number()\<close>, \<^verbatim>\<open>operator: z.enum(['+', '-', '*', '/'])\<close>.\<close>

definition operators :: "jsstring list" where
  "operators = [ascii ''+'', ascii ''-'', ascii ''*'', ascii ''/'']"

definition calculator_schema :: schema where
  "calculator_schema =
     [(ascii ''a'', \<lparr>fs_kind = NumberField None None, fs_presence = Required\<rparr>),
      (ascii ''b'', \<lparr>fs_kind = NumberField None None, fs_presence = Required\<rparr>),
      (ascii ''operator'', \<lparr>fs_kind = EnumField operators, fs_presence = Required\<rparr>)]"

text \<open>Lines 99 to 103: \<^verbatim>\<open>timeZone: z.string()\<close>.\<close>

definition get_time_schema :: schema where
  "get_time_schema =
     [(ascii ''timeZone'', \<lparr>fs_kind = StringField, fs_presence = Required\<rparr>)]"

text \<open>Lines 161 to 163: \<^verbatim>\<open>prompt: z.string()\<close>.\<close>

definition generate_image_schema :: schema where
  "generate_image_schema =
     [(ascii ''prompt'', \<lparr>fs_kind = StringField, fs_presence = Required\<rparr>)]"

text \<open>Lines 215 to 226: \<^verbatim>\<open>query: z.string()\<close>, \<^verbatim>\<open>limit: z.number().min(1).max(40).optional().default(1)\<close>.\<close>

definition geocode_schema :: schema where
  "geocode_schema =
     [(ascii ''query'', \<lparr>fs_kind = StringField, fs_presence = Required\<rparr>),
      (ascii ''limit'',
       \<lparr>fs_kind = NumberField (Some (num_of_int 1)) (Some (num_of_int 40)),
        fs_presence = Optional (Some (JNum (num_of_int 1)))\<rparr>)]"

text \<open>
  Lines 301 to 316: \<^verbatim>\<open>latitude: z.number().min(-90).max(90)\<close>,
  \<^verbatim>\<open>longitude: z.number().min(-180).max(180)\<close>,
  \<^verbatim>\<open>timezone: z.string().optional().default('auto')\<close>,
  \<^verbatim>\<open>forecast_days: z.number().min(1).max(16).optional().default(3)\<close>.
\<close>

definition get_weather_schema :: schema where
  "get_weather_schema =
     [(ascii ''latitude'',
       \<lparr>fs_kind = NumberField (Some (num_of_int (- 90))) (Some (num_of_int 90)),
        fs_presence = Required\<rparr>),
      (ascii ''longitude'',
       \<lparr>fs_kind = NumberField (Some (num_of_int (- 180))) (Some (num_of_int 180)),
        fs_presence = Required\<rparr>),
      (ascii ''timezone'',
       \<lparr>fs_kind = StringField, fs_presence = Optional (Some (JStr (ascii ''auto'')))\<rparr>),
      (ascii ''forecast_days'',
       \<lparr>fs_kind = NumberField (Some (num_of_int 1)) (Some (num_of_int 16)),
        fs_presence = Optional (Some (JNum (num_of_int 3)))\<rparr>)]"

text \<open>The resource of line 393 takes no arguments.\<close>

definition server_info_schema :: schema where
  "server_info_schema = []"

text \<open>
  Lines 594 to 610: \<^verbatim>\<open>code: z.string()\<close>, and \<^verbatim>\<open>language\<close>, \<^verbatim>\<open>focus_areas\<close>,
  \<^verbatim>\<open>include_suggestions\<close>, each \<^verbatim>\<open>z.string().optional()\<close> with no default.
\<close>

definition code_review_schema :: schema where
  "code_review_schema =
     [(ascii ''code'', \<lparr>fs_kind = StringField, fs_presence = Required\<rparr>),
      (ascii ''language'', \<lparr>fs_kind = StringField, fs_presence = Optional None\<rparr>),
      (ascii ''focus_areas'', \<lparr>fs_kind = StringField, fs_presence = Optional None\<rparr>),
      (ascii ''include_suggestions'', \<lparr>fs_kind = StringField, fs_presence = Optional None\<rparr>)]"

section \<open>The validator\<close>

type_synonym arguments = "jsstring \<rightharpoonup> jsvalue"

datatype validation_error =
    MissingRequiredField jsstring
  | TypeMismatch jsstring field_kind
  | OutOfRange jsstring "number option" "number option" number
  | InvalidEnumValue jsstring "jsstring list" jsstring

text \<open>
  Modelled from the spec: steps 3 of section 4.2, the bounds of a number. The source
  leaves the check to the zod library. A value is outside the bounds when it is not at
  least the lower bound or not at most the upper bound; an absent bound does not
  constrain.
\<close>

definition within_bounds :: "number option \<Rightarrow> number option \<Rightarrow> number \<Rightarrow> bool" where
  "within_bounds lo hi x \<longleftrightarrow>
     (case lo of None \<Rightarrow> True | Some l \<Rightarrow> num_le l x) \<and>
     (case hi of None \<Rightarrow> True | Some u \<Rightarrow> num_le x u)"

text \<open>
  Modelled from the spec: steps 2 to 4 of section 4.2, for a value that is present: the
  type check against the kind, then the bounds of a number, then the literals of an
  enumeration. The source leaves these checks to the zod library.
\<close>

fun check_value :: "jsstring \<Rightarrow> field_kind \<Rightarrow> jsvalue \<Rightarrow> validation_error + jsvalue" where
  "check_value name StringField (JStr s) = Inr (JStr s)"
| "check_value name (NumberField lo hi) (JNum x) =
     (if within_bounds lo hi x then Inr (JNum x) else Inl (OutOfRange name lo hi x))"
| "check_value name BooleanField (JBool b) = Inr (JBool b)"
| "check_value name (EnumField allowed) (JStr s) =
     (if s \<in> set allowed then Inr (JStr s) else Inl (InvalidEnumValue name allowed s))"
| "check_value name kind v = Inl (TypeMismatch name kind)"

text \<open>
  Modelled from the spec: step 1 of section 4.2, one field. The result is the validated
  value of the field, or \<open>None\<close> for an optional field that is absent and has no default.
  The source leaves this to the zod library.
\<close>

definition validate_field :: "jsstring \<Rightarrow> field_spec \<Rightarrow> jsvalue option \<Rightarrow> validation_error + jsvalue option" where
  "validate_field name fs given =
     (case given of
        None \<Rightarrow>
          (case fs_presence fs of
             Required \<Rightarrow> Inl (MissingRequiredField name)
           | Optional default_value \<Rightarrow> Inr default_value)
      | Some v \<Rightarrow>
          (case check_value name (fs_kind fs) v of
             Inl e \<Rightarrow> Inl e
           | Inr v' \<Rightarrow> Inr (Some v')))"

text \<open>
  Modelled from the spec: \<^verbatim>\<open>validate(descriptor, rawArgs)\<close> of section 4.2. The fields are
  checked in the order of declaration and the first failure is the result; an argument
  that the schema does not declare is ignored. The source leaves validation to the MCP
  SDK and the zod library, which are not part of \<^verbatim>\<open>src/\<close>.
\<close>

fun validate :: "schema \<Rightarrow> arguments \<Rightarrow> validation_error + arguments" where
  "validate [] raw = Inr Map.empty"
| "validate ((name, fs) # rest) raw =
     (case validate_field name fs (raw name) of
        Inl e \<Rightarrow> Inl e
      | Inr v \<Rightarrow>
          (case validate rest raw of
             Inl e \<Rightarrow> Inl e
           | Inr args \<Rightarrow> Inr (case v of None \<Rightarrow> args | Some x \<Rightarrow> args(name \<mapsto> x))))"

section \<open>The registered capabilities\<close>

text \<open>
  A handler as the server registers it: it takes the validated arguments as one object
  and destructures it (\<^verbatim>\<open>async ({ a, b, operator }) => ...\<close>). The TypeScript types of
  the arguments are those of the schema; on arguments of other types the model gives
  \<open>Unvalidated\<close>.
\<close>

type_synonym handler = "host \<Rightarrow> arguments \<Rightarrow> (failure + handler_result) \<times> host"

definition string_arg :: "arguments \<Rightarrow> jsstring \<Rightarrow> jsstring option" where
  "string_arg args k = (case args k of Some (JStr s) \<Rightarrow> Some s | _ \<Rightarrow> None)"

definition number_arg :: "arguments \<Rightarrow> jsstring \<Rightarrow> number option" where
  "number_arg args k = (case args k of Some (JNum x) \<Rightarrow> Some x | _ \<Rightarrow> None)"

text \<open>An optional string without a default: \<open>Some None\<close> when it is absent.\<close>

definition optional_string_arg :: "arguments \<Rightarrow> jsstring \<Rightarrow> jsstring option option" where
  "optional_string_arg args k =
     (case args k of None \<Rightarrow> Some None | Some (JStr s) \<Rightarrow> Some (Some s) | _ \<Rightarrow> None)"

definition greeting_handler :: handler where
  "greeting_handler h args =
     (case (string_arg args (ascii ''name''), string_arg args (ascii ''language'')) of
        (Some name, Some language) \<Rightarrow> (greeting name language, h)
      | _ \<Rightarrow> (Inl Unvalidated, h))"

definition calculator_handler :: handler where
  "calculator_handler h args =
     (case (number_arg args (ascii ''a''), number_arg args (ascii ''b''),
            string_arg args (ascii ''operator'')) of
        (Some a, Some b, Some operator) \<Rightarrow> (calculator a b operator, h)
      | _ \<Rightarrow> (Inl Unvalidated, h))"

definition get_time_handler :: handler where
  "get_time_handler h args =
     (case string_arg args (ascii ''timeZone'') of
        Some time_zone \<Rightarrow> (get_time h time_zone, h)
      | None \<Rightarrow> (Inl Unvalidated, h))"

definition generate_image_handler :: "jsstring option \<Rightarrow> handler" where
  "generate_image_handler hf_token h args =
     (case string_arg args (ascii ''prompt'') of
        Some prompt \<Rightarrow> generate_image hf_token h prompt
      | None \<Rightarrow> (Inl Unvalidated, h))"

definition geocode_handler :: handler where
  "geocode_handler h args =
     (case (string_arg args (ascii ''query''), number_arg args (ascii ''limit'')) of
        (Some query, Some limit) \<Rightarrow> geocode h query limit
      | _ \<Rightarrow> (Inl Unvalidated, h))"

definition get_weather_handler :: handler where
  "get_weather_handler h args =
     (case (number_arg args (ascii ''latitude''), number_arg args (ascii ''longitude''),
            string_arg args (ascii ''timezone''), number_arg args (ascii ''forecast_days'')) of
        (Some latitude, Some longitude, Some timezone, Some forecast_days) \<Rightarrow>
          get_weather h latitude longitude timezone forecast_days
      | _ \<Rightarrow> (Inl Unvalidated, h))"

definition server_info_handler :: handler where
  "server_info_handler h args = (server_info_resource h, h)"

definition code_review_handler :: handler where
  "code_review_handler h args =
     (case (string_arg args (ascii ''code''), optional_string_arg args (ascii ''language''),
            optional_string_arg args (ascii ''focus_areas''),
            optional_string_arg args (ascii ''include_suggestions'')) of
        (Some code, Some language, Some focus_areas, Some include_suggestions) \<Rightarrow>
          (code_review code language focus_areas include_suggestions, h)
      | _ \<Rightarrow> (Inl Unvalidated, h))"

text \<open>
  Modelled from the spec: the Capability Record of section 3 and the Registry of section
  4.3 (\<^verbatim>\<open>register\<close>, \<^verbatim>\<open>resolve\<close>). The source calls \<^verbatim>\<open>server.tool\<close>, \<^verbatim>\<open>server.resource\<close> and
  \<^verbatim>\<open>server.prompt\<close> of the MCP SDK, which is not part of \<^verbatim>\<open>src/\<close>.
\<close>

datatype kind = Tool | Resource | Prompt

record capability =
  cap_kind :: kind
  cap_name :: jsstring
  cap_schema :: schema
  cap_handler :: handler

type_synonym registry = "capability list"

datatype registry_error = DuplicateCapability kind jsstring

text \<open>Modelled from the spec: \<^verbatim>\<open>resolve(kind, name)\<close> of section 4.3; \<open>None\<close> is \<^verbatim>\<open>NotFound\<close>.\<close>

definition resolve :: "registry \<Rightarrow> kind \<Rightarrow> jsstring \<Rightarrow> capability option" where
  "resolve reg k n = find (\<lambda>c. cap_kind c = k \<and> cap_name c = n) reg"

text \<open>Modelled from the spec: \<^verbatim>\<open>register(kind, name, descriptor, handler)\<close> of section 4.3.\<close>

definition register :: "capability \<Rightarrow> registry \<Rightarrow> registry_error + registry" where
  "register c reg =
     (case resolve reg (cap_kind c) (cap_name c) of
        Some _ \<Rightarrow> Inl (DuplicateCapability (cap_kind c) (cap_name c))
      | None \<Rightarrow> Inr (reg @ [c]))"

fun register_all :: "capability list \<Rightarrow> registry \<Rightarrow> registry_error + registry" where
  "register_all [] reg = Inr reg"
| "register_all (c # cs) reg =
     (case register c reg of Inl e \<Rightarrow> Inl e | Inr reg' \<Rightarrow> register_all cs reg')"

text \<open>
  The configuration of \<^verbatim>\<open>createServer\<close> (lines 6 to 11): \<^verbatim>\<open>hfToken\<close>, an optional string.
\<close>

record config =
  hf_token :: "jsstring option"

text \<open>
  The registrations \<^verbatim>\<open>createServer\<close> makes, in the order of the source: the tools of
  lines 27, 55, 97, 159, 213 and 299, the resource of line 393 and the prompt of line 591.
\<close>

definition registrations :: "config \<Rightarrow> capability list" where
  "registrations cfg =
     [\<lparr>cap_kind = Tool, cap_name = ascii ''greeting'',
       cap_schema = greeting_schema, cap_handler = greeting_handler\<rparr>,
      \<lparr>cap_kind = Tool, cap_name = ascii ''calculator'',
       cap_schema = calculator_schema, cap_handler = calculator_handler\<rparr>,
      \<lparr>cap_kind = Tool, cap_name = ascii ''get_time'',
       cap_schema = get_time_schema, cap_handler = get_time_handler\<rparr>,
      \<lparr>cap_kind = Tool, cap_name = ascii ''generate_image'',
       cap_schema = generate_image_schema,
       cap_handler = generate_image_handler (hf_token cfg)\<rparr>,
      \<lparr>cap_kind = Tool, cap_name = ascii ''geocode'',
       cap_schema = geocode_schema, cap_handler = geocode_handler\<rparr>,
      \<lparr>cap_kind = Tool, cap_name = ascii ''get_weather'',
       cap_schema = get_weather_schema, cap_handler = get_weather_handler\<rparr>,
      \<lparr>cap_kind = Resource, cap_name = ascii ''server://info'',
       cap_schema = server_info_schema, cap_handler = server_info_handler\<rparr>,
      \<lparr>cap_kind = Prompt, cap_name = ascii ''code_review'',
       cap_schema = code_review_schema, cap_handler = code_review_handler\<rparr>]"

definition create_server :: "config \<Rightarrow> registry_error + registry" where
  "create_server cfg = register_all (registrations cfg) []"

text \<open>The registry of the running server: what \<^verbatim>\<open>createServer\<close> has registered.\<close>

definition server_registry :: "config \<Rightarrow> registry" where
  "server_registry cfg = (case create_server cfg of Inr reg \<Rightarrow> reg | Inl e \<Rightarrow> [])"

section \<open>The dispatcher\<close>

record request =
  req_kind :: kind
  req_name :: jsstring
  req_args :: arguments

text \<open>
  Modelled from the spec: the Error Result of sections 3 and 4.6, one constructor for
  each class of failure (\<^verbatim>\<open>NotFound\<close>, a validation error, a failure raised by the
  handler, a result that cannot be shaped). The constructor stands for the prefix that
  tells the stage; a handler's failure carries the handler's own message.
\<close>

datatype error_result =
    NotFound kind jsstring
  | ValidationFailed validation_error
  | HandlerFailed failure
  | NormalizationFailed

text \<open>
  Modelled from the spec: the Response Normalizer of sections 4.5 and 6. The handlers of
  the source return the envelope themselves; the shape is selected by the kind of the
  capability, and the handler's output is passed on as it is.
\<close>

definition normalize_result :: "kind \<Rightarrow> handler_result \<Rightarrow> handler_result option" where
  "normalize_result k r =
     (case (k, r) of
        (Tool, ToolResult blocks ann) \<Rightarrow> Some r
      | (Resource, ResourceResult contents) \<Rightarrow> Some r
      | (Prompt, PromptResult messages) \<Rightarrow> Some r
      | _ \<Rightarrow> None)"

text \<open>
  Modelled from the spec: \<^verbatim>\<open>dispatch(request)\<close> of section 4.4: resolve, validate, invoke
  the handler, normalize; a failure at any stage is the Error Result. The source leaves
  dispatching to the MCP SDK, which is not part of \<^verbatim>\<open>src/\<close>.
\<close>

definition dispatch :: "registry \<Rightarrow> host \<Rightarrow> request \<Rightarrow> (error_result + handler_result) \<times> host" where
  "dispatch reg h req =
     (case resolve reg (req_kind req) (req_name req) of
        None \<Rightarrow> (Inl (NotFound (req_kind req) (req_name req)), h)
      | Some c \<Rightarrow>
          (case validate (cap_schema c) (req_args req) of
             Inl e \<Rightarrow> (Inl (ValidationFailed e), h)
           | Inr args \<Rightarrow>
               (case cap_handler c h args of
                  (Inl e, h') \<Rightarrow> (Inl (HandlerFailed e), h')
                | (Inr r, h') \<Rightarrow>
                    (case normalize_result (cap_kind c) r of
                       None \<Rightarrow> (Inl NormalizationFailed, h')
                     | Some envelope \<Rightarrow> (Inr envelope, h')))))"

section \<open>The listing of the capabilities\<close>

text \<open>
  How the text of \<^verbatim>\<open>server://info\<close> lists a capability: \<^verbatim>\<open>serverInfo\<close> has one array for
  each kind, under the key \<open>kind_key\<close>; an entry of the array names its capability under
  the key \<open>entry_key\<close> (a tool and a prompt by \<^verbatim>\<open>name\<close>; the resource by \<^verbatim>\<open>uri\<close>, its
  \<^verbatim>\<open>name\<close> being the title of line 397).
\<close>

fun kind_key :: "kind \<Rightarrow> jsstring" where
  "kind_key Tool = ascii ''tools''"
| "kind_key Resource = ascii ''resources''"
| "kind_key Prompt = ascii ''prompts''"

fun entry_key :: "kind \<Rightarrow> jsstring" where
  "entry_key Tool = ascii ''name''"
| "entry_key Resource = ascii ''uri''"
| "entry_key Prompt = ascii ''name''"

definition listed :: "jsvalue \<Rightarrow> kind \<Rightarrow> jsstring \<Rightarrow> bool" where
  "listed info k n =
     (case property info (kind_key k) of
        JArr entries \<Rightarrow> list_ex (\<lambda>e. property e (entry_key k) = JStr n) entries
      | _ \<Rightarrow> False)"

section \<open>An example host\<close>

text \<open>
  The host of the worked examples below: the upstream services answer every request with
  the status 200 and the given body, and the image service with two bytes.
\<close>

definition example_response :: "jsvalue \<Rightarrow> http_response" where
  "example_response body =
     \<lparr>resp_ok = True, resp_status = num_of_int 200, resp_status_text = ascii ''OK'',
      resp_json = Inr body\<rparr>"

definition example_host :: "jsvalue \<Rightarrow> host" where
  "example_host body =
     \<lparr>clock = 1700000000000,
      iso_string = (\<lambda>t. ascii ''2023-11-14T22:13:20.000Z''),
      date_time_format =
        (\<lambda>tz t. if tz = ascii ''Asia/Seoul'' then Inr (ascii ''2023. 11. 15. 07:13:20'')
                else Inl (Error (ascii ''Invalid time zone specified''))),
      locale_time =
        (\<lambda>tz t. if tz = ascii ''UTC'' then Inr (num_of_int 1700000000000)
                else Inr (num_of_int 1700032400000)),
      process_uptime = num_of_decimal 12345 (- 3),
      process_version = ascii ''v20.11.0'',
      process_platform = ascii ''linux'',
      process_arch = ascii ''x64'',
      parse_float = (\<lambda>s. NaN),
      type_error_message = (\<lambda>e. e @ ascii '' is not a function''),
      fetch_reply = (\<lambda>calls req. Inr (example_response body)),
      inference_reply = (\<lambda>calls token prompt. Inr [0x4D, 0x61]),
      outbound_calls = []\<rparr>"

section \<open>Facts about strings and numbers\<close>

lemma unat_of_char: "unat (of_char c :: 16 word) = of_char c"
proof -
  have "(of_char c :: nat) mod 256 = of_char c"
    by (rule of_char_mod_256)
  then have "(of_char c :: nat) < 256"
    by (metis mod_less_divisor zero_less_numeral)
  then have "(of_char c :: nat) < 2 ^ 16"
    by (rule order_less_trans) simp
  then have "(of_char c :: nat) mod 2 ^ 16 = of_char c"
    by (rule mod_less)
  moreover have "(of_char c :: 16 word) = of_nat (of_char c)"
    by (simp add: of_nat_of_char)
  ultimately show ?thesis
    by (simp only: unat_of_nat len_of_numeral_defs) simp
qed

lemma ascii_eq_iff: "ascii s = ascii t \<longleftrightarrow> s = t"
proof -
  have "inj (\<lambda>c. of_char c :: 16 word)"
  proof (rule injI)
    fix c d :: char
    assume "(of_char c :: 16 word) = of_char d"
    then have "unat (of_char c :: 16 word) = unat (of_char d :: 16 word)" by simp
    then have "(of_char c :: nat) = of_char d" by (simp only: unat_of_char)
    then show "c = d" by simp
  qed
  then have "inj (map (\<lambda>c. of_char c :: 16 word))" by (rule inj_mapI)
  then show ?thesis by (auto simp: ascii_def dest: injD)
qed

lemma zero_is_zero: "num_is_zero (num_of_int 0)"
  by code_simp

lemma num_less_not_le: "num_less x y \<Longrightarrow> \<not> num_le y x"
  by (simp add: num_less_def)

text \<open>
  The number model on values whose JavaScript output is well known: the sum
  \<^verbatim>\<open>0.1 + 0.2\<close>, a quotient that does not terminate, a product that is rounded, the
  switch to exponent notation at \<open>10 ^ 21\<close> and below \<open>10 ^ - 6\<close>, a number beyond
  \<open>2 ^ 53\<close>, and the values that are not finite.
\<close>

lemma number_model_checks:
  "num_to_string (num_add (num_of_decimal 1 (- 1)) (num_of_decimal 2 (- 1))) =
     ascii ''0.30000000000000004''"
  "num_to_string (num_div (num_of_int 1) (num_of_int 3)) = ascii ''0.3333333333333333''"
  "num_to_string (num_mul (num_of_decimal 435 (- 2)) (num_of_int 100)) =
     ascii ''434.99999999999994''"
  "num_to_string (num_of_decimal 1 21) = ascii ''1e+21''"
  "num_to_string (num_of_decimal 123456789012345678901 0) = ascii ''123456789012345680000''"
  "num_to_string (num_of_decimal 1 (- 7)) = ascii ''1e-7''"
  "num_to_string (num_of_decimal 15 (- 7)) = ascii ''0.0000015''"
  "num_to_string (num_neg (num_of_decimal 15 (- 1))) = ascii ''-1.5''"
  "num_div (num_of_int 1) (num_of_int 0) = PosInfinity"
  "num_to_string (num_sub PosInfinity PosInfinity) = ascii ''NaN''"
  by code_simp+

section \<open>Facts about the validator\<close>

lemma check_value_string:
  "check_value n StringField v = Inr v' \<longleftrightarrow> (\<exists>s. v = JStr s \<and> v' = v)"
  by (cases v) auto

lemma check_value_number:
  "check_value n (NumberField lo hi) v = Inr v' \<longleftrightarrow> (\<exists>x. v = JNum x \<and> within_bounds lo hi x \<and> v' = v)"
  by (cases v) auto

lemma check_value_enum:
  "check_value n (EnumField allowed) v = Inr v' \<longleftrightarrow> (\<exists>s. v = JStr s \<and> s \<in> set allowed \<and> v' = v)"
  by (cases v) auto

lemma validate_field_required:
  "validate_field n \<lparr>fs_kind = k, fs_presence = Required\<rparr> given = Inr r \<longleftrightarrow>
     (\<exists>v v'. given = Some v \<and> check_value n k v = Inr v' \<and> r = Some v')"
  by (auto simp: validate_field_def split: option.splits sum.splits)

lemma validate_field_optional_string:
  "validate_field n \<lparr>fs_kind = StringField, fs_presence = Optional None\<rparr> given = Inr r \<longleftrightarrow>
     (given = None \<and> r = None) \<or> (\<exists>s. given = Some (JStr s) \<and> r = Some (JStr s))"
  by (auto simp: validate_field_def check_value_string split: option.splits sum.splits)

lemma validate_Cons_iff:
  "validate ((n, fs) # rest) raw = Inr args \<longleftrightarrow>
     (\<exists>v args'. validate_field n fs (raw n) = Inr v \<and> validate rest raw = Inr args' \<and>
        args = (case v of None \<Rightarrow> args' | Some x \<Rightarrow> args'(n \<mapsto> x)))"
  by (auto split: sum.splits)

lemma validate_Nil_iff: "validate [] raw = Inr args \<longleftrightarrow> args = Map.empty"
  by auto

text \<open>The validated arguments hold exactly the validated fields of the schema.\<close>

lemma validate_undeclared:
  "validate s raw = Inr args \<Longrightarrow> k \<notin> fst ` set s \<Longrightarrow> args k = None"
proof (induction s arbitrary: args)
  case Nil
  then show ?case by auto
next
  case (Cons p s)
  obtain n fs where p: "p = (n, fs)" by (cases p)
  from Cons.prems(1) obtain v args' where
    rest: "validate s raw = Inr args'"
    and args: "args = (case v of None \<Rightarrow> args' | Some x \<Rightarrow> args'(n \<mapsto> x))"
    unfolding p validate_Cons_iff by blast
  from Cons.prems(2) have "k \<noteq> n" "k \<notin> fst ` set s" by (auto simp: p)
  with Cons.IH [OF rest] show ?case by (simp add: args split: option.splits)
qed

lemma validate_declared:
  "validate s raw = Inr args \<Longrightarrow> distinct (map fst s) \<Longrightarrow> (n, fs) \<in> set s \<Longrightarrow>
     validate_field n fs (raw n) = Inr (args n)"
proof (induction s arbitrary: args)
  case Nil
  then show ?case by simp
next
  case (Cons p s)
  obtain n' fs' where p: "p = (n', fs')" by (cases p)
  from Cons.prems(1) obtain v args' where
    field: "validate_field n' fs' (raw n') = Inr v"
    and rest: "validate s raw = Inr args'"
    and args: "args = (case v of None \<Rightarrow> args' | Some x \<Rightarrow> args'(n' \<mapsto> x))"
    unfolding p validate_Cons_iff by blast
  from Cons.prems(2) have fresh: "n' \<notin> fst ` set s" and d: "distinct (map fst s)"
    by (auto simp: p)
  show ?case
  proof (cases "(n, fs) = (n', fs')")
    case True
    from validate_undeclared [OF rest fresh] have "args n' = v"
      by (simp add: args split: option.splits)
    with field True show ?thesis by simp
  next
    case False
    with Cons.prems(3) have mem: "(n, fs) \<in> set s" by (auto simp: p)
    with fresh have "n \<noteq> n'" by force
    then have "args n = args' n" by (simp add: args split: option.splits)
    with Cons.IH [OF rest d mem] show ?thesis by simp
  qed
qed

lemma field_gives_string:
  assumes "validate_field n \<lparr>fs_kind = k, fs_presence = p\<rparr> given = Inr r"
    and "k = StringField \<or> (\<exists>allowed. k = EnumField allowed)"
    and "p = Required \<or> (\<exists>d. p = Optional (Some (JStr d)))"
  shows "\<exists>s. r = Some (JStr s)"
  using assms
  by (auto simp: validate_field_def check_value_string check_value_enum
        split: option.splits sum.splits)

lemma field_gives_number:
  assumes "validate_field n \<lparr>fs_kind = NumberField lo hi, fs_presence = p\<rparr> given = Inr r"
    and "p = Required \<or> (\<exists>d. p = Optional (Some (JNum d)))"
  shows "\<exists>x. r = Some (JNum x)"
  using assms
  by (auto simp: validate_field_def check_value_number split: option.splits sum.splits)

lemma string_arg_Some: "args k = Some (JStr s) \<Longrightarrow> string_arg args k = Some s"
  by (simp add: string_arg_def)

lemma optional_string_arg_Some:
  "args k = None \<or> (\<exists>s. args k = Some (JStr s)) \<Longrightarrow> \<exists>v. optional_string_arg args k = Some v"
  by (auto simp: optional_string_arg_def)

text \<open>
  A declared field of the string kind or of an enumeration, and one of the number kind,
  in the validated arguments.
\<close>

lemma declared_string:
  assumes "validate s raw = Inr args" "distinct (map fst s)"
    and "(n, \<lparr>fs_kind = k, fs_presence = p\<rparr>) \<in> set s"
    and "k = StringField \<or> (\<exists>allowed. k = EnumField allowed)"
    and "p = Required \<or> (\<exists>d. p = Optional (Some (JStr d)))"
  shows "\<exists>v. string_arg args n = Some v"
proof -
  from validate_declared [OF assms(1-3)] assms(4,5) have "\<exists>v. args n = Some (JStr v)"
    by (rule field_gives_string)
  then show ?thesis by (auto simp: string_arg_def)
qed

lemma declared_number:
  assumes "validate s raw = Inr args" "distinct (map fst s)"
    and "(n, \<lparr>fs_kind = NumberField lo hi, fs_presence = p\<rparr>) \<in> set s"
    and "p = Required \<or> (\<exists>d. p = Optional (Some (JNum d)))"
  shows "\<exists>x. number_arg args n = Some x"
proof -
  from validate_declared [OF assms(1-3)] assms(4) have "\<exists>x. args n = Some (JNum x)"
    by (rule field_gives_number)
  then show ?thesis by (auto simp: number_arg_def)
qed

lemma schemas_distinct:
  "distinct (map fst greeting_schema)" "distinct (map fst calculator_schema)"
  "distinct (map fst get_time_schema)" "distinct (map fst generate_image_schema)"
  "distinct (map fst geocode_schema)" "distinct (map fst get_weather_schema)"
  by (simp_all add: greeting_schema_def calculator_schema_def get_time_schema_def
        generate_image_schema_def geocode_schema_def get_weather_schema_def ascii_eq_iff)

lemma code_review_schema_distinct: "distinct (map fst code_review_schema)"
  by (simp add: code_review_schema_def ascii_def)

section \<open>Facts about the registry and the dispatcher\<close>

lemma server_registry_eq: "server_registry cfg = registrations cfg"
  by (simp add: server_registry_def create_server_def registrations_def register_def
      resolve_def ascii_def)

lemma create_server_registers: "create_server cfg = Inr (registrations cfg)"
  by (simp add: create_server_def registrations_def register_def resolve_def ascii_eq_iff)

lemma registered_names:
  "map (\<lambda>c. (cap_kind c, cap_name c)) (server_registry cfg) =
     [(Tool, ascii ''greeting''), (Tool, ascii ''calculator''), (Tool, ascii ''get_time''),
      (Tool, ascii ''generate_image''), (Tool, ascii ''geocode''), (Tool, ascii ''get_weather''),
      (Resource, ascii ''server://info''), (Prompt, ascii ''code_review'')]"
  by (simp add: server_registry_eq registrations_def ascii_eq_iff)

lemma resolve_greeting:
  "resolve (server_registry cfg) Tool (ascii ''greeting'') =
     Some \<lparr>cap_kind = Tool, cap_name = ascii ''greeting'',
           cap_schema = greeting_schema, cap_handler = greeting_handler\<rparr>"
  by (simp add: server_registry_eq registrations_def resolve_def ascii_def)

lemma resolve_calculator:
  "resolve (server_registry cfg) Tool (ascii ''calculator'') =
     Some \<lparr>cap_kind = Tool, cap_name = ascii ''calculator'',
           cap_schema = calculator_schema, cap_handler = calculator_handler\<rparr>"
  by (simp add: server_registry_eq registrations_def resolve_def ascii_def)

lemma resolve_generate_image:
  "resolve (server_registry cfg) Tool (ascii ''generate_image'') =
     Some \<lparr>cap_kind = Tool, cap_name = ascii ''generate_image'',
           cap_schema = generate_image_schema,
           cap_handler = generate_image_handler (hf_token cfg)\<rparr>"
  by (simp add: server_registry_eq registrations_def resolve_def ascii_def)

lemma resolve_geocode:
  "resolve (server_registry cfg) Tool (ascii ''geocode'') =
     Some \<lparr>cap_kind = Tool, cap_name = ascii ''geocode'',
           cap_schema = geocode_schema, cap_handler = geocode_handler\<rparr>"
  by (simp add: server_registry_eq registrations_def resolve_def ascii_def)

lemma resolve_get_weather:
  "resolve (server_registry cfg) Tool (ascii ''get_weather'') =
     Some \<lparr>cap_kind = Tool, cap_name = ascii ''get_weather'',
           cap_schema = get_weather_schema, cap_handler = get_weather_handler\<rparr>"
  by (simp add: server_registry_eq registrations_def resolve_def ascii_def)

lemma resolve_server_info:
  "resolve (server_registry cfg) Resource (ascii ''server://info'') =
     Some \<lparr>cap_kind = Resource, cap_name = ascii ''server://info'',
           cap_schema = server_info_schema, cap_handler = server_info_handler\<rparr>"
  by (simp add: server_registry_eq registrations_def resolve_def ascii_eq_iff)

lemma resolve_code_review:
  "resolve (server_registry cfg) Prompt (ascii ''code_review'') =
     Some \<lparr>cap_kind = Prompt, cap_name = ascii ''code_review'',
           cap_schema = code_review_schema, cap_handler = code_review_handler\<rparr>"
  by (simp add: server_registry_eq registrations_def resolve_def ascii_def)

lemma resolve_single:
  "resolve [\<lparr>cap_kind = k, cap_name = n, cap_schema = s, cap_handler = f\<rparr>] k n =
     Some \<lparr>cap_kind = k, cap_name = n, cap_schema = s, cap_handler = f\<rparr>"
  by (simp add: resolve_def)

lemma resolve_member: "resolve reg k n = Some c \<Longrightarrow> c \<in> set reg"
  by (auto simp: resolve_def find_Some_iff)

lemma dispatch_resolved:
  assumes "resolve reg k n = Some c"
  shows "dispatch reg h \<lparr>req_kind = k, req_name = n, req_args = raw\<rparr> =
   (case validate (cap_schema c) raw of
      Inl e \<Rightarrow> (Inl (ValidationFailed e), h)
    | Inr args \<Rightarrow>
        (case cap_handler c h args of
           (Inl e, h') \<Rightarrow> (Inl (HandlerFailed e), h')
         | (Inr r, h') \<Rightarrow>
             (case normalize_result (cap_kind c) r of
                None \<Rightarrow> (Inl NormalizationFailed, h')
              | Some envelope \<Rightarrow> (Inr envelope, h'))))"
  using assms by (simp add: dispatch_def)

lemma normalize_result_same: "normalize_result k r = Some envelope \<Longrightarrow> envelope = r"
  by (auto simp: normalize_result_def split: kind.splits handler_result.splits)

lemma dispatch_success:
  assumes "dispatch reg h req = (Inr envelope, h')"
  shows "\<exists>c args. c \<in> set reg \<and> validate (cap_schema c) (req_args req) = Inr args \<and>
           cap_handler c h args = (Inr envelope, h')"
  using assms
  by (auto simp: dispatch_def dest: resolve_member normalize_result_same
        split: option.splits sum.splits prod.splits)

section \<open>The calculator\<close>

lemma arg_names_distinct:
  "ascii ''a'' \<noteq> ascii ''b''" "ascii ''a'' \<noteq> ascii ''operator''" "ascii ''b'' \<noteq> ascii ''operator''"
  by (simp_all add: ascii_def)

lemma validate_calculator:
  assumes "raw (ascii ''a'') = Some (JNum a)" "raw (ascii ''b'') = Some (JNum b)"
    and "raw (ascii ''operator'') = Some (JStr operator)" "operator \<in> set operators"
  shows "validate calculator_schema raw =
           Inr [ascii ''operator'' \<mapsto> JStr operator, ascii ''b'' \<mapsto> JNum b, ascii ''a'' \<mapsto> JNum a]"
  using assms by (simp add: calculator_schema_def validate_field_def within_bounds_def)

lemma validate_calculator_iff:
  "validate calculator_schema raw = Inr args \<longleftrightarrow>
     (\<exists>a b operator.
        raw (ascii ''a'') = Some (JNum a) \<and> raw (ascii ''b'') = Some (JNum b) \<and>
        raw (ascii ''operator'') = Some (JStr operator) \<and> operator \<in> set operators \<and>
        args = [ascii ''operator'' \<mapsto> JStr operator, ascii ''b'' \<mapsto> JNum b, ascii ''a'' \<mapsto> JNum a])"
  unfolding calculator_schema_def
  by (auto simp: validate_Cons_iff validate_Nil_iff validate_field_required check_value_number
        check_value_enum within_bounds_def simp del: validate.simps)

lemma calculator_handler_validated:
  "calculator_handler h [ascii ''operator'' \<mapsto> JStr operator, ascii ''b'' \<mapsto> JNum b, ascii ''a'' \<mapsto> JNum a]
     = (calculator a b operator, h)"
  using arg_names_distinct
  by (simp add: calculator_handler_def number_arg_def string_arg_def)

lemma dispatch_calculator:
  "dispatch (server_registry cfg) h
     \<lparr>req_kind = Tool, req_name = ascii ''calculator'', req_args = raw\<rparr> =
   (case validate calculator_schema raw of
      Inl e \<Rightarrow> (Inl (ValidationFailed e), h)
    | Inr args \<Rightarrow>
        (case calculator_handler h args of
           (Inl e, h') \<Rightarrow> (Inl (HandlerFailed e), h')
         | (Inr r, h') \<Rightarrow>
             (case normalize_result Tool r of
                None \<Rightarrow> (Inl NormalizationFailed, h')
              | Some envelope \<Rightarrow> (Inr envelope, h'))))"
  by (simp add: dispatch_def resolve_calculator split: sum.splits prod.splits option.splits)

lemma operators_cases:
  "operator \<in> set operators \<longleftrightarrow>
     operator = ascii ''+'' \<or> operator = ascii ''-'' \<or> operator = ascii ''*'' \<or> operator = ascii ''/''"
  by (auto simp: operators_def)

lemma messages_differ: "division_by_zero_message \<noteq> unsupported_operator_message"
  by (simp add: division_by_zero_message_def unsupported_operator_message_def)

lemma calculate_validated:
  "operator \<in> set operators \<Longrightarrow> calculate a b operator \<noteq> Inl (Error unsupported_operator_message)"
  by (auto simp: operators_cases calculate_def messages_differ ascii_def)

lemma calculator_validated:
  assumes "operator \<in> set operators" "\<not> (operator = ascii ''/'' \<and> num_is_zero b)"
  shows "calculator a b operator =
     Inr (ToolResult
       [TextBlock (num_to_string a @ ascii '' '' @ operator @ ascii '' '' @ num_to_string b @
          ascii '' = '' @
          num_to_string (if operator = ascii ''+'' then num_add a b
                         else if operator = ascii ''-'' then num_sub a b
                         else if operator = ascii ''*'' then num_mul a b
                         else num_div a b))] None)"
  using assms
  by (auto simp: operators_cases calculator_def calculate_def text_result_def)

lemma calculator_division_by_zero:
  "num_is_zero b \<Longrightarrow> calculator a b (ascii ''/'') = Inl (Error division_by_zero_message)"
  by (simp add: calculator_def calculate_def ascii_def)

lemma slash_is_operator: "ascii ''/'' \<in> set operators"
  by (simp add: operators_def)

lemma calculator_handler_host: "calculator_handler h args = (r, h') \<Longrightarrow> h' = h"
  by (auto simp: calculator_handler_def split: option.splits)

lemma calculator_handler_result:
  "fst (calculator_handler h1 args) = fst (calculator_handler h2 args)"
  by (simp add: calculator_handler_def split: option.splits)

lemma dispatch_calculator_host:
  "snd (dispatch (server_registry cfg) h
     \<lparr>req_kind = Tool, req_name = ascii ''calculator'', req_args = raw\<rparr>) = h"
  by (auto simp: dispatch_calculator split: sum.splits prod.splits option.splits
        dest: calculator_handler_host)

lemma dispatch_calculator_result:
  "fst (dispatch (server_registry cfg1) h1
     \<lparr>req_kind = Tool, req_name = ascii ''calculator'', req_args = raw\<rparr>) =
   fst (dispatch (server_registry cfg2) h2
     \<lparr>req_kind = Tool, req_name = ascii ''calculator'', req_args = raw\<rparr>)"
proof (cases "validate calculator_schema raw")
  case (Inl e)
  then show ?thesis by (simp add: dispatch_calculator)
next
  case (Inr args)
  from calculator_handler_result [of h1 args h2]
  show ?thesis
    by (auto simp: dispatch_calculator Inr split: sum.splits prod.splits option.splits)
qed

lemma six_prints: "num_to_string (num_of_int 6) = ascii ''6''" by code_simp

lemma three_prints: "num_to_string (num_of_int 3) = ascii ''3''" by code_simp

lemma six_by_three_prints: "num_to_string (num_div (num_of_int 6) (num_of_int 3)) = ascii ''2''" by code_simp

lemma three_not_zero: "\<not> num_is_zero (num_of_int 3)" by code_simp

lemma scenario_a:
  "dispatch (server_registry cfg) h
     \<lparr>req_kind = Tool, req_name = ascii ''calculator'',
      req_args = [ascii ''a'' \<mapsto> JNum (num_of_int 6), ascii ''b'' \<mapsto> JNum (num_of_int 3),
                  ascii ''operator'' \<mapsto> JStr (ascii ''/'')]\<rparr> =
   (Inr (ToolResult [TextBlock (ascii ''6 / 3 = 2'')] None), h)"
proof -
  let ?raw = "[ascii ''a'' \<mapsto> JNum (num_of_int 6), ascii ''b'' \<mapsto> JNum (num_of_int 3),
                  ascii ''operator'' \<mapsto> JStr (ascii ''/'')]"
  have v: "validate calculator_schema ?raw =
      Inr [ascii ''operator'' \<mapsto> JStr (ascii ''/''), ascii ''b'' \<mapsto> JNum (num_of_int 3), ascii ''a'' \<mapsto> JNum (num_of_int 6)]"
    using arg_names_distinct by (intro validate_calculator) (simp_all add: operators_def)
  have c: "calculator (num_of_int 6) (num_of_int 3) (ascii ''/'') = Inr (text_result (ascii ''6 / 3 = 2''))"
    by (simp add: calculator_def calculate_def six_prints three_prints six_by_three_prints three_not_zero) (simp add: ascii_def)
  show ?thesis
    by (simp add: dispatch_calculator v calculator_handler_validated c text_result_def normalize_result_def)
qed

lemma tenth_prints: "num_to_string (num_of_decimal 1 (- 1)) = ascii ''0.1''" by code_simp

lemma fifth_prints: "num_to_string (num_of_decimal 2 (- 1)) = ascii ''0.2''" by code_simp

lemma tenth_plus_fifth_prints:
  "num_to_string (num_add (num_of_decimal 1 (- 1)) (num_of_decimal 2 (- 1))) =
     ascii ''0.30000000000000004''"
  by code_simp

text \<open>
  Claim C1. Dispatching the calculator tool with \<open>a = 6\<close>, \<open>b = 3\<close> and the operator
  \<^verbatim>\<open>/\<close> succeeds with the single text block \<^verbatim>\<open>6 / 3 = 2\<close>. In general, for arguments
  that pass validation (two numbers and one of the four operators) and on which the
  operation is defined (not a division by zero), the calculator returns one text block
  \<^verbatim>\<open><a> <operator> <b> = <result>\<close>, where the result is the sum, difference, product or
  quotient of \<open>a\<close> and \<open>b\<close> according to the operator; the host is left as it was.
\<close>

theorem calculator_returns_formatted_result:
  "dispatch (server_registry cfg) h
     \<lparr>req_kind = Tool, req_name = ascii ''calculator'',
      req_args = [ascii ''a'' \<mapsto> JNum (num_of_int 6), ascii ''b'' \<mapsto> JNum (num_of_int 3),
                  ascii ''operator'' \<mapsto> JStr (ascii ''/'')]\<rparr> =
     (Inr (ToolResult [TextBlock (ascii ''6 / 3 = 2'')] None), h)
   \<and> (raw (ascii ''a'') = Some (JNum a) \<and> raw (ascii ''b'') = Some (JNum b) \<and>
      raw (ascii ''operator'') = Some (JStr operator) \<and> operator \<in> set operators \<and>
      \<not> (operator = ascii ''/'' \<and> num_is_zero b) \<longrightarrow>
      dispatch (server_registry cfg) h
        \<lparr>req_kind = Tool, req_name = ascii ''calculator'', req_args = raw\<rparr> =
        (Inr (ToolResult
           [TextBlock
              (num_to_string a @ ascii '' '' @ operator @ ascii '' '' @ num_to_string b @
               ascii '' = '' @
               num_to_string (if operator = ascii ''+'' then num_add a b
                              else if operator = ascii ''-'' then num_sub a b
                              else if operator = ascii ''*'' then num_mul a b
                              else num_div a b))] None), h))"
proof (intro conjI impI)
  show "dispatch (server_registry cfg) h
     \<lparr>req_kind = Tool, req_name = ascii ''calculator'',
      req_args = [ascii ''a'' \<mapsto> JNum (num_of_int 6), ascii ''b'' \<mapsto> JNum (num_of_int 3),
                  ascii ''operator'' \<mapsto> JStr (ascii ''/'')]\<rparr> =
     (Inr (ToolResult [TextBlock (ascii ''6 / 3 = 2'')] None), h)"
    by (rule scenario_a)
next
  assume a: "raw (ascii ''a'') = Some (JNum a) \<and> raw (ascii ''b'') = Some (JNum b) \<and>
      raw (ascii ''operator'') = Some (JStr operator) \<and> operator \<in> set operators \<and>
      \<not> (operator = ascii ''/'' \<and> num_is_zero b)"
  define result where
    "result = (if operator = ascii ''+'' then num_add a b
               else if operator = ascii ''-'' then num_sub a b
               else if operator = ascii ''*'' then num_mul a b
               else num_div a b)"
  from a have v: "validate calculator_schema raw =
      Inr [ascii ''operator'' \<mapsto> JStr operator, ascii ''b'' \<mapsto> JNum b, ascii ''a'' \<mapsto> JNum a]"
    by (intro validate_calculator) simp_all
  from a have c: "calculator a b operator =
     Inr (ToolResult
       [TextBlock (num_to_string a @ ascii '' '' @ operator @ ascii '' '' @ num_to_string b @
          ascii '' = '' @ num_to_string result)] None)"
    unfolding result_def by (intro calculator_validated) simp_all
  have "dispatch (server_registry cfg) h
        \<lparr>req_kind = Tool, req_name = ascii ''calculator'', req_args = raw\<rparr> =
        (Inr (ToolResult
           [TextBlock
              (num_to_string a @ ascii '' '' @ operator @ ascii '' '' @ num_to_string b @
               ascii '' = '' @ num_to_string result)] None), h)"
    by (simp add: dispatch_calculator v calculator_handler_validated c normalize_result_def)
  then show "dispatch (server_registry cfg) h
        \<lparr>req_kind = Tool, req_name = ascii ''calculator'', req_args = raw\<rparr> =
        (Inr (ToolResult
           [TextBlock
              (num_to_string a @ ascii '' '' @ operator @ ascii '' '' @ num_to_string b @
               ascii '' = '' @
               num_to_string (if operator = ascii ''+'' then num_add a b
                              else if operator = ascii ''-'' then num_sub a b
                              else if operator = ascii ''*'' then num_mul a b
                              else num_div a b))] None), h)"
    unfolding result_def .
qed

text \<open>The general statement at \<open>0.1 + 0.2\<close>, whose binary64 sum prints as \<^verbatim>\<open>0.30000000000000004\<close>.\<close>

theorem calculator_returns_formatted_result_witness:
  "dispatch (server_registry \<lparr>hf_token = None\<rparr>) (example_host JNull)
     \<lparr>req_kind = Tool, req_name = ascii ''calculator'',
      req_args = [ascii ''a'' \<mapsto> JNum (num_of_decimal 1 (- 1)),
                  ascii ''b'' \<mapsto> JNum (num_of_decimal 2 (- 1)),
                  ascii ''operator'' \<mapsto> JStr (ascii ''+'')]\<rparr> =
     (Inr (ToolResult [TextBlock (ascii ''0.1 + 0.2 = 0.30000000000000004'')] None),
      example_host JNull)"
proof -
  have n: "ascii ''a'' \<noteq> ascii ''b''" "ascii ''a'' \<noteq> ascii ''operator''"
    "ascii ''b'' \<noteq> ascii ''operator''" "ascii ''+'' \<noteq> ascii ''/''"
    by (simp_all add: ascii_def)
  have t: "ascii ''0.1'' @ ascii '' '' @ ascii ''+'' @ ascii '' '' @ ascii ''0.2'' @ ascii '' = '' @
      ascii ''0.30000000000000004'' = ascii ''0.1 + 0.2 = 0.30000000000000004''"
    by (simp add: ascii_def)
  from calculator_returns_formatted_result
    [of "\<lparr>hf_token = None\<rparr>" "example_host JNull"
        "[ascii ''a'' \<mapsto> JNum (num_of_decimal 1 (- 1)),
          ascii ''b'' \<mapsto> JNum (num_of_decimal 2 (- 1)),
          ascii ''operator'' \<mapsto> JStr (ascii ''+'')]"
        "num_of_decimal 1 (- 1)" "num_of_decimal 2 (- 1)" "ascii ''+''"]
  show ?thesis
    using n by (simp add: operators_def tenth_prints fifth_prints tenth_plus_fifth_prints t)
qed

text \<open>
  Claim C2. Dispatching the calculator tool with the operator \<^verbatim>\<open>/\<close> and \<open>b = 0\<close> never
  returns a success envelope, whatever \<open>a\<close> is; when \<open>a\<close> is a number the handler fails
  and the result is the Error Result that carries the handler's message
  \<open>division_by_zero_message\<close> (line 78: division by zero is not possible), and the host is
  left as it was. The result of a dispatch is either an envelope or an Error Result by
  its type. The second part is Scenario B, \<open>a = 1\<close> and \<open>b = 0\<close>.
\<close>

theorem division_by_zero_is_error_result:
  "(raw (ascii ''operator'') = Some (JStr (ascii ''/'')) \<and>
    raw (ascii ''b'') = Some (JNum b) \<and> num_is_zero b \<longrightarrow>
      (\<forall>envelope.
         fst (dispatch (server_registry cfg) h
                \<lparr>req_kind = Tool, req_name = ascii ''calculator'', req_args = raw\<rparr>) \<noteq>
         Inr envelope) \<and>
      (\<forall>a. raw (ascii ''a'') = Some (JNum a) \<longrightarrow>
         dispatch (server_registry cfg) h
           \<lparr>req_kind = Tool, req_name = ascii ''calculator'', req_args = raw\<rparr> =
         (Inl (HandlerFailed (Error division_by_zero_message)), h)))
   \<and> dispatch (server_registry cfg) h
        \<lparr>req_kind = Tool, req_name = ascii ''calculator'',
         req_args = [ascii ''a'' \<mapsto> JNum (num_of_int 1), ascii ''b'' \<mapsto> JNum (num_of_int 0),
                     ascii ''operator'' \<mapsto> JStr (ascii ''/'')]\<rparr> =
      (Inl (HandlerFailed (Error division_by_zero_message)), h)"
proof -
  have number: "dispatch (server_registry cfg) h
           \<lparr>req_kind = Tool, req_name = ascii ''calculator'', req_args = raw\<rparr> =
         (Inl (HandlerFailed (Error division_by_zero_message)), h)"
    if "raw (ascii ''operator'') = Some (JStr (ascii ''/''))" "raw (ascii ''b'') = Some (JNum b)"
      "num_is_zero b" "raw (ascii ''a'') = Some (JNum a)" for raw a b
  proof -
    from that have v: "validate calculator_schema raw =
        Inr [ascii ''operator'' \<mapsto> JStr (ascii ''/''), ascii ''b'' \<mapsto> JNum b, ascii ''a'' \<mapsto> JNum a]"
      by (intro validate_calculator slash_is_operator)
    show ?thesis
      by (simp add: dispatch_calculator v calculator_handler_validated
            calculator_division_by_zero [OF that(3)])
  qed
  have never: "fst (dispatch (server_registry cfg) h
                \<lparr>req_kind = Tool, req_name = ascii ''calculator'', req_args = raw\<rparr>) \<noteq>
         Inr envelope"
    if op: "raw (ascii ''operator'') = Some (JStr (ascii ''/''))"
      and b: "raw (ascii ''b'') = Some (JNum b)" and z: "num_is_zero b" for envelope
  proof (cases "validate calculator_schema raw")
    case (Inl e)
    then show ?thesis by (simp add: dispatch_calculator)
  next
    case (Inr args)
    then obtain a where "raw (ascii ''a'') = Some (JNum a)"
      by (auto simp: validate_calculator_iff)
    from number [OF op b z this] show ?thesis by simp
  qed
  have scenario: "dispatch (server_registry cfg) h
        \<lparr>req_kind = Tool, req_name = ascii ''calculator'',
         req_args = [ascii ''a'' \<mapsto> JNum (num_of_int 1), ascii ''b'' \<mapsto> JNum (num_of_int 0),
                     ascii ''operator'' \<mapsto> JStr (ascii ''/'')]\<rparr> =
      (Inl (HandlerFailed (Error division_by_zero_message)), h)"
    using arg_names_distinct by (intro number [OF _ _ zero_is_zero]) simp_all
  from number never scenario show ?thesis by blast
qed

text \<open>The general statement for \<open>a = 7\<close> and the zero that \<open>0 * - 1\<close> computes.\<close>

theorem division_by_zero_is_error_result_witness:
  "(\<forall>envelope.
      fst (dispatch (server_registry \<lparr>hf_token = None\<rparr>) (example_host JNull)
             \<lparr>req_kind = Tool, req_name = ascii ''calculator'',
              req_args = [ascii ''a'' \<mapsto> JNum (num_of_int 7),
                          ascii ''b'' \<mapsto> JNum (num_mul (num_of_int 0) (num_of_int (- 1))),
                          ascii ''operator'' \<mapsto> JStr (ascii ''/'')]\<rparr>) \<noteq>
      Inr envelope)
   \<and> dispatch (server_registry \<lparr>hf_token = None\<rparr>) (example_host JNull)
        \<lparr>req_kind = Tool, req_name = ascii ''calculator'',
         req_args = [ascii ''a'' \<mapsto> JNum (num_of_int 7),
                     ascii ''b'' \<mapsto> JNum (num_mul (num_of_int 0) (num_of_int (- 1))),
                     ascii ''operator'' \<mapsto> JStr (ascii ''/'')]\<rparr> =
      (Inl (HandlerFailed (Error division_by_zero_message)), example_host JNull)"
proof -
  have z: "num_is_zero (num_mul (num_of_int 0) (num_of_int (- 1)))"
    by code_simp
  from division_by_zero_is_error_result
    [of "[ascii ''a'' \<mapsto> JNum (num_of_int 7),
          ascii ''b'' \<mapsto> JNum (num_mul (num_of_int 0) (num_of_int (- 1))),
          ascii ''operator'' \<mapsto> JStr (ascii ''/'')]"
        "num_mul (num_of_int 0) (num_of_int (- 1))" "\<lparr>hf_token = None\<rparr>" "example_host JNull"]
  show ?thesis
    using arg_names_distinct z by simp
qed

text \<open>
  Claim C7. Two dispatches of the same calculator request give the same result: the
  result does not depend on the host (its clock, its network, the calls made before) nor
  on the configuration, the dispatch leaves the host as it was, and so a second dispatch
  that follows the first returns an equal result.
\<close>

theorem calculator_dispatch_is_deterministic:
  "fst (dispatch (server_registry cfg1) h1
          \<lparr>req_kind = Tool, req_name = ascii ''calculator'', req_args = raw\<rparr>) =
   fst (dispatch (server_registry cfg2) h2
          \<lparr>req_kind = Tool, req_name = ascii ''calculator'', req_args = raw\<rparr>)
   \<and> snd (dispatch (server_registry cfg1) h1
          \<lparr>req_kind = Tool, req_name = ascii ''calculator'', req_args = raw\<rparr>) = h1
   \<and> fst (dispatch (server_registry cfg1)
          (snd (dispatch (server_registry cfg1) h1
                  \<lparr>req_kind = Tool, req_name = ascii ''calculator'', req_args = raw\<rparr>))
          \<lparr>req_kind = Tool, req_name = ascii ''calculator'', req_args = raw\<rparr>) =
     fst (dispatch (server_registry cfg1) h1
          \<lparr>req_kind = Tool, req_name = ascii ''calculator'', req_args = raw\<rparr>)
   \<and> fst (calculator_handler h1 args) = fst (calculator_handler h2 args)
   \<and> snd (calculator_handler h1 args) = h1"
proof (intro conjI)
  show "fst (dispatch (server_registry cfg1) h1
          \<lparr>req_kind = Tool, req_name = ascii ''calculator'', req_args = raw\<rparr>) =
   fst (dispatch (server_registry cfg2) h2
          \<lparr>req_kind = Tool, req_name = ascii ''calculator'', req_args = raw\<rparr>)"
    by (rule dispatch_calculator_result)
  show "snd (dispatch (server_registry cfg1) h1
          \<lparr>req_kind = Tool, req_name = ascii ''calculator'', req_args = raw\<rparr>) = h1"
    by (rule dispatch_calculator_host)
  show "fst (dispatch (server_registry cfg1)
          (snd (dispatch (server_registry cfg1) h1
                  \<lparr>req_kind = Tool, req_name = ascii ''calculator'', req_args = raw\<rparr>))
          \<lparr>req_kind = Tool, req_name = ascii ''calculator'', req_args = raw\<rparr>) =
     fst (dispatch (server_registry cfg1) h1
          \<lparr>req_kind = Tool, req_name = ascii ''calculator'', req_args = raw\<rparr>)"
    by (simp add: dispatch_calculator_host)
  show "fst (calculator_handler h1 args) = fst (calculator_handler h2 args)"
    by (rule calculator_handler_result)
  show "snd (calculator_handler h1 args) = h1"
    using calculator_handler_host [of h1 args] by (cases "calculator_handler h1 args") simp
qed

text \<open>
  Two hosts that differ in their clock and in the calls made so far, and two
  configurations: the request \<open>7 * 6\<close> gives \<^verbatim>\<open>7 * 6 = 42\<close> on both.
\<close>

theorem calculator_dispatch_is_deterministic_witness:
  "fst (dispatch (server_registry \<lparr>hf_token = None\<rparr>) (example_host JNull)
          \<lparr>req_kind = Tool, req_name = ascii ''calculator'',
           req_args = [ascii ''a'' \<mapsto> JNum (num_of_int 7), ascii ''b'' \<mapsto> JNum (num_of_int 6),
                       ascii ''operator'' \<mapsto> JStr (ascii ''*'')]\<rparr>) =
   fst (dispatch (server_registry \<lparr>hf_token = Some (ascii ''token'')\<rparr>)
          ((example_host (JArr []))
             \<lparr>clock := 1800000000000,
              outbound_calls := [TextToImage (ascii ''token'') (ascii ''a cat'')]\<rparr>)
          \<lparr>req_kind = Tool, req_name = ascii ''calculator'',
           req_args = [ascii ''a'' \<mapsto> JNum (num_of_int 7), ascii ''b'' \<mapsto> JNum (num_of_int 6),
                       ascii ''operator'' \<mapsto> JStr (ascii ''*'')]\<rparr>)
   \<and> fst (dispatch (server_registry \<lparr>hf_token = None\<rparr>) (example_host JNull)
          \<lparr>req_kind = Tool, req_name = ascii ''calculator'',
           req_args = [ascii ''a'' \<mapsto> JNum (num_of_int 7), ascii ''b'' \<mapsto> JNum (num_of_int 6),
                       ascii ''operator'' \<mapsto> JStr (ascii ''*'')]\<rparr>) =
     Inr (ToolResult [TextBlock (ascii ''7 * 6 = 42'')] None)"
proof -
  have star: "ascii ''*'' \<in> set operators" "ascii ''*'' \<noteq> ascii ''/''"
    "ascii ''*'' \<noteq> ascii ''+''" "ascii ''*'' \<noteq> ascii ''-''"
    by (simp_all add: operators_def ascii_def)
  have n: "num_to_string (num_of_int 7) = ascii ''7''" "num_to_string (num_of_int 6) = ascii ''6''"
    "num_to_string (num_mul (num_of_int 7) (num_of_int 6)) = ascii ''42''"
    by code_simp+
  have t: "ascii ''7'' @ ascii '' '' @ ascii ''*'' @ ascii '' '' @ ascii ''6'' @ ascii '' = '' @
      ascii ''42'' = ascii ''7 * 6 = 42''"
    by (simp add: ascii_def)
  have v: "validate calculator_schema
      [ascii ''a'' \<mapsto> JNum (num_of_int 7), ascii ''b'' \<mapsto> JNum (num_of_int 6),
       ascii ''operator'' \<mapsto> JStr (ascii ''*'')] =
      Inr [ascii ''operator'' \<mapsto> JStr (ascii ''*''), ascii ''b'' \<mapsto> JNum (num_of_int 6),
           ascii ''a'' \<mapsto> JNum (num_of_int 7)]"
    using arg_names_distinct star by (intro validate_calculator) simp_all
  have r: "fst (dispatch (server_registry \<lparr>hf_token = None\<rparr>) (example_host JNull)
          \<lparr>req_kind = Tool, req_name = ascii ''calculator'',
           req_args = [ascii ''a'' \<mapsto> JNum (num_of_int 7), ascii ''b'' \<mapsto> JNum (num_of_int 6),
                       ascii ''operator'' \<mapsto> JStr (ascii ''*'')]\<rparr>) =
     Inr (ToolResult [TextBlock (ascii ''7 * 6 = 42'')] None)"
    using star
    by (simp add: dispatch_calculator v calculator_handler_validated calculator_def calculate_def
          text_result_def normalize_result_def n t)
  from calculator_dispatch_is_deterministic
    [of "\<lparr>hf_token = None\<rparr>" "example_host JNull"
        "[ascii ''a'' \<mapsto> JNum (num_of_int 7), ascii ''b'' \<mapsto> JNum (num_of_int 6),
          ascii ''operator'' \<mapsto> JStr (ascii ''*'')]"
        "\<lparr>hf_token = Some (ascii ''token'')\<rparr>"
        "(example_host (JArr []))
             \<lparr>clock := 1800000000000,
              outbound_calls := [TextToImage (ascii ''token'') (ascii ''a cat'')]\<rparr>"]
  show ?thesis
    using r by blast
qed

text \<open>
  Claim C10. The operator of the calculator is validated against the enumeration of
  \<^verbatim>\<open>+\<close>, \<^verbatim>\<open>-\<close>, \<^verbatim>\<open>*\<close> and \<^verbatim>\<open>/\<close> before the handler runs. For an operator of this
  enumeration the \<^verbatim>\<open>switch\<close> takes one of the four arithmetic cases and never the
  default branch; arguments that pass validation carry such an operator; hence no
  dispatch of the calculator ends in the error of the default branch,
  \<open>unsupported_operator_message\<close> (line 82). The branch itself exists: applied to an
  operator outside the enumeration, the \<^verbatim>\<open>switch\<close> throws that error.
\<close>

theorem unsupported_operator_branch_unreachable:
  "(operator \<in> set operators \<longrightarrow>
      calculate a b operator \<noteq> Inl (Error unsupported_operator_message) \<and>
      calculate a b operator =
        (if operator = ascii ''+'' then Inr (num_add a b)
         else if operator = ascii ''-'' then Inr (num_sub a b)
         else if operator = ascii ''*'' then Inr (num_mul a b)
         else if num_is_zero b then Inl (Error division_by_zero_message)
         else Inr (num_div a b)))
   \<and> (validate calculator_schema raw = Inr args \<longrightarrow>
        (\<exists>validated. args (ascii ''operator'') = Some (JStr validated) \<and>
                      validated \<in> set operators))
   \<and> fst (dispatch (server_registry cfg) h
            \<lparr>req_kind = Tool, req_name = ascii ''calculator'', req_args = raw\<rparr>) \<noteq>
       Inl (HandlerFailed (Error unsupported_operator_message))
   \<and> calculate a b (ascii ''%'') = Inl (Error unsupported_operator_message)"
proof (intro conjI impI)
  assume op: "operator \<in> set operators"
  then show "calculate a b operator \<noteq> Inl (Error unsupported_operator_message)"
    by (rule calculate_validated)
  from op show "calculate a b operator =
        (if operator = ascii ''+'' then Inr (num_add a b)
         else if operator = ascii ''-'' then Inr (num_sub a b)
         else if operator = ascii ''*'' then Inr (num_mul a b)
         else if num_is_zero b then Inl (Error division_by_zero_message)
         else Inr (num_div a b))"
    by (auto simp: operators_cases calculate_def)
next
  assume "validate calculator_schema raw = Inr args"
  then show "\<exists>validated. args (ascii ''operator'') = Some (JStr validated) \<and>
                      validated \<in> set operators"
    by (auto simp: validate_calculator_iff)
next
  show "fst (dispatch (server_registry cfg) h
            \<lparr>req_kind = Tool, req_name = ascii ''calculator'', req_args = raw\<rparr>) \<noteq>
       Inl (HandlerFailed (Error unsupported_operator_message))"
  proof (cases "validate calculator_schema raw")
    case (Inl e)
    then show ?thesis by (simp add: dispatch_calculator)
  next
    case (Inr validated)
    then obtain x y operator where op: "operator \<in> set operators"
      and args: "validated = [ascii ''operator'' \<mapsto> JStr operator, ascii ''b'' \<mapsto> JNum y,
                              ascii ''a'' \<mapsto> JNum x]"
      by (auto simp: validate_calculator_iff)
    from calculate_validated [OF op, of x y] show ?thesis
      by (auto simp: dispatch_calculator Inr args calculator_handler_validated calculator_def
            normalize_result_def text_result_def split: sum.splits)
  qed
next
  show "calculate a b (ascii ''%'') = Inl (Error unsupported_operator_message)"
    by (simp add: calculate_def ascii_def)
qed

text \<open>
  The operator \<^verbatim>\<open>-\<close> of the enumeration at \<open>5 - 8\<close>, and the request with the operator
  \<^verbatim>\<open>%\<close>, which the validator rejects.
\<close>

theorem unsupported_operator_branch_unreachable_witness:
  "calculate (num_of_int 5) (num_of_int 8) (ascii ''-'') = Inr (num_of_int (- 3))
   \<and> fst (dispatch (server_registry \<lparr>hf_token = None\<rparr>) (example_host JNull)
            \<lparr>req_kind = Tool, req_name = ascii ''calculator'',
             req_args = [ascii ''a'' \<mapsto> JNum (num_of_int 5), ascii ''b'' \<mapsto> JNum (num_of_int 8),
                         ascii ''operator'' \<mapsto> JStr (ascii ''%'')]\<rparr>) =
       Inl (ValidationFailed (InvalidEnumValue (ascii ''operator'') operators (ascii ''%'')))
   \<and> fst (dispatch (server_registry \<lparr>hf_token = None\<rparr>) (example_host JNull)
            \<lparr>req_kind = Tool, req_name = ascii ''calculator'',
             req_args = [ascii ''a'' \<mapsto> JNum (num_of_int 5), ascii ''b'' \<mapsto> JNum (num_of_int 8),
                         ascii ''operator'' \<mapsto> JStr (ascii ''%'')]\<rparr>) \<noteq>
       Inl (HandlerFailed (Error unsupported_operator_message))"
proof -
  have minus: "ascii ''-'' \<in> set operators" "ascii ''-'' \<noteq> ascii ''+''"
    by (simp_all add: operators_def ascii_def)
  have percent: "ascii ''%'' \<notin> set operators"
    by (simp add: operators_def ascii_def)
  have d: "num_sub (num_of_int 5) (num_of_int 8) = num_of_int (- 3)"
    by code_simp
  have rejected: "fst (dispatch (server_registry \<lparr>hf_token = None\<rparr>) (example_host JNull)
            \<lparr>req_kind = Tool, req_name = ascii ''calculator'',
             req_args = [ascii ''a'' \<mapsto> JNum (num_of_int 5), ascii ''b'' \<mapsto> JNum (num_of_int 8),
                         ascii ''operator'' \<mapsto> JStr (ascii ''%'')]\<rparr>) =
       Inl (ValidationFailed (InvalidEnumValue (ascii ''operator'') operators (ascii ''%'')))"
    using arg_names_distinct percent
    by (simp add: dispatch_calculator calculator_schema_def validate_field_def within_bounds_def)
  from unsupported_operator_branch_unreachable
    [of "ascii ''-''" "num_of_int 5" "num_of_int 8"
        "[ascii ''a'' \<mapsto> JNum (num_of_int 5), ascii ''b'' \<mapsto> JNum (num_of_int 8),
          ascii ''operator'' \<mapsto> JStr (ascii ''%'')]" _ "\<lparr>hf_token = None\<rparr>" "example_host JNull"]
  show ?thesis
    using minus d rejected by simp
qed

section \<open>The greeting\<close>

lemma greeting_names_distinct: "ascii ''name'' \<noteq> ascii ''language''"
  by (simp add: ascii_def)

lemma validate_greeting_default:
  assumes "raw (ascii ''name'') = Some (JStr name)" "raw (ascii ''language'') = None"
  shows "validate greeting_schema raw =
           Inr [ascii ''language'' \<mapsto> JStr (ascii ''ko''), ascii ''name'' \<mapsto> JStr name]"
  using assms by (simp add: greeting_schema_def validate_field_def)

lemma validate_greeting_given:
  assumes "raw (ascii ''name'') = Some (JStr name)" "raw (ascii ''language'') = Some (JStr language)"
    and "language \<in> set [ascii ''ko'', ascii ''en'']"
  shows "validate greeting_schema raw =
           Inr [ascii ''language'' \<mapsto> JStr language, ascii ''name'' \<mapsto> JStr name]"
  using assms by (simp add: greeting_schema_def validate_field_def)

lemma greeting_handler_validated:
  "greeting_handler h [ascii ''language'' \<mapsto> JStr language, ascii ''name'' \<mapsto> JStr name] =
     (greeting name language, h)"
  using greeting_names_distinct by (simp add: greeting_handler_def string_arg_def)

lemma dispatch_greeting:
  assumes "validate greeting_schema raw =
             Inr [ascii ''language'' \<mapsto> JStr language, ascii ''name'' \<mapsto> JStr name]"
  shows "dispatch (server_registry cfg) h
           \<lparr>req_kind = Tool, req_name = ascii ''greeting'', req_args = raw\<rparr> =
         (case greeting name language of
            Inl e \<Rightarrow> (Inl (HandlerFailed e), h)
          | Inr r \<Rightarrow> (Inr r, h))"
  by (simp add: dispatch_resolved [OF resolve_greeting] assms greeting_handler_validated
        greeting_def text_result_def normalize_result_def Let_def)

lemma greeting_ko:
  "greeting name (ascii ''ko'') =
     Inr (ToolResult
       [TextBlock ([0xC548, 0xB155, 0xD558, 0xC138, 0xC694, 0x2C, 0x20] @ name @
                   [0xB2D8, 0x21, 0x20, 0xD83D, 0xDE0A])] None)"
  by (simp add: greeting_def text_result_def)

lemma greeting_en:
  "greeting name (ascii ''en'') =
     Inr (ToolResult
       [TextBlock (ascii ''Hello, '' @ name @ [0x21, 0x20, 0xD83D, 0xDC4B])] None)"
  by (simp add: greeting_def text_result_def ascii_def)

text \<open>
  Claim C4. The optional field \<open>language\<close> of the greeting tool defaults to \<^verbatim>\<open>ko\<close>: when
  only \<open>name\<close> is supplied, validation puts \<^verbatim>\<open>ko\<close> into the validated arguments and the
  dispatch succeeds with the Korean greeting for that name (line 40), the same as when
  \<^verbatim>\<open>ko\<close> is supplied; supplying \<^verbatim>\<open>en\<close> overrides the default and gives the English
  greeting (line 41). The last part is Scenario C, the name \<^verbatim>\<open>Sam\<close> alone.
\<close>

theorem greeting_language_defaults_to_ko:
  "(raw (ascii ''name'') = Some (JStr name) \<and> raw (ascii ''language'') = None \<longrightarrow>
      validate greeting_schema raw =
        Inr [ascii ''language'' \<mapsto> JStr (ascii ''ko''), ascii ''name'' \<mapsto> JStr name] \<and>
      dispatch (server_registry cfg) h
        \<lparr>req_kind = Tool, req_name = ascii ''greeting'', req_args = raw\<rparr> =
      (Inr (ToolResult
         [TextBlock ([0xC548, 0xB155, 0xD558, 0xC138, 0xC694, 0x2C, 0x20] @ name @
                     [0xB2D8, 0x21, 0x20, 0xD83D, 0xDE0A])] None), h))
   \<and> (raw (ascii ''name'') = Some (JStr name) \<and>
       raw (ascii ''language'') = Some (JStr (ascii ''ko'')) \<longrightarrow>
      dispatch (server_registry cfg) h
        \<lparr>req_kind = Tool, req_name = ascii ''greeting'', req_args = raw\<rparr> =
      (Inr (ToolResult
         [TextBlock ([0xC548, 0xB155, 0xD558, 0xC138, 0xC694, 0x2C, 0x20] @ name @
                     [0xB2D8, 0x21, 0x20, 0xD83D, 0xDE0A])] None), h))
   \<and> (raw (ascii ''name'') = Some (JStr name) \<and>
       raw (ascii ''language'') = Some (JStr (ascii ''en'')) \<longrightarrow>
      dispatch (server_registry cfg) h
        \<lparr>req_kind = Tool, req_name = ascii ''greeting'', req_args = raw\<rparr> =
      (Inr (ToolResult
         [TextBlock (ascii ''Hello, '' @ name @ [0x21, 0x20, 0xD83D, 0xDC4B])] None), h))
   \<and> dispatch (server_registry cfg) h
        \<lparr>req_kind = Tool, req_name = ascii ''greeting'',
         req_args = [ascii ''name'' \<mapsto> JStr (ascii ''Sam'')]\<rparr> =
      (Inr (ToolResult
         [TextBlock ([0xC548, 0xB155, 0xD558, 0xC138, 0xC694, 0x2C, 0x20] @ ascii ''Sam'' @
                     [0xB2D8, 0x21, 0x20, 0xD83D, 0xDE0A])] None), h)"
proof -
  have absent: "validate greeting_schema raw =
        Inr [ascii ''language'' \<mapsto> JStr (ascii ''ko''), ascii ''name'' \<mapsto> JStr name] \<and>
      dispatch (server_registry cfg) h
        \<lparr>req_kind = Tool, req_name = ascii ''greeting'', req_args = raw\<rparr> =
      (Inr (ToolResult
         [TextBlock ([0xC548, 0xB155, 0xD558, 0xC138, 0xC694, 0x2C, 0x20] @ name @
                     [0xB2D8, 0x21, 0x20, 0xD83D, 0xDE0A])] None), h)"
    if "raw (ascii ''name'') = Some (JStr name)" "raw (ascii ''language'') = None" for raw name
    using validate_greeting_default [OF that]
    by (simp add: dispatch_greeting greeting_ko)
  have ko: "dispatch (server_registry cfg) h
        \<lparr>req_kind = Tool, req_name = ascii ''greeting'', req_args = raw\<rparr> =
      (Inr (ToolResult
         [TextBlock ([0xC548, 0xB155, 0xD558, 0xC138, 0xC694, 0x2C, 0x20] @ name @
                     [0xB2D8, 0x21, 0x20, 0xD83D, 0xDE0A])] None), h)"
    if "raw (ascii ''name'') = Some (JStr name)"
      "raw (ascii ''language'') = Some (JStr (ascii ''ko''))"
    using validate_greeting_given [OF that]
    by (simp add: dispatch_greeting greeting_ko)
  have en: "dispatch (server_registry cfg) h
        \<lparr>req_kind = Tool, req_name = ascii ''greeting'', req_args = raw\<rparr> =
      (Inr (ToolResult
         [TextBlock (ascii ''Hello, '' @ name @ [0x21, 0x20, 0xD83D, 0xDC4B])] None), h)"
    if "raw (ascii ''name'') = Some (JStr name)"
      "raw (ascii ''language'') = Some (JStr (ascii ''en''))"
    using validate_greeting_given [OF that]
    by (simp add: dispatch_greeting greeting_en)
  have sam: "dispatch (server_registry cfg) h
        \<lparr>req_kind = Tool, req_name = ascii ''greeting'',
         req_args = [ascii ''name'' \<mapsto> JStr (ascii ''Sam'')]\<rparr> =
      (Inr (ToolResult
         [TextBlock ([0xC548, 0xB155, 0xD558, 0xC138, 0xC694, 0x2C, 0x20] @ ascii ''Sam'' @
                     [0xB2D8, 0x21, 0x20, 0xD83D, 0xDE0A])] None), h)"
    using greeting_names_distinct by (intro absent [THEN conjunct2]) simp_all
  from absent ko en sam show ?thesis by blast
qed

text \<open>The general statement for the name \<^verbatim>\<open>Ada\<close>, with no language and with \<^verbatim>\<open>en\<close>.\<close>

theorem greeting_language_defaults_to_ko_witness:
  "dispatch (server_registry \<lparr>hf_token = None\<rparr>) (example_host JNull)
     \<lparr>req_kind = Tool, req_name = ascii ''greeting'',
      req_args = [ascii ''name'' \<mapsto> JStr (ascii ''Ada'')]\<rparr> =
   (Inr (ToolResult
      [TextBlock ([0xC548, 0xB155, 0xD558, 0xC138, 0xC694, 0x2C, 0x20] @ ascii ''Ada'' @
                  [0xB2D8, 0x21, 0x20, 0xD83D, 0xDE0A])] None), example_host JNull)
   \<and> dispatch (server_registry \<lparr>hf_token = None\<rparr>) (example_host JNull)
     \<lparr>req_kind = Tool, req_name = ascii ''greeting'',
      req_args = [ascii ''name'' \<mapsto> JStr (ascii ''Ada''),
                  ascii ''language'' \<mapsto> JStr (ascii ''en'')]\<rparr> =
   (Inr (ToolResult [TextBlock (ascii ''Hello, Ada'' @ [0x21, 0x20, 0xD83D, 0xDC4B])] None),
    example_host JNull)"
proof -
  have t: "ascii ''Hello, '' @ ascii ''Ada'' @ [0x21, 0x20, 0xD83D, 0xDC4B] =
      ascii ''Hello, Ada'' @ [0x21, 0x20, 0xD83D, 0xDC4B]"
    by (simp add: ascii_def)
  from greeting_language_defaults_to_ko
    [of "[ascii ''name'' \<mapsto> JStr (ascii ''Ada'')]" "ascii ''Ada''"
        "\<lparr>hf_token = None\<rparr>" "example_host JNull"]
    greeting_language_defaults_to_ko
    [of "[ascii ''name'' \<mapsto> JStr (ascii ''Ada''), ascii ''language'' \<mapsto> JStr (ascii ''en'')]"
        "ascii ''Ada''" "\<lparr>hf_token = None\<rparr>" "example_host JNull"]
  show ?thesis
    using greeting_names_distinct by (simp add: t)
qed

section \<open>The bounds of get_weather\<close>

lemma latitude_out_of_range:
  assumes "raw (ascii ''latitude'') = Some (JNum x)"
    and "num_less (num_of_int 90) x \<or> num_less x (num_of_int (- 90))"
  shows "validate get_weather_schema raw =
           Inl (OutOfRange (ascii ''latitude'') (Some (num_of_int (- 90))) (Some (num_of_int 90)) x)"
  using assms
  by (auto simp: get_weather_schema_def validate_field_def within_bounds_def
        dest: num_less_not_le)

lemma longitude_out_of_range:
  assumes "raw (ascii ''latitude'') = Some (JNum x)"
    and "num_le (num_of_int (- 90)) x" "num_le x (num_of_int 90)"
    and "raw (ascii ''longitude'') = Some (JNum y)"
    and "num_less (num_of_int 180) y \<or> num_less y (num_of_int (- 180))"
  shows "validate get_weather_schema raw =
           Inl (OutOfRange (ascii ''longitude'') (Some (num_of_int (- 180)))
                  (Some (num_of_int 180)) y)"
  using assms
  by (auto simp: get_weather_schema_def validate_field_def within_bounds_def
        dest: num_less_not_le)

lemma weather_bounds:
  "num_le (num_of_int (- 90)) (num_of_int (- 90))" "num_le (num_of_int (- 90)) (num_of_int 90)"
  "num_le (num_of_int 90) (num_of_int 90)"
  "num_le (num_of_int (- 180)) (num_of_int (- 180))" "num_le (num_of_int (- 180)) (num_of_int 180)"
  "num_le (num_of_int 180) (num_of_int 180)"
  by code_simp+

lemma validate_get_weather_defaults:
  assumes "raw (ascii ''latitude'') = Some (JNum x)"
    and "num_le (num_of_int (- 90)) x" "num_le x (num_of_int 90)"
    and "raw (ascii ''longitude'') = Some (JNum y)"
    and "num_le (num_of_int (- 180)) y" "num_le y (num_of_int 180)"
    and "raw (ascii ''timezone'') = None" "raw (ascii ''forecast_days'') = None"
  shows "validate get_weather_schema raw =
           Inr [ascii ''forecast_days'' \<mapsto> JNum (num_of_int 3),
                ascii ''timezone'' \<mapsto> JStr (ascii ''auto''),
                ascii ''longitude'' \<mapsto> JNum y,
                ascii ''latitude'' \<mapsto> JNum x]"
  using assms
  by (simp add: get_weather_schema_def validate_field_def within_bounds_def)

lemma ninety_five: "num_less (num_of_int 90) (num_of_int 95)"
  by code_simp

lemma weather_names_distinct:
  "ascii ''latitude'' \<noteq> ascii ''longitude''" "ascii ''latitude'' \<noteq> ascii ''timezone''"
  "ascii ''latitude'' \<noteq> ascii ''forecast_days''" "ascii ''longitude'' \<noteq> ascii ''timezone''"
  "ascii ''longitude'' \<noteq> ascii ''forecast_days''" "ascii ''timezone'' \<noteq> ascii ''forecast_days''"
  by (simp_all add: ascii_def)

lemma get_weather_handler_validated:
  "get_weather_handler h
     [ascii ''forecast_days'' \<mapsto> JNum d, ascii ''timezone'' \<mapsto> JStr tz,
      ascii ''longitude'' \<mapsto> JNum y, ascii ''latitude'' \<mapsto> JNum x] =
   get_weather h x y tz d"
  using weather_names_distinct
  by (simp add: get_weather_handler_def number_arg_def string_arg_def)

text \<open>
  Claim C3. The latitude of the get_weather tool has the inclusive bounds \<open>- 90\<close> and
  \<open>90\<close>, the longitude \<open>- 180\<close> and \<open>180\<close>. A request whose latitude is a number
  strictly above \<open>90\<close> or strictly below \<open>- 90\<close> fails validation with \<open>OutOfRange\<close> on
  \<open>latitude\<close>; the handler is not invoked: the host is left as it was (no request is
  sent), and the outcome is the same whatever handler is registered under the schema.
  A longitude outside its bounds fails likewise once the latitude is within bounds.
  Values equal to a bound pass validation. The last part is Scenario E, the latitude
  \<open>95\<close> with the longitude \<open>0\<close>.
\<close>

theorem get_weather_bounds_are_inclusive:
  "(raw (ascii ''latitude'') = Some (JNum x) \<and>
    (num_less (num_of_int 90) x \<or> num_less x (num_of_int (- 90))) \<longrightarrow>
      dispatch (server_registry cfg) h
        \<lparr>req_kind = Tool, req_name = ascii ''get_weather'', req_args = raw\<rparr> =
      (Inl (ValidationFailed
              (OutOfRange (ascii ''latitude'') (Some (num_of_int (- 90))) (Some (num_of_int 90)) x)),
       h) \<and>
      dispatch
        [\<lparr>cap_kind = Tool, cap_name = ascii ''get_weather'',
          cap_schema = get_weather_schema, cap_handler = any_handler\<rparr>] h
        \<lparr>req_kind = Tool, req_name = ascii ''get_weather'', req_args = raw\<rparr> =
      (Inl (ValidationFailed
              (OutOfRange (ascii ''latitude'') (Some (num_of_int (- 90))) (Some (num_of_int 90)) x)),
       h))
   \<and> (raw (ascii ''latitude'') = Some (JNum x) \<and>
       num_le (num_of_int (- 90)) x \<and> num_le x (num_of_int 90) \<and>
       raw (ascii ''longitude'') = Some (JNum y) \<and>
       (num_less (num_of_int 180) y \<or> num_less y (num_of_int (- 180))) \<longrightarrow>
      dispatch (server_registry cfg) h
        \<lparr>req_kind = Tool, req_name = ascii ''get_weather'', req_args = raw\<rparr> =
      (Inl (ValidationFailed
              (OutOfRange (ascii ''longitude'') (Some (num_of_int (- 180)))
                 (Some (num_of_int 180)) y)),
       h))
   \<and> (raw (ascii ''latitude'') = Some (JNum x) \<and>
       (x = num_of_int (- 90) \<or> x = num_of_int 90) \<and>
       raw (ascii ''longitude'') = Some (JNum y) \<and>
       (y = num_of_int (- 180) \<or> y = num_of_int 180) \<and>
       raw (ascii ''timezone'') = None \<and> raw (ascii ''forecast_days'') = None \<longrightarrow>
      validate get_weather_schema raw =
        Inr [ascii ''forecast_days'' \<mapsto> JNum (num_of_int 3),
             ascii ''timezone'' \<mapsto> JStr (ascii ''auto''),
             ascii ''longitude'' \<mapsto> JNum y,
             ascii ''latitude'' \<mapsto> JNum x])
   \<and> dispatch (server_registry cfg) h
        \<lparr>req_kind = Tool, req_name = ascii ''get_weather'',
         req_args = [ascii ''latitude'' \<mapsto> JNum (num_of_int 95),
                     ascii ''longitude'' \<mapsto> JNum (num_of_int 0)]\<rparr> =
      (Inl (ValidationFailed
              (OutOfRange (ascii ''latitude'') (Some (num_of_int (- 90))) (Some (num_of_int 90))
                 (num_of_int 95))),
       h)"
proof -
  have lat: "dispatch reg h
        \<lparr>req_kind = Tool, req_name = ascii ''get_weather'', req_args = raw\<rparr> =
      (Inl (ValidationFailed
              (OutOfRange (ascii ''latitude'') (Some (num_of_int (- 90))) (Some (num_of_int 90)) x)),
       h)"
    if "resolve reg Tool (ascii ''get_weather'') = Some c" "cap_schema c = get_weather_schema"
      "raw (ascii ''latitude'') = Some (JNum x)"
      "num_less (num_of_int 90) x \<or> num_less x (num_of_int (- 90))" for reg c raw x
    by (simp add: dispatch_resolved [OF that(1)] that(2) latitude_out_of_range [of raw x, OF that(3,4)])
  have lon: "dispatch (server_registry cfg) h
        \<lparr>req_kind = Tool, req_name = ascii ''get_weather'', req_args = raw\<rparr> =
      (Inl (ValidationFailed
              (OutOfRange (ascii ''longitude'') (Some (num_of_int (- 180)))
                 (Some (num_of_int 180)) y)),
       h)"
    if "raw (ascii ''latitude'') = Some (JNum x)"
      "num_le (num_of_int (- 90)) x" "num_le x (num_of_int 90)"
      "raw (ascii ''longitude'') = Some (JNum y)"
      "num_less (num_of_int 180) y \<or> num_less y (num_of_int (- 180))"
    by (simp add: dispatch_resolved [OF resolve_get_weather] longitude_out_of_range [of raw x y, OF that])
  have bound: "validate get_weather_schema raw =
        Inr [ascii ''forecast_days'' \<mapsto> JNum (num_of_int 3),
             ascii ''timezone'' \<mapsto> JStr (ascii ''auto''),
             ascii ''longitude'' \<mapsto> JNum y,
             ascii ''latitude'' \<mapsto> JNum x]"
    if "raw (ascii ''latitude'') = Some (JNum x)" "x = num_of_int (- 90) \<or> x = num_of_int 90"
      "raw (ascii ''longitude'') = Some (JNum y)" "y = num_of_int (- 180) \<or> y = num_of_int 180"
      "raw (ascii ''timezone'') = None" "raw (ascii ''forecast_days'') = None"
    using that weather_bounds by (intro validate_get_weather_defaults) auto
  have scenario: "dispatch (server_registry cfg) h
        \<lparr>req_kind = Tool, req_name = ascii ''get_weather'',
         req_args = [ascii ''latitude'' \<mapsto> JNum (num_of_int 95),
                     ascii ''longitude'' \<mapsto> JNum (num_of_int 0)]\<rparr> =
      (Inl (ValidationFailed
              (OutOfRange (ascii ''latitude'') (Some (num_of_int (- 90))) (Some (num_of_int 90))
                 (num_of_int 95))),
       h)"
    using ninety_five
    by (intro lat [OF resolve_get_weather]) (simp_all add: ascii_def)
  from lat [OF resolve_get_weather] lat [OF resolve_single] lon bound scenario
  show ?thesis by simp
qed

text \<open>
  The latitude \<open>- 90.5\<close> is rejected and the host is untouched; the latitude \<open>90\<close> with
  the longitude \<open>- 180\<close> passes validation, and the dispatch then runs the handler, which
  sends its request to the forecast service.
\<close>

theorem get_weather_bounds_are_inclusive_witness:
  "dispatch (server_registry \<lparr>hf_token = None\<rparr>) (example_host JNull)
     \<lparr>req_kind = Tool, req_name = ascii ''get_weather'',
      req_args = [ascii ''latitude'' \<mapsto> JNum (num_of_decimal (- 905) (- 1)),
                  ascii ''longitude'' \<mapsto> JNum (num_of_int 0)]\<rparr> =
   (Inl (ValidationFailed
           (OutOfRange (ascii ''latitude'') (Some (num_of_int (- 90))) (Some (num_of_int 90))
              (num_of_decimal (- 905) (- 1)))),
    example_host JNull)
   \<and> validate get_weather_schema
        [ascii ''latitude'' \<mapsto> JNum (num_of_int 90),
         ascii ''longitude'' \<mapsto> JNum (num_of_int (- 180))] =
      Inr [ascii ''forecast_days'' \<mapsto> JNum (num_of_int 3),
           ascii ''timezone'' \<mapsto> JStr (ascii ''auto''),
           ascii ''longitude'' \<mapsto> JNum (num_of_int (- 180)),
           ascii ''latitude'' \<mapsto> JNum (num_of_int 90)]
   \<and> outbound_calls
        (snd (dispatch (server_registry \<lparr>hf_token = None\<rparr>) (example_host JNull)
                \<lparr>req_kind = Tool, req_name = ascii ''get_weather'',
                 req_args = [ascii ''latitude'' \<mapsto> JNum (num_of_int 90),
                             ascii ''longitude'' \<mapsto> JNum (num_of_int (- 180))]\<rparr>)) =
      [HttpFetch (weather_request (num_of_int 90) (num_of_int (- 180)) (ascii ''auto'')
                    (num_of_int 3))]"
proof -
  have below: "num_less (num_of_decimal (- 905) (- 1)) (num_of_int (- 90))"
    by code_simp
  have rejected: "dispatch (server_registry \<lparr>hf_token = None\<rparr>) (example_host JNull)
     \<lparr>req_kind = Tool, req_name = ascii ''get_weather'',
      req_args = [ascii ''latitude'' \<mapsto> JNum (num_of_decimal (- 905) (- 1)),
                  ascii ''longitude'' \<mapsto> JNum (num_of_int 0)]\<rparr> =
   (Inl (ValidationFailed
           (OutOfRange (ascii ''latitude'') (Some (num_of_int (- 90))) (Some (num_of_int 90))
              (num_of_decimal (- 905) (- 1)))),
    example_host JNull)"
    using get_weather_bounds_are_inclusive
      [of "[ascii ''latitude'' \<mapsto> JNum (num_of_decimal (- 905) (- 1)),
            ascii ''longitude'' \<mapsto> JNum (num_of_int 0)]"
          "num_of_decimal (- 905) (- 1)" "\<lparr>hf_token = None\<rparr>" "example_host JNull"]
      below weather_names_distinct
    by simp
  have accepted: "validate get_weather_schema
        [ascii ''latitude'' \<mapsto> JNum (num_of_int 90),
         ascii ''longitude'' \<mapsto> JNum (num_of_int (- 180))] =
      Inr [ascii ''forecast_days'' \<mapsto> JNum (num_of_int 3),
           ascii ''timezone'' \<mapsto> JStr (ascii ''auto''),
           ascii ''longitude'' \<mapsto> JNum (num_of_int (- 180)),
           ascii ''latitude'' \<mapsto> JNum (num_of_int 90)]"
    using get_weather_bounds_are_inclusive
      [of "[ascii ''latitude'' \<mapsto> JNum (num_of_int 90),
            ascii ''longitude'' \<mapsto> JNum (num_of_int (- 180))]"
          "num_of_int 90" _ _ _ "num_of_int (- 180)"]
      weather_names_distinct
    by simp
  have invoked: "outbound_calls
        (snd (dispatch (server_registry \<lparr>hf_token = None\<rparr>) (example_host JNull)
                \<lparr>req_kind = Tool, req_name = ascii ''get_weather'',
                 req_args = [ascii ''latitude'' \<mapsto> JNum (num_of_int 90),
                             ascii ''longitude'' \<mapsto> JNum (num_of_int (- 180))]\<rparr>)) =
      [HttpFetch (weather_request (num_of_int 90) (num_of_int (- 180)) (ascii ''auto'')
                    (num_of_int 3))]"
    by (simp add: dispatch_resolved [OF resolve_get_weather] accepted
          get_weather_handler_validated get_weather_def fetch_def example_host_def
          example_response_def weather_results_def nullish_def)
  from rejected accepted invoked show ?thesis by simp
qed

section \<open>Geocoding without results\<close>

lemma geocode_names_distinct: "ascii ''query'' \<noteq> ascii ''limit''"
  by (simp add: ascii_def)

lemma validate_geocode_given:
  assumes "raw (ascii ''query'') = Some (JStr query)" "raw (ascii ''limit'') = Some (JNum limit)"
    and "num_le (num_of_int 1) limit" "num_le limit (num_of_int 40)"
  shows "validate geocode_schema raw =
           Inr [ascii ''limit'' \<mapsto> JNum limit, ascii ''query'' \<mapsto> JStr query]"
  using assms by (simp add: geocode_schema_def validate_field_def within_bounds_def)

lemma validate_geocode_default:
  assumes "raw (ascii ''query'') = Some (JStr query)" "raw (ascii ''limit'') = None"
  shows "validate geocode_schema raw =
           Inr [ascii ''limit'' \<mapsto> JNum (num_of_int 1), ascii ''query'' \<mapsto> JStr query]"
  using assms by (simp add: geocode_schema_def validate_field_def)

lemma geocode_handler_validated:
  "geocode_handler h [ascii ''limit'' \<mapsto> JNum limit, ascii ''query'' \<mapsto> JStr query] =
     geocode h query limit"
  using geocode_names_distinct
  by (simp add: geocode_handler_def number_arg_def string_arg_def)

lemma geocode_results_empty:
  "geocode_results h query (JArr []) = Inr (text_result (no_results_message query))"
  by (simp add: geocode_results_def zero_is_zero)

lemma geocode_no_matches:
  assumes "fetch_reply h (outbound_calls h) (geocode_request query limit) = Inr response"
    and "resp_ok response" "resp_json response = Inr (JArr [])"
  shows "geocode h query limit =
           (Inr (text_result (no_results_message query)),
            h\<lparr>outbound_calls := outbound_calls h @ [HttpFetch (geocode_request query limit)]\<rparr>)"
  using assms by (simp add: geocode_def geocode_body_def fetch_def geocode_results_empty)

lemma dispatch_geocode:
  assumes "validate geocode_schema raw =
             Inr [ascii ''limit'' \<mapsto> JNum limit, ascii ''query'' \<mapsto> JStr query]"
    and "geocode h query limit = (Inr (text_result t), h')"
  shows "dispatch (server_registry cfg) h
           \<lparr>req_kind = Tool, req_name = ascii ''geocode'', req_args = raw\<rparr> =
         (Inr (ToolResult [TextBlock t] None), h')"
  by (simp add: dispatch_resolved [OF resolve_geocode] assms geocode_handler_validated
        text_result_def normalize_result_def)

text \<open>
  Claim C5. When the search service answers a geocode request with zero matches (a reply
  with an \<^verbatim>\<open>ok\<close> status whose body is the empty array), the dispatch returns a successful
  envelope and not an Error Result: a single text block that states, for the query in
  quotes, that there are no search results (\<open>no_results_message\<close>, line 255). The request
  sent is recorded by the host. The limit may be given within its bounds or left to its
  default \<open>1\<close>. The second part is Scenario D, the empty query with the limit \<open>1\<close>.
\<close>

theorem geocode_no_results_is_success:
  "(raw (ascii ''query'') = Some (JStr query) \<and>
    (raw (ascii ''limit'') = Some (JNum limit) \<and>
       num_le (num_of_int 1) limit \<and> num_le limit (num_of_int 40) \<or>
     raw (ascii ''limit'') = None \<and> limit = num_of_int 1) \<and>
    fetch_reply h (outbound_calls h) (geocode_request query limit) = Inr response \<and>
    resp_ok response \<and> resp_json response = Inr (JArr []) \<longrightarrow>
      dispatch (server_registry cfg) h
        \<lparr>req_kind = Tool, req_name = ascii ''geocode'', req_args = raw\<rparr> =
      (Inr (ToolResult [TextBlock (no_results_message query)] None),
       h\<lparr>outbound_calls := outbound_calls h @ [HttpFetch (geocode_request query limit)]\<rparr>))
   \<and> (fetch_reply h (outbound_calls h) (geocode_request [] (num_of_int 1)) = Inr response \<and>
       resp_ok response \<and> resp_json response = Inr (JArr []) \<longrightarrow>
      dispatch (server_registry cfg) h
        \<lparr>req_kind = Tool, req_name = ascii ''geocode'',
         req_args = [ascii ''query'' \<mapsto> JStr [], ascii ''limit'' \<mapsto> JNum (num_of_int 1)]\<rparr> =
      (Inr (ToolResult
         [TextBlock [0x22, 0x22, 0xC5D0, 0x20, 0xB300, 0xD55C, 0x20, 0xAC80, 0xC0C9, 0x20,
                     0xACB0, 0xACFC, 0xAC00, 0x20, 0xC5C6, 0xC2B5, 0xB2C8, 0xB2E4, 0x2E]] None),
       h\<lparr>outbound_calls :=
            outbound_calls h @ [HttpFetch (geocode_request [] (num_of_int 1))]\<rparr>))"
proof -
  have general: "dispatch (server_registry cfg) h
        \<lparr>req_kind = Tool, req_name = ascii ''geocode'', req_args = raw\<rparr> =
      (Inr (ToolResult [TextBlock (no_results_message query)] None),
       h\<lparr>outbound_calls := outbound_calls h @ [HttpFetch (geocode_request query limit)]\<rparr>)"
    if q: "raw (ascii ''query'') = Some (JStr query)"
      and l: "raw (ascii ''limit'') = Some (JNum limit) \<and>
                num_le (num_of_int 1) limit \<and> num_le limit (num_of_int 40) \<or>
              raw (ascii ''limit'') = None \<and> limit = num_of_int 1"
      and r: "fetch_reply h (outbound_calls h) (geocode_request query limit) = Inr response"
        "resp_ok response" "resp_json response = Inr (JArr [])"
    for raw query limit
  proof -
    from q l have "validate geocode_schema raw =
        Inr [ascii ''limit'' \<mapsto> JNum limit, ascii ''query'' \<mapsto> JStr query]"
      using validate_geocode_given [of raw query limit] validate_geocode_default [of raw query]
      by auto
    then show ?thesis
      by (rule dispatch_geocode) (rule geocode_no_matches [OF r])
  qed
  have one: "num_le (num_of_int 1) (num_of_int 1)" "num_le (num_of_int 1) (num_of_int 40)"
    by code_simp+
  have scenario: "dispatch (server_registry cfg) h
        \<lparr>req_kind = Tool, req_name = ascii ''geocode'',
         req_args = [ascii ''query'' \<mapsto> JStr [], ascii ''limit'' \<mapsto> JNum (num_of_int 1)]\<rparr> =
      (Inr (ToolResult
         [TextBlock [0x22, 0x22, 0xC5D0, 0x20, 0xB300, 0xD55C, 0x20, 0xAC80, 0xC0C9, 0x20,
                     0xACB0, 0xACFC, 0xAC00, 0x20, 0xC5C6, 0xC2B5, 0xB2C8, 0xB2E4, 0x2E]] None),
       h\<lparr>outbound_calls :=
            outbound_calls h @ [HttpFetch (geocode_request [] (num_of_int 1))]\<rparr>)"
    if r: "fetch_reply h (outbound_calls h) (geocode_request [] (num_of_int 1)) = Inr response"
        "resp_ok response" "resp_json response = Inr (JArr [])"
    using general [of "[ascii ''query'' \<mapsto> JStr [], ascii ''limit'' \<mapsto> JNum (num_of_int 1)]"
        "[]" "num_of_int 1"] r one geocode_names_distinct
    by (simp add: no_results_message_def)
  from general scenario show ?thesis by blast
qed

text \<open>
  On the example host whose search service answers with the empty array, the query
  \<^verbatim>\<open>Atlantis\<close> without a limit.
\<close>

theorem geocode_no_results_is_success_witness:
  "dispatch (server_registry \<lparr>hf_token = None\<rparr>) (example_host (JArr []))
     \<lparr>req_kind = Tool, req_name = ascii ''geocode'',
      req_args = [ascii ''query'' \<mapsto> JStr (ascii ''Atlantis'')]\<rparr> =
   (Inr (ToolResult [TextBlock (no_results_message (ascii ''Atlantis''))] None),
    (example_host (JArr []))
      \<lparr>outbound_calls := [HttpFetch (geocode_request (ascii ''Atlantis'') (num_of_int 1))]\<rparr>)"
proof -
  from geocode_no_results_is_success
    [of "[ascii ''query'' \<mapsto> JStr (ascii ''Atlantis'')]" "ascii ''Atlantis''" "num_of_int 1"
        "example_host (JArr [])" "example_response (JArr [])" "\<lparr>hf_token = None\<rparr>"]
  show ?thesis
    using geocode_names_distinct by (simp add: example_host_def example_response_def)
qed

section \<open>The code review prompt\<close>

lemma code_review_handler_validated:
  assumes v: "validate code_review_schema raw = Inr args"
  shows "\<exists>code language focus_areas include_suggestions.
           code_review_handler h args =
             (code_review code language focus_areas include_suggestions, h)"
proof -
  note field = validate_declared [OF v code_review_schema_distinct]
  have "validate_field (ascii ''code'') \<lparr>fs_kind = StringField, fs_presence = Required\<rparr>
          (raw (ascii ''code'')) = Inr (args (ascii ''code''))"
    by (rule field) (simp add: code_review_schema_def)
  then obtain code where "args (ascii ''code'') = Some (JStr code)"
    by (auto simp: validate_field_required check_value_string)
  then have c: "string_arg args (ascii ''code'') = Some code"
    by (rule string_arg_Some)
  have "validate_field (ascii ''language'')
          \<lparr>fs_kind = StringField, fs_presence = Optional None\<rparr>
          (raw (ascii ''language'')) = Inr (args (ascii ''language''))"
    by (rule field) (simp add: code_review_schema_def)
  then obtain language where l: "optional_string_arg args (ascii ''language'') = Some language"
    using optional_string_arg_Some [of args "ascii ''language''"]
    by (auto simp: validate_field_optional_string)
  have "validate_field (ascii ''focus_areas'')
          \<lparr>fs_kind = StringField, fs_presence = Optional None\<rparr>
          (raw (ascii ''focus_areas'')) = Inr (args (ascii ''focus_areas''))"
    by (rule field) (simp add: code_review_schema_def)
  then obtain focus_areas where
    f: "optional_string_arg args (ascii ''focus_areas'') = Some focus_areas"
    using optional_string_arg_Some [of args "ascii ''focus_areas''"]
    by (auto simp: validate_field_optional_string)
  have "validate_field (ascii ''include_suggestions'')
          \<lparr>fs_kind = StringField, fs_presence = Optional None\<rparr>
          (raw (ascii ''include_suggestions'')) = Inr (args (ascii ''include_suggestions''))"
    by (rule field) (simp add: code_review_schema_def)
  then obtain include_suggestions where
    i: "optional_string_arg args (ascii ''include_suggestions'') = Some include_suggestions"
    using optional_string_arg_Some [of args "ascii ''include_suggestions''"]
    by (auto simp: validate_field_optional_string)
  have "code_review_handler h args =
          (code_review code language focus_areas include_suggestions, h)"
    by (simp add: code_review_handler_def c l f i)
  then show ?thesis by blast
qed

text \<open>
  Claim C8. The result of the prompt capability is a sequence of messages and not an
  envelope of content blocks. For every input that passes validation the code_review
  prompt returns; whatever it returns is a non-empty list of messages, each with the role
  \<^verbatim>\<open>user\<close> or \<^verbatim>\<open>assistant\<close> and a text content: the handler (lines 700 to 710)
  returns the single \<^verbatim>\<open>user\<close> message whose text is the prompt built from the template.
\<close>

theorem code_review_returns_messages:
  "(validate code_review_schema raw = Inr args \<longrightarrow>
      (\<exists>prompt. dispatch (server_registry cfg) h
           \<lparr>req_kind = Prompt, req_name = ascii ''code_review'', req_args = raw\<rparr> =
         (Inr (PromptResult [\<lparr>msg_role = ascii ''user'', msg_content = TextBlock prompt\<rparr>]), h)))
   \<and> (dispatch (server_registry cfg) h
         \<lparr>req_kind = Prompt, req_name = ascii ''code_review'', req_args = raw\<rparr> =
       (Inr envelope, h') \<longrightarrow>
      (\<exists>messages. envelope = PromptResult messages \<and> messages \<noteq> [] \<and>
         (\<forall>m \<in> set messages.
            (msg_role m = ascii ''user'' \<or> msg_role m = ascii ''assistant'') \<and>
            (\<exists>t. msg_content m = TextBlock t))))
   \<and> code_review code language focus_areas include_suggestions =
       Inr (PromptResult
              [\<lparr>msg_role = ascii ''user'',
                msg_content =
                  TextBlock (prompt_text code language focus_areas include_suggestions)\<rparr>])"
proof (intro conjI impI)
  show "code_review code language focus_areas include_suggestions =
       Inr (PromptResult
              [\<lparr>msg_role = ascii ''user'',
                msg_content =
                  TextBlock (prompt_text code language focus_areas include_suggestions)\<rparr>])"
    by (simp add: code_review_def)
next
  assume v: "validate code_review_schema raw = Inr args"
  from code_review_handler_validated [OF v, of h]
  show "\<exists>prompt. dispatch (server_registry cfg) h
           \<lparr>req_kind = Prompt, req_name = ascii ''code_review'', req_args = raw\<rparr> =
         (Inr (PromptResult [\<lparr>msg_role = ascii ''user'', msg_content = TextBlock prompt\<rparr>]), h)"
    by (auto simp: dispatch_resolved [OF resolve_code_review] v code_review_def
          normalize_result_def)
next
  assume d: "dispatch (server_registry cfg) h
         \<lparr>req_kind = Prompt, req_name = ascii ''code_review'', req_args = raw\<rparr> =
       (Inr envelope, h')"
  then obtain validated where v: "validate code_review_schema raw = Inr validated"
    by (cases "validate code_review_schema raw")
       (simp_all add: dispatch_resolved [OF resolve_code_review])
  from code_review_handler_validated [OF v, of h] d
  have "\<exists>prompt. envelope =
          PromptResult [\<lparr>msg_role = ascii ''user'', msg_content = TextBlock prompt\<rparr>]"
    by (auto simp: dispatch_resolved [OF resolve_code_review] v code_review_def
          normalize_result_def)
  then show "\<exists>messages. envelope = PromptResult messages \<and> messages \<noteq> [] \<and>
         (\<forall>m \<in> set messages.
            (msg_role m = ascii ''user'' \<or> msg_role m = ascii ''assistant'') \<and>
            (\<exists>t. msg_content m = TextBlock t))"
    by auto
qed

text \<open>
  A request with the code \<^verbatim>\<open>x = 1\<close> and the focus areas \<^verbatim>\<open>security, quality\<close>: one
  \<^verbatim>\<open>user\<close> message, whose sections are those of the two areas in the order of the
  template.
\<close>

theorem code_review_returns_messages_witness:
  "(\<exists>prompt.
      dispatch (server_registry \<lparr>hf_token = None\<rparr>) (example_host JNull)
        \<lparr>req_kind = Prompt, req_name = ascii ''code_review'',
         req_args = [ascii ''code'' \<mapsto> JStr (ascii ''x = 1''),
                     ascii ''focus_areas'' \<mapsto> JStr (ascii ''security, quality'')]\<rparr> =
      (Inr (PromptResult [\<lparr>msg_role = ascii ''user'', msg_content = TextBlock prompt\<rparr>]),
       example_host JNull))
   \<and> review_sections (final_focus_areas (Some (ascii ''security, quality''))) =
       [section_quality, section_security]"
proof -
  have v: "validate code_review_schema
      [ascii ''code'' \<mapsto> JStr (ascii ''x = 1''),
       ascii ''focus_areas'' \<mapsto> JStr (ascii ''security, quality'')] =
      Inr [ascii ''focus_areas'' \<mapsto> JStr (ascii ''security, quality''),
           ascii ''code'' \<mapsto> JStr (ascii ''x = 1'')]"
    by (simp add: code_review_schema_def validate_field_def) (simp add: ascii_def)
  have s: "review_sections (final_focus_areas (Some (ascii ''security, quality''))) =
       [section_quality, section_security]"
    by code_simp
  from code_review_returns_messages
    [of "[ascii ''code'' \<mapsto> JStr (ascii ''x = 1''),
          ascii ''focus_areas'' \<mapsto> JStr (ascii ''security, quality'')]"
        "[ascii ''focus_areas'' \<mapsto> JStr (ascii ''security, quality''),
          ascii ''code'' \<mapsto> JStr (ascii ''x = 1'')]"
        "\<lparr>hf_token = None\<rparr>" "example_host JNull"]
    v s
  show ?thesis by simp
qed

section \<open>Validated arguments have the types the handlers expect\<close>

text \<open>
  Arguments that pass the validation of a schema have the types that the handler of the
  capability destructures: no dispatch applies a handler to arguments it cannot read
  (\<open>code_review_handler_validated\<close> is the same fact for the prompt; the resource takes
  no arguments).
\<close>

lemma greeting_handler_bound:
  assumes v: "validate greeting_schema raw = Inr args"
  shows "\<exists>name language. greeting_handler h args = (greeting name language, h)"
proof -
  have "\<exists>s. string_arg args (ascii ''name'') = Some s"
    by (rule declared_string [OF v schemas_distinct(1), of _ StringField Required])
       (simp_all add: greeting_schema_def)
  moreover have "\<exists>s. string_arg args (ascii ''language'') = Some s"
    by (rule declared_string [OF v schemas_distinct(1), of _ "EnumField [ascii ''ko'', ascii ''en'']"
          "Optional (Some (JStr (ascii ''ko'')))"])
       (simp_all add: greeting_schema_def)
  ultimately show ?thesis
    by (auto simp: greeting_handler_def) blast
qed

lemma calculator_handler_bound:
  assumes v: "validate calculator_schema raw = Inr args"
  shows "\<exists>a b operator. calculator_handler h args = (calculator a b operator, h)"
proof -
  from v obtain a b operator where
    "args = [ascii ''operator'' \<mapsto> JStr operator, ascii ''b'' \<mapsto> JNum b, ascii ''a'' \<mapsto> JNum a]"
    by (auto simp: validate_calculator_iff)
  then have "calculator_handler h args = (calculator a b operator, h)"
    by (simp add: calculator_handler_validated)
  then show ?thesis by blast
qed

lemma get_time_handler_bound:
  assumes v: "validate get_time_schema raw = Inr args"
  shows "\<exists>time_zone. get_time_handler h args = (get_time h time_zone, h)"
proof -
  have "\<exists>s. string_arg args (ascii ''timeZone'') = Some s"
    by (rule declared_string [OF v schemas_distinct(3), of _ StringField Required])
       (simp_all add: get_time_schema_def)
  then show ?thesis
    by (auto simp: get_time_handler_def)
qed

lemma generate_image_handler_bound:
  assumes v: "validate generate_image_schema raw = Inr args"
  shows "\<exists>prompt. generate_image_handler token h args = generate_image token h prompt"
proof -
  have "\<exists>s. string_arg args (ascii ''prompt'') = Some s"
    by (rule declared_string [OF v schemas_distinct(4), of _ StringField Required])
       (simp_all add: generate_image_schema_def)
  then show ?thesis
    by (auto simp: generate_image_handler_def)
qed

lemma geocode_handler_bound:
  assumes v: "validate geocode_schema raw = Inr args"
  shows "\<exists>query limit. geocode_handler h args = geocode h query limit"
proof -
  have "\<exists>s. string_arg args (ascii ''query'') = Some s"
    by (rule declared_string [OF v schemas_distinct(5), of _ StringField Required])
       (simp_all add: geocode_schema_def)
  moreover have "\<exists>x. number_arg args (ascii ''limit'') = Some x"
    by (rule declared_number [OF v schemas_distinct(5), of _ "Some (num_of_int 1)"
          "Some (num_of_int 40)" "Optional (Some (JNum (num_of_int 1)))"])
       (simp_all add: geocode_schema_def)
  ultimately show ?thesis
    by (auto simp: geocode_handler_def) blast
qed

lemma get_weather_handler_bound:
  assumes v: "validate get_weather_schema raw = Inr args"
  shows "\<exists>latitude longitude timezone forecast_days.
           get_weather_handler h args = get_weather h latitude longitude timezone forecast_days"
proof -
  have "\<exists>x. number_arg args (ascii ''latitude'') = Some x"
    by (rule declared_number [OF v schemas_distinct(6), of _ "Some (num_of_int (- 90))"
          "Some (num_of_int 90)" Required])
       (simp_all add: get_weather_schema_def)
  moreover have "\<exists>x. number_arg args (ascii ''longitude'') = Some x"
    by (rule declared_number [OF v schemas_distinct(6), of _ "Some (num_of_int (- 180))"
          "Some (num_of_int 180)" Required])
       (simp_all add: get_weather_schema_def)
  moreover have "\<exists>s. string_arg args (ascii ''timezone'') = Some s"
    by (rule declared_string [OF v schemas_distinct(6), of _ StringField
          "Optional (Some (JStr (ascii ''auto'')))"])
       (simp_all add: get_weather_schema_def)
  moreover have "\<exists>x. number_arg args (ascii ''forecast_days'') = Some x"
    by (rule declared_number [OF v schemas_distinct(6), of _ "Some (num_of_int 1)"
          "Some (num_of_int 16)" "Optional (Some (JNum (num_of_int 3)))"])
       (simp_all add: get_weather_schema_def)
  ultimately show ?thesis
    by (auto simp: get_weather_handler_def) blast
qed

section \<open>Every successful response has a block\<close>

lemma block_count_text_result: "block_count (text_result t) = 1"
  by (simp add: text_result_def)

lemma greeting_blocks: "greeting name language = Inr r \<Longrightarrow> block_count r = 1"
  by (auto simp: greeting_def Let_def block_count_text_result)

lemma calculator_blocks: "calculator a b operator = Inr r \<Longrightarrow> block_count r = 1"
  by (auto simp: calculator_def block_count_text_result split: sum.splits)

lemma get_time_blocks: "get_time h time_zone = Inr r \<Longrightarrow> block_count r = 1"
  by (auto simp: get_time_def block_count_text_result split: sum.splits)

lemma generate_image_blocks:
  "generate_image token h prompt = (Inr r, h') \<Longrightarrow> block_count r = 1"
  by (auto simp: generate_image_def image_body_def split: sum.splits prod.splits option.splits
        if_splits)

lemma geocode_results_blocks: "geocode_results h query results = Inr r \<Longrightarrow> block_count r = 1"
  by (auto simp: geocode_results_def block_count_text_result
        split: if_splits jsvalue.splits option.splits)

lemma geocode_blocks: "geocode h query limit = (Inr r, h') \<Longrightarrow> block_count r = 1"
  by (auto simp: geocode_def geocode_body_def dest: geocode_results_blocks
        split: sum.splits prod.splits if_splits)

lemma weather_results_blocks: "weather_results h data = Inr r \<Longrightarrow> block_count r = 1"
  by (auto simp: weather_results_def block_count_text_result split: if_splits)

lemma get_weather_blocks:
  "get_weather h latitude longitude timezone forecast_days = (Inr r, h') \<Longrightarrow> block_count r = 1"
  by (auto simp: get_weather_def dest: weather_results_blocks
        split: sum.splits prod.splits if_splits)

lemma server_info_blocks: "server_info_resource h = Inr r \<Longrightarrow> block_count r = 1"
  by (auto simp: server_info_resource_def)

lemma code_review_blocks:
  "code_review code language focus_areas include_suggestions = Inr r \<Longrightarrow> block_count r = 1"
  by (auto simp: code_review_def)

lemma handler_blocks:
  assumes "c \<in> set (server_registry cfg)" "cap_handler c h args = (Inr r, h')"
  shows "block_count r = 1"
proof -
  from assms(1) consider
      "cap_handler c = greeting_handler" | "cap_handler c = calculator_handler"
    | "cap_handler c = get_time_handler"
    | "cap_handler c = generate_image_handler (hf_token cfg)"
    | "cap_handler c = geocode_handler" | "cap_handler c = get_weather_handler"
    | "cap_handler c = server_info_handler" | "cap_handler c = code_review_handler"
    by (auto simp: server_registry_eq registrations_def)
  then show ?thesis
  proof cases
    case 1
    with assms(2) show ?thesis
      by (auto simp: greeting_handler_def dest: greeting_blocks split: option.splits)
  next
    case 2
    with assms(2) show ?thesis
      by (auto simp: calculator_handler_def dest: calculator_blocks split: option.splits)
  next
    case 3
    with assms(2) show ?thesis
      by (auto simp: get_time_handler_def dest: get_time_blocks split: option.splits)
  next
    case 4
    with assms(2) show ?thesis
      by (auto simp: generate_image_handler_def dest: generate_image_blocks split: option.splits)
  next
    case 5
    with assms(2) show ?thesis
      by (auto simp: geocode_handler_def dest: geocode_blocks split: option.splits)
  next
    case 6
    with assms(2) show ?thesis
      by (auto simp: get_weather_handler_def dest: get_weather_blocks split: option.splits)
  next
    case 7
    with assms(2) show ?thesis
      by (auto simp: server_info_handler_def dest: server_info_blocks)
  next
    case 8
    with assms(2) show ?thesis
      by (auto simp: code_review_handler_def dest: code_review_blocks split: option.splits)
  qed
qed

text \<open>
  Claim C6. Every successful response has at least one block: whenever the handler of a
  registered capability returns a result, the result has at least one content block
  (for the resource, one content; for the prompt, one message), and so has every envelope
  that a dispatch returns. No handler returns an empty list.
\<close>

theorem successful_responses_have_a_block:
  "(c \<in> set (server_registry cfg) \<and> cap_handler c h args = (Inr r, h') \<longrightarrow>
      1 \<le> block_count r)
   \<and> (dispatch (server_registry cfg) h req = (Inr envelope, h') \<longrightarrow>
        1 \<le> block_count envelope)"
proof (intro conjI impI)
  assume "c \<in> set (server_registry cfg) \<and> cap_handler c h args = (Inr r, h')"
  then have "block_count r = 1" by (auto dest: handler_blocks)
  then show "1 \<le> block_count r" by simp
next
  assume "dispatch (server_registry cfg) h req = (Inr envelope, h')"
  then obtain c validated where "c \<in> set (server_registry cfg)"
    "cap_handler c h validated = (Inr envelope, h')"
    by (auto dest: dispatch_success)
  then have "block_count envelope = 1" by (rule handler_blocks)
  then show "1 \<le> block_count envelope" by simp
qed

text \<open>
  The image tool on the example host, with a token configured: the envelope is one image
  block, the base64 text of the two bytes the image service gave.
\<close>

theorem successful_responses_have_a_block_witness:
  "dispatch (server_registry \<lparr>hf_token = Some (ascii ''token'')\<rparr>) (example_host JNull)
     \<lparr>req_kind = Tool, req_name = ascii ''generate_image'',
      req_args = [ascii ''prompt'' \<mapsto> JStr (ascii ''a cat'')]\<rparr> =
   (Inr (ToolResult [ImageBlock (ascii ''TWE='') (ascii ''image/png'')]
           (Some \<lparr>audience = [ascii ''user''], priority = num_of_decimal 9 (- 1)\<rparr>)),
    (example_host JNull)
      \<lparr>outbound_calls := [TextToImage (ascii ''token'') (ascii ''a cat'')]\<rparr>)
   \<and> 1 \<le> block_count
         (ToolResult [ImageBlock (ascii ''TWE='') (ascii ''image/png'')]
            (Some \<lparr>audience = [ascii ''user''], priority = num_of_decimal 9 (- 1)\<rparr>))"
proof -
  have b: "base64 [0x4D, 0x61] = ascii ''TWE=''"
    by code_simp
  have t: "ascii ''token'' \<noteq> []"
    by (simp add: ascii_def)
  have d: "dispatch (server_registry \<lparr>hf_token = Some (ascii ''token'')\<rparr>) (example_host JNull)
     \<lparr>req_kind = Tool, req_name = ascii ''generate_image'',
      req_args = [ascii ''prompt'' \<mapsto> JStr (ascii ''a cat'')]\<rparr> =
   (Inr (ToolResult [ImageBlock (ascii ''TWE='') (ascii ''image/png'')]
           (Some \<lparr>audience = [ascii ''user''], priority = num_of_decimal 9 (- 1)\<rparr>)),
    (example_host JNull)
      \<lparr>outbound_calls := [TextToImage (ascii ''token'') (ascii ''a cat'')]\<rparr>)"
    using t
    by (simp add: dispatch_resolved [OF resolve_generate_image] generate_image_schema_def
          validate_field_def generate_image_handler_def string_arg_def generate_image_def
          image_body_def text_to_image_def example_host_def b normalize_result_def
          del: base64.simps)
  have "1 \<le> block_count
         (ToolResult [ImageBlock (ascii ''TWE='') (ascii ''image/png'')]
            (Some \<lparr>audience = [ascii ''user''], priority = num_of_decimal 9 (- 1)\<rparr>))"
    by (rule successful_responses_have_a_block [THEN conjunct2, rule_format, OF d])
  with d show ?thesis by (rule conjI)
qed

section \<open>The resource server://info\<close>

lemma sublist_trans: "sublist xs ys \<Longrightarrow> sublist ys zs \<Longrightarrow> sublist xs zs"
  by (rule sublist_order.order.trans)

lemma sublist_join: "x \<in> set xs \<Longrightarrow> sublist x (join sep xs)"
proof (induction sep xs rule: join.induct)
  case (1 sep)
  then show ?case by simp
next
  case (2 sep y)
  then show ?case by simp
next
  case (3 sep y z zs)
  show ?case
  proof (cases "x = y")
    case True
    then show ?thesis by simp
  next
    case False
    with 3 have "sublist x (join sep (z # zs))" by simp
    then have "sublist x ((y @ sep) @ join sep (z # zs))"
      by (rule sublist_trans) (rule sublist_append_leftI)
    then show ?thesis by simp
  qed
qed

lemma sublist_middle: "sublist x m \<Longrightarrow> sublist x (a @ m @ b)"
  by (erule sublist_trans) (rule sublist_appendI)

lemma serialize_array_member:
  assumes "v \<in> set vs"
  shows "sublist (serialize (i + 2) v) (serialize i (JArr vs))"
proof -
  from assms have "vs \<noteq> []" by auto
  moreover from assms have "sublist (serialize (i + 2) v)
      (join (ascii '','' @ [0xA] @ indent (i + 2)) (map (serialize (i + 2)) vs))"
    by (intro sublist_join) simp
  then have "sublist (serialize (i + 2) v)
      ((ascii ''['' @ [0xA] @ indent (i + 2)) @
       join (ascii '','' @ [0xA] @ indent (i + 2)) (map (serialize (i + 2)) vs) @
       ([0xA] @ indent i @ ascii '']''))"
    by (rule sublist_middle)
  ultimately show ?thesis by simp
qed

lemma serialize_object_member:
  assumes "(k, v) \<in> set ps" "v \<noteq> JUndefined"
  shows "sublist (quote k @ ascii '': '' @ serialize (i + 2) v) (serialize i (JObj ps))"
proof -
  define qs where "qs = filter (\<lambda>p. snd p \<noteq> JUndefined) ps"
  define f where "f = (\<lambda>p. quote (fst p) @ ascii '': '' @ serialize (i + 2) (snd p))"
  from assms have mem: "(k, v) \<in> set qs" by (simp add: qs_def)
  then have ne: "qs \<noteq> []" by auto
  from mem have "f (k, v) \<in> set (map f qs)" by simp
  then have "sublist (f (k, v)) (join (ascii '','' @ [0xA] @ indent (i + 2)) (map f qs))"
    by (rule sublist_join)
  then have "sublist (f (k, v))
      ((ascii ''{'' @ [0xA] @ indent (i + 2)) @
       join (ascii '','' @ [0xA] @ indent (i + 2)) (map f qs) @
       ([0xA] @ indent i @ ascii ''}''))"
    by (rule sublist_middle)
  moreover have "serialize i (JObj ps) =
      (ascii ''{'' @ [0xA] @ indent (i + 2)) @
       join (ascii '','' @ [0xA] @ indent (i + 2)) (map f qs) @
       ([0xA] @ indent i @ ascii ''}'')"
    using ne by (simp add: Let_def qs_def f_def)
  moreover have "f (k, v) = quote k @ ascii '': '' @ serialize (i + 2) v"
    by (simp add: f_def)
  ultimately show ?thesis by simp
qed

lemma property_member:
  "property info key = v \<Longrightarrow> v \<noteq> JUndefined \<Longrightarrow> \<exists>ps. info = JObj ps \<and> (key, v) \<in> set ps"
  by (cases info) (auto split: option.splits dest: map_of_SomeD)

lemma serialize_property:
  assumes "property info key = v" "v \<noteq> JUndefined"
  shows "sublist (quote key @ ascii '': '' @ serialize (i + 2) v) (serialize i info)"
  using property_member [OF assms] serialize_object_member [OF _ assms(2)] by blast

lemma listed_in_text:
  assumes "listed info k n"
  shows "sublist (quote (kind_key k)) (json_stringify info)"
    and "sublist (quote (entry_key k) @ ascii '': '' @ quote n) (json_stringify info)"
proof -
  from assms obtain entries e where
    entries: "property info (kind_key k) = JArr entries"
    and e: "e \<in> set entries" and name: "property e (entry_key k) = JStr n"
    by (auto simp: listed_def list_ex_iff split: jsvalue.splits)
  define array_text where "array_text = serialize (0 + 2) (JArr entries)"
  define entry_text where "entry_text = serialize (0 + 2 + 2) e"
  have a: "sublist (quote (kind_key k) @ ascii '': '' @ array_text) (serialize 0 info)"
    unfolding array_text_def by (rule serialize_property [OF entries]) simp
  have "sublist (quote (kind_key k)) (quote (kind_key k) @ ascii '': '' @ array_text)"
    by (rule sublist_append_rightI)
  then show "sublist (quote (kind_key k)) (json_stringify info)"
    unfolding json_stringify_def using a by (rule sublist_trans)
  have b: "sublist entry_text array_text"
    unfolding array_text_def entry_text_def by (rule serialize_array_member [OF e])
  have "serialize (0 + 2 + 2 + 2) (JStr n) = quote n"
    by simp
  with serialize_property [OF name, of "0 + 2 + 2"]
  have c: "sublist (quote (entry_key k) @ ascii '': '' @ quote n) entry_text"
    unfolding entry_text_def by simp
  have "sublist array_text ((quote (kind_key k) @ ascii '': '') @ array_text)"
    by (rule sublist_append_leftI)
  then have "sublist array_text (quote (kind_key k) @ ascii '': '' @ array_text)"
    by simp
  with b have "sublist entry_text (quote (kind_key k) @ ascii '': '' @ array_text)"
    by (rule sublist_trans)
  with c have "sublist (quote (entry_key k) @ ascii '': '' @ quote n)
          (quote (kind_key k) @ ascii '': '' @ array_text)"
    by (rule sublist_trans)
  then show "sublist (quote (entry_key k) @ ascii '': '' @ quote n) (json_stringify info)"
    unfolding json_stringify_def using a by (rule sublist_trans)
qed

lemma server_info_lists:
  assumes "c \<in> set (server_registry cfg)"
  shows "listed (server_info h) (cap_kind c) (cap_name c)"
proof -
  have "listed (server_info h) Tool (ascii ''greeting'')"
    "listed (server_info h) Tool (ascii ''calculator'')"
    "listed (server_info h) Tool (ascii ''get_time'')"
    "listed (server_info h) Tool (ascii ''generate_image'')"
    "listed (server_info h) Tool (ascii ''geocode'')"
    "listed (server_info h) Tool (ascii ''get_weather'')"
    "listed (server_info h) Resource (ascii ''server://info'')"
    "listed (server_info h) Prompt (ascii ''code_review'')"
    by (simp_all add: listed_def server_info_def available_tools_def ascii_eq_iff)
  with assms show ?thesis
    by (auto simp: server_registry_eq registrations_def)
qed

text \<open>
  Claim C9. Dispatching the resource \<^verbatim>\<open>server://info\<close> succeeds, with any arguments, and
  returns one text content, the JSON text of \<^verbatim>\<open>serverInfo\<close>. The text enumerates every
  registered capability with its name and kind: for each of the six tools, the resource
  and the prompt that \<^verbatim>\<open>createServer\<close> registers, \<^verbatim>\<open>serverInfo\<close> has an entry for its name
  in the array of its kind (\<^verbatim>\<open>tools\<close>, \<^verbatim>\<open>resources\<close>, \<^verbatim>\<open>prompts\<close>), and the returned text
  contains the key of the kind and the entry's \<^verbatim>\<open>"name": "<name>"\<close> (for the resource
  \<^verbatim>\<open>"uri": "<name>"\<close>).
\<close>

theorem server_info_lists_registered_capabilities:
  "dispatch (server_registry cfg) h
     \<lparr>req_kind = Resource, req_name = ascii ''server://info'', req_args = raw\<rparr> =
     (Inr (ResourceResult
             [\<lparr>rc_uri = ascii ''server://info'', rc_mime_type = ascii ''application/json'',
               rc_text = json_stringify (server_info h)\<rparr>]), h)
   \<and> (c \<in> set (server_registry cfg) \<longrightarrow>
        listed (server_info h) (cap_kind c) (cap_name c) \<and>
        sublist (quote (kind_key (cap_kind c))) (json_stringify (server_info h)) \<and>
        sublist (quote (entry_key (cap_kind c)) @ ascii '': '' @ quote (cap_name c))
          (json_stringify (server_info h)))
   \<and> map (\<lambda>c. (cap_kind c, cap_name c)) (server_registry cfg) =
       [(Tool, ascii ''greeting''), (Tool, ascii ''calculator''), (Tool, ascii ''get_time''),
        (Tool, ascii ''generate_image''), (Tool, ascii ''geocode''),
        (Tool, ascii ''get_weather''), (Resource, ascii ''server://info''),
        (Prompt, ascii ''code_review'')]"
proof (intro conjI impI)
  show "dispatch (server_registry cfg) h
     \<lparr>req_kind = Resource, req_name = ascii ''server://info'', req_args = raw\<rparr> =
     (Inr (ResourceResult
             [\<lparr>rc_uri = ascii ''server://info'', rc_mime_type = ascii ''application/json'',
               rc_text = json_stringify (server_info h)\<rparr>]), h)"
    by (simp add: dispatch_resolved [OF resolve_server_info] server_info_schema_def
          server_info_handler_def server_info_resource_def normalize_result_def)
next
  assume c: "c \<in> set (server_registry cfg)"
  then show l: "listed (server_info h) (cap_kind c) (cap_name c)"
    by (rule server_info_lists)
  from l show "sublist (quote (kind_key (cap_kind c))) (json_stringify (server_info h))"
    by (rule listed_in_text)
  from l show "sublist (quote (entry_key (cap_kind c)) @ ascii '': '' @ quote (cap_name c))
          (json_stringify (server_info h))"
    by (rule listed_in_text)
next
  show "map (\<lambda>c. (cap_kind c, cap_name c)) (server_registry cfg) =
       [(Tool, ascii ''greeting''), (Tool, ascii ''calculator''), (Tool, ascii ''get_time''),
        (Tool, ascii ''generate_image''), (Tool, ascii ''geocode''),
        (Tool, ascii ''get_weather''), (Resource, ascii ''server://info''),
        (Prompt, ascii ''code_review'')]"
    by (rule registered_names)
qed

text \<open>
  On the example host, for the tool get_weather: the text contains \<^verbatim>\<open>"tools"\<close> and
  \<^verbatim>\<open>"name": "get_weather"\<close>.
\<close>

theorem server_info_lists_registered_capabilities_witness:
  "sublist ([0x22] @ ascii ''tools'' @ [0x22])
     (json_stringify (server_info (example_host JNull)))
   \<and> sublist ([0x22] @ ascii ''name'' @ [0x22] @ ascii '': '' @
               [0x22] @ ascii ''get_weather'' @ [0x22])
       (json_stringify (server_info (example_host JNull)))"
proof -
  have q: "quote (ascii ''tools'') = [0x22] @ ascii ''tools'' @ [0x22]"
    "quote (ascii ''name'') = [0x22] @ ascii ''name'' @ [0x22]"
    "quote (ascii ''get_weather'') = [0x22] @ ascii ''get_weather'' @ [0x22]"
    by code_simp+
  have m: "\<lparr>cap_kind = Tool, cap_name = ascii ''get_weather'',
            cap_schema = get_weather_schema, cap_handler = get_weather_handler\<rparr>
           \<in> set (server_registry \<lparr>hf_token = None\<rparr>)"
    by (simp add: server_registry_eq registrations_def)
  from server_info_lists_registered_capabilities
    [of "\<lparr>hf_token = None\<rparr>" "example_host JNull" Map.empty
        "\<lparr>cap_kind = Tool, cap_name = ascii ''get_weather'',
          cap_schema = get_weather_schema, cap_handler = get_weather_handler\<rparr>"] m
  show ?thesis
    by (simp add: q)
qed

end
